(* ===== verification/Prelude.thy ===== *)
theory Prelude
  imports Main "HOL-Library.Multiset"
begin

text \<open>
  Shared vocabulary of the development: how the JavaScript/TypeScript values the
  program manipulates are represented in HOL, and the generic lemmas the component
  theories share.

  \<^item> A JavaScript string is represented by its UTF-8 encoding, as an Isabelle
    \<open>string\<close> (a list of 8-bit characters). \<open>Buffer.from(s)\<close> is then the identity
    on the representation, and the Thai literals of the source are written as lists
    of Unicode code points through the encoder \<open>utf8\<close>.
  \<^item> A nullable string (\<open>string | null\<close>, an optional JSON field) is a
    \<open>string option\<close>; its JavaScript truthiness is \<open>js_truthy\<close> (null and the
    empty string are falsy) and the idiom \<open>a || b\<close> is \<open>js_or\<close>.
  \<^item> \<open>String.prototype.trim\<close> is \<open>js_trim\<close>, which strips every code point the
    ECMAScript grammar counts as WhiteSpace or LineTerminator, matched on the UTF-8
    encoding.
  \<^item> \<open>Response.ok\<close> is \<open>http_ok\<close>: a status in 200..299.
\<close>

named_theorems js_simps "evaluation rules of the JavaScript helper functions"

declare char_of_eq_iff [js_simps]

lemma eq_char_of_iff [js_simps]: "c = char_of n \<longleftrightarrow> take_bit 8 n = of_char c"
  by (metis char_of_eq_iff)

section \<open>UTF-8 encoding of code points\<close>

fun utf8_char :: "nat \<Rightarrow> string" where
  "utf8_char c =
     (if c < 0x80 then [char_of c]
      else if c < 0x800 then [char_of (0xC0 + c div 64), char_of (0x80 + c mod 64)]
      else if c < 0x10000 then
        [char_of (0xE0 + c div 4096), char_of (0x80 + (c div 64) mod 64),
         char_of (0x80 + c mod 64)]
      else [char_of (0xF0 + c div 262144), char_of (0x80 + (c div 4096) mod 64),
            char_of (0x80 + (c div 64) mod 64), char_of (0x80 + c mod 64)])"

definition utf8 :: "nat list \<Rightarrow> string" where
  "utf8 cs = concat (map utf8_char cs)"

section \<open>Truthiness of nullable strings\<close>

definition js_truthy :: "string option \<Rightarrow> bool" where
  "js_truthy s = (case s of None \<Rightarrow> False | Some x \<Rightarrow> x \<noteq> [])"

definition js_or :: "string option \<Rightarrow> string \<Rightarrow> string" where
  "js_or s d = (case s of Some x \<Rightarrow> if x \<noteq> [] then x else d | None \<Rightarrow> d)"

text \<open>\<open>xs.filter((x): x is string => !!x)\<close> over a list of nullable strings.\<close>

fun truthy_strs :: "string option list \<Rightarrow> string list" where
  "truthy_strs [] = []"
| "truthy_strs (None # xs) = truthy_strs xs"
| "truthy_strs (Some x # xs) = (if x \<noteq> [] then x # truthy_strs xs else truthy_strs xs)"

lemma js_truthy_simps [simp, js_simps]:
  "js_truthy None = False" "js_truthy (Some x) = (x \<noteq> [])"
  by (simp_all add: js_truthy_def)

lemma js_or_simps [simp, js_simps]:
  "js_or None d = d" "js_or (Some x) d = (if x \<noteq> [] then x else d)"
  by (simp_all add: js_or_def)

lemma set_truthy_strs [simp]:
  "set (truthy_strs xs) = {x. Some x \<in> set xs \<and> x \<noteq> []}"
  by (induction xs rule: truthy_strs.induct) auto

lemma truthy_strs_append [simp]:
  "truthy_strs (xs @ ys) = truthy_strs xs @ truthy_strs ys"
  by (induction xs rule: truthy_strs.induct) auto

section \<open>\<open>String.prototype.trim\<close>\<close>

text \<open>
  The UTF-8 encodings of the ECMAScript WhiteSpace and LineTerminator code points:
  TAB, LF, VT, FF, CR, SPACE, U+00A0, U+1680, U+2000..U+200A, U+2028, U+2029,
  U+202F, U+205F, U+3000 and U+FEFF.
\<close>

definition js_space_cps :: "nat list" where
  "js_space_cps = [0x09, 0x0A, 0x0B, 0x0C, 0x0D, 0x20, 0xA0, 0x1680]
     @ [0x2000 ..< 0x200B] @ [0x2028, 0x2029, 0x202F, 0x205F, 0x3000, 0xFEFF]"

definition ws_seqs :: "string list" where
  "ws_seqs =
     [[CHR 0x09], [CHR 0x0A], [CHR 0x0B], [CHR 0x0C], [CHR 0x0D], [CHR 0x20],
      [CHR 0xC2, CHR 0xA0], [CHR 0xE1, CHR 0x9A, CHR 0x80],
      [CHR 0xE2, CHR 0x80, CHR 0x80], [CHR 0xE2, CHR 0x80, CHR 0x81],
      [CHR 0xE2, CHR 0x80, CHR 0x82], [CHR 0xE2, CHR 0x80, CHR 0x83],
      [CHR 0xE2, CHR 0x80, CHR 0x84], [CHR 0xE2, CHR 0x80, CHR 0x85],
      [CHR 0xE2, CHR 0x80, CHR 0x86], [CHR 0xE2, CHR 0x80, CHR 0x87],
      [CHR 0xE2, CHR 0x80, CHR 0x88], [CHR 0xE2, CHR 0x80, CHR 0x89],
      [CHR 0xE2, CHR 0x80, CHR 0x8A], [CHR 0xE2, CHR 0x80, CHR 0xA8],
      [CHR 0xE2, CHR 0x80, CHR 0xA9], [CHR 0xE2, CHR 0x80, CHR 0xAF],
      [CHR 0xE2, CHR 0x81, CHR 0x9F], [CHR 0xE3, CHR 0x80, CHR 0x80],
      [CHR 0xEF, CHR 0xBB, CHR 0xBF]]"

text \<open>The table is the UTF-8 encoding of the code points above.\<close>

lemma ws_seqs_utf8: "ws_seqs = map utf8_char js_space_cps"
  by (simp add: ws_seqs_def js_space_cps_def upt_rec js_simps)

lemma ws_seqs_nonempty: "w \<in> set ws_seqs \<Longrightarrow> w \<noteq> []"
  by (auto simp: ws_seqs_def)

function trim_start :: "string \<Rightarrow> string" where
  "trim_start s =
     (case find (\<lambda>w. take (length w) s = w) ws_seqs of
        None \<Rightarrow> s
      | Some w \<Rightarrow> trim_start (drop (length w) s))"
  by pat_completeness auto
termination
proof (relation "measure length")
  fix s w
  assume "find (\<lambda>w. take (length w) s = w) ws_seqs = Some w"
  then have "w \<in> set ws_seqs" and "take (length w) s = w"
    by (auto simp: find_Some_iff)
  then show "(drop (length w) s, s) \<in> measure length"
    using ws_seqs_nonempty by (cases s) auto
qed simp

function trim_end :: "string \<Rightarrow> string" where
  "trim_end s =
     (case find (\<lambda>w. drop (length s - length w) s = w) ws_seqs of
        None \<Rightarrow> s
      | Some w \<Rightarrow> trim_end (take (length s - length w) s))"
  by pat_completeness auto
termination
proof (relation "measure length")
  fix s w
  assume "find (\<lambda>w. drop (length s - length w) s = w) ws_seqs = Some w"
  then have "w \<in> set ws_seqs" and "drop (length s - length w) s = w"
    by (auto simp: find_Some_iff)
  then show "(take (length s - length w) s, s) \<in> measure length"
    using ws_seqs_nonempty by (cases s) auto
qed simp

declare trim_start.simps [simp del] trim_end.simps [simp del]

definition js_trim :: "string \<Rightarrow> string" where
  "js_trim s = trim_end (trim_start s)"

text \<open>
  \<open>String.prototype.length\<close> counts UTF-16 code units. On the UTF-8 bytes: a
  continuation byte adds nothing, a lead byte of a four-byte sequence (a code
  point above U+FFFF, a surrogate pair) adds two, every other byte one.
\<close>

definition utf16_units :: "char \<Rightarrow> nat" where
  "utf16_units c =
     (let n = of_char c :: nat in
      if n < 0x80 then 1 else if n < 0xC0 then 0 else if n < 0xF0 then 1 else 2)"

definition js_length :: "string \<Rightarrow> nat" where
  "js_length s = sum_list (map utf16_units s)"

section \<open>HTTP\<close>

definition http_ok :: "nat \<Rightarrow> bool" where
  "http_ok st \<longleftrightarrow> 200 \<le> st \<and> st \<le> 299"

lemma http_ok_numerals [simp, js_simps]:
  "http_ok 200" "http_ok 201" "\<not> http_ok 400" "\<not> http_ok 401" "\<not> http_ok 404"
  "\<not> http_ok 500"
  by (simp_all add: http_ok_def)

subsection \<open>Lists with a partial projection (\<open>List.map_filter\<close>)\<close>

lemma map_filter_append [simp]:
  "List.map_filter f (xs @ ys) = List.map_filter f xs @ List.map_filter f ys"
  by (simp add: List.map_filter_def)

lemma set_map_filter: "set (List.map_filter f xs) = {y. \<exists>x\<in>set xs. f x = Some y}"
  by (induction xs) (auto split: option.splits)

lemma map_filter_map_cong:
  "(\<And>x. f (g x) = f x) \<Longrightarrow> List.map_filter f (map g xs) = List.map_filter f xs"
  by (induction xs) (auto split: option.split)

lemma distinct_map_filter_snoc:
  assumes "distinct (List.map_filter f xs)" and "f r = None \<or> (\<forall>u\<in>set xs. f u \<noteq> f r)"
  shows "distinct (List.map_filter f (xs @ [r]))"
  using assms by (cases "f r") (auto simp: set_map_filter)


lemma find_snoc_None: "find P xs = None \<Longrightarrow> find P (xs @ [r]) = (if P r then Some r else None)"
  by (induction xs) (auto split: if_splits)

lemma utf8_append: "utf8 (xs @ ys) = utf8 xs @ utf8 ys"
  by (simp add: utf8_def)

end
