(* ===== verification/Store.thy ===== *)
theory Store
  imports Prelude
begin

text \<open>
  The relational store behind \<open>@/lib/prisma\<close>: the \<open>User\<close> and
  \<open>PushSubscription\<close> tables and the Prisma client calls the routes make
  (\<open>findUnique\<close>, \<open>findMany\<close>, \<open>create\<close>, \<open>update\<close>, \<open>delete\<close>). The schema
  and the client are not part of the repository; the columns are those the code
  reads and writes, and each operation is the behaviour of the Prisma call it is
  named after. Unique columns (\<open>id\<close>, \<open>username\<close>, \<open>email\<close>,
  \<open>line_user_id\<close>) are the store invariant \<open>db_wf\<close>.
\<close>

datatype login_provider = CREDENTIALS | GOOGLE | LINE

record user_row =
  uid :: nat
  username :: "string option"
  email :: "string option"
  password_hash :: "string option"
  line_user_id :: "string option"
  line_display_name :: "string option"
  line_picture_url :: "string option"
  login_provider :: "login_provider option"
  google_refresh_token :: "string option"
  can_receive_email :: bool
  can_receive_line :: bool
  can_receive_push :: bool
  created_at :: nat

record push_subscription =
  sub_id :: nat
  user_id :: nat
  endpoint :: string
  p256dh_key :: string
  auth_key :: string
  is_active :: bool

text \<open>
  The store: the two tables, the next value of the autoincrement key, and a clock
  that stamps \<open>created_at\<close>.
\<close>

record db =
  users :: "user_row list"
  push_subs :: "push_subscription list"
  next_user_id :: nat
  now :: nat

text \<open>
  A row before \<open>create\<close> fills it in: every nullable column NULL, every flag
  false, id and timestamp still unassigned.
\<close>

definition blank_user :: user_row where
  "blank_user =
     \<lparr>uid = 0, username = None, email = None, password_hash = None, line_user_id = None,
      line_display_name = None, line_picture_url = None, login_provider = None,
      google_refresh_token = None, can_receive_email = False, can_receive_line = False,
      can_receive_push = False, created_at = 0\<rparr>"

section \<open>Prisma client operations\<close>

text \<open>\<open>prisma.user.findUnique({ where: ... })\<close>: the row whose unique column matches.\<close>

definition find_user :: "(user_row \<Rightarrow> bool) \<Rightarrow> db \<Rightarrow> user_row option" where
  "find_user P d = find P (users d)"

text \<open>
  The unique columns of \<open>User\<close>: a row may be inserted only if no stored row
  shares a non-NULL \<open>username\<close>, \<open>email\<close> or \<open>line_user_id\<close> with it.
\<close>

definition unique_ok :: "user_row \<Rightarrow> db \<Rightarrow> bool" where
  "unique_ok r d \<longleftrightarrow>
     list_all (\<lambda>u. (username r = None \<or> username u \<noteq> username r) \<and>
                  (email r = None \<or> email u \<noteq> email r) \<and>
                  (line_user_id r = None \<or> line_user_id u \<noteq> line_user_id r)) (users d)"

text \<open>
  \<open>prisma.user.create({ data })\<close>: the row gets the next autoincrement id and the
  current time; the created row is returned. The insert fails (\<open>None\<close>) on a
  unique-constraint violation (P2002) and, the id column being a 32-bit \<open>Int\<close>,
  once the sequence has passed \<open>2^31 - 1\<close>. A failed insert leaves the store
  unchanged.
\<close>

definition create_user :: "user_row \<Rightarrow> db \<Rightarrow> (user_row \<times> db) option" where
  "create_user r d =
     (if next_user_id d < 2 ^ 31 \<and> unique_ok r d then
        let r' = r\<lparr>uid := next_user_id d, created_at := now d\<rparr>
        in Some (r', d\<lparr>users := users d @ [r'], next_user_id := Suc (next_user_id d),
                      now := Suc (now d)\<rparr>)
      else None)"

text \<open>\<open>prisma.user.update({ where, data })\<close> on a unique column.\<close>

definition update_user :: "(user_row \<Rightarrow> bool) \<Rightarrow> (user_row \<Rightarrow> user_row) \<Rightarrow> db \<Rightarrow> db" where
  "update_user P f d = d\<lparr>users := map (\<lambda>r. if P r then f r else r) (users d)\<rparr>"

text \<open>
  A field of an update's \<open>data\<close>: \<open>undefined\<close> (\<open>None\<close>) leaves the column as it
  is, a value overwrites it.
\<close>

definition prisma_set :: "'a option \<Rightarrow> 'a option \<Rightarrow> 'a option" where
  "prisma_set v old = (case v of None \<Rightarrow> old | Some x \<Rightarrow> Some x)"

text \<open>\<open>prisma.user.findMany({ orderBy: { created_at: 'desc' } })\<close>.\<close>

definition users_newest_first :: "db \<Rightarrow> user_row list" where
  "users_newest_first d = rev (sort_key created_at (users d))"

text \<open>\<open>prisma.pushSubscription.findMany({ where: { user_id, is_active: true } })\<close>.\<close>

definition active_subs :: "nat \<Rightarrow> db \<Rightarrow> push_subscription list" where
  "active_subs n d = filter (\<lambda>s. user_id s = n \<and> is_active s) (push_subs d)"

text \<open>
  \<open>prisma.pushSubscription.delete({ where: { id } })\<close>: Prisma raises when no row
  has the id (error P2025), which is \<open>None\<close> here.
\<close>

definition delete_sub :: "nat \<Rightarrow> db \<Rightarrow> db option" where
  "delete_sub i d =
     (if i \<in> set (map sub_id (push_subs d))
      then Some (d\<lparr>push_subs := filter (\<lambda>s. sub_id s \<noteq> i) (push_subs d)\<rparr>)
      else None)"

section \<open>Store invariant\<close>

definition db_wf :: "db \<Rightarrow> bool" where
  "db_wf d \<longleftrightarrow>
     distinct (map uid (users d)) \<and>
     distinct (List.map_filter username (users d)) \<and>
     distinct (List.map_filter email (users d)) \<and>
     distinct (List.map_filter line_user_id (users d)) \<and>
     list_all (\<lambda>r. uid r < next_user_id d \<and> created_at r < now d) (users d) \<and>
     next_user_id d \<le> 2 ^ 31 \<and>
     distinct (map sub_id (push_subs d))"

definition empty_db :: db where
  "empty_db = \<lparr>users = [], push_subs = [], next_user_id = 1, now = 0\<rparr>"

section \<open>Abstract view: the table as a map from ids to rows\<close>

definition users_map :: "db \<Rightarrow> nat \<rightharpoonup> user_row" where
  "users_map d = map_of (map (\<lambda>r. (uid r, r)) (users d))"

lemma db_wf_empty: "db_wf empty_db"
  by (simp add: db_wf_def empty_db_def List.map_filter_simps)


lemma create_user_SomeD:
  assumes "create_user r d = Some (r', d')"
  shows "r' = r\<lparr>uid := next_user_id d, created_at := now d\<rparr>"
    and "d' = d\<lparr>users := users d @ [r'], next_user_id := Suc (next_user_id d), now := Suc (now d)\<rparr>"
    and "next_user_id d < 2 ^ 31" and "unique_ok r d"
  using assms by (auto simp: create_user_def Let_def split: if_splits)

lemma db_wf_create_user:
  assumes "db_wf d" and "create_user r d = Some (r', d')"
  shows "db_wf d'"
proof -
  note c = create_user_SomeD [OF assms(2)]
  have u: "list_all (\<lambda>u. (username r = None \<or> username u \<noteq> username r) \<and>
                  (email r = None \<or> email u \<noteq> email r) \<and>
                  (line_user_id r = None \<or> line_user_id u \<noteq> line_user_id r)) (users d)"
    using c(4) by (simp add: unique_ok_def)
  have "distinct (List.map_filter username (users d @ [r']))"
    using assms(1) u c(1) by (intro distinct_map_filter_snoc) (auto simp: db_wf_def list_all_iff)
  moreover have "distinct (List.map_filter email (users d @ [r']))"
    using assms(1) u c(1) by (intro distinct_map_filter_snoc) (auto simp: db_wf_def list_all_iff)
  moreover have "distinct (List.map_filter line_user_id (users d @ [r']))"
    using assms(1) u c(1) by (intro distinct_map_filter_snoc) (auto simp: db_wf_def list_all_iff)
  moreover have "next_user_id d \<notin> uid ` set (users d)"
    using assms(1) by (auto simp: db_wf_def list_all_iff)
  ultimately show ?thesis
    using assms(1) c(1,2,3) by (auto simp: db_wf_def list_all_iff)
qed

lemma map_update_same:
  "(\<And>r. g (f r) = g r) \<Longrightarrow> map (g \<circ> (\<lambda>r. if P r then f r else r)) xs = map g xs"
  by (induction xs) auto

lemma db_wf_update_user:
  assumes "db_wf d"
    and "\<And>r. uid (f r) = uid r" "\<And>r. username (f r) = username r" "\<And>r. email (f r) = email r"
    and "\<And>r. line_user_id (f r) = line_user_id r" "\<And>r. created_at (f r) = created_at r"
  shows "db_wf (update_user P f d)"
  using assms(1)
  by (auto simp: db_wf_def update_user_def map_filter_map_cong assms(2-6) list_all_iff
      map_update_same [where g = uid, OF assms(2)])

lemma db_wf_delete_sub:
  assumes "db_wf d" and "delete_sub i d = Some d'"
  shows "db_wf d'"
  using assms by (auto simp: db_wf_def delete_sub_def distinct_map_filter split: if_splits)


lemma find_user_SomeD: "find_user P d = Some r \<Longrightarrow> r \<in> set (users d) \<and> P r"
  by (auto simp: find_user_def find_Some_iff nth_mem)


lemma find_user_snoc_new:
  assumes "find_user P d = None" and "P r"
  shows "find_user P (d\<lparr>users := users d @ [r], next_user_id := n, now := t\<rparr>) = Some r"
  using assms by (simp add: find_user_def find_snoc_None)


lemma dom_users_map: "dom (users_map d) = uid ` set (users d)"
  by (simp add: users_map_def dom_map_of_conv_image_fst image_image)

text \<open>
  The list-based \<open>User\<close> table refines a finite map from ids to rows: on a
  well-formed store, \<open>create\<close> adds exactly one binding, at the fresh key
  \<open>next_user_id\<close>.
\<close>

theorem create_user_refines:
  assumes "db_wf d" and "create_user r d = Some (r', d')"
  shows "users_map d' = (users_map d)(uid r' \<mapsto> r') \<and> uid r' \<notin> dom (users_map d) \<and>
         uid r' = next_user_id d"
proof -
  note c = create_user_SomeD [OF assms(2)]
  have fresh: "uid r' \<notin> dom (users_map d)"
    using assms(1) c(1) by (auto simp: dom_users_map db_wf_def list_all_iff)
  have "users_map d' = map_of [(uid r', r')] ++ users_map d"
    using c(2) by (simp add: users_map_def map_of_append)
  also have "\<dots> = (users_map d)(uid r' \<mapsto> r')"
    using fresh by (auto simp: map_add_def fun_eq_iff split: option.split)
  finally show ?thesis using fresh c(1) by simp
qed

lemma update_user_refines:
  assumes "\<And>x. uid (f x) = uid x"
  shows "users_map (update_user P f d) = (\<lambda>i. map_option (\<lambda>x. if P x then f x else x) (users_map d i))"
proof -
  have "map_of (map (\<lambda>r. (uid r, r)) (map (\<lambda>r. if P r then f r else r) xs)) i =
        map_option (\<lambda>x. if P x then f x else x) (map_of (map (\<lambda>r. (uid r, r)) xs) i)" for xs i
    using assms by (induction xs) auto
  then show ?thesis by (simp add: users_map_def update_user_def fun_eq_iff)
qed

end
