(* ===== verification/Ids.thy ===== *)
theory Ids
  imports Complex_Main Prelude
begin

text \<open>
  Record ids travel as strings: the page sends \<open>user.id.toString()\<close> to the
  client, the client posts it back in a JSON body, and the routes read it with
  \<open>parseInt(userId)\<close> (the Gmail route) or \<open>Number(userId)\<close> (the push route).
  This theory holds the three JavaScript conversions as the ECMAScript
  specification defines them, with the rounding of the result to an IEEE 754
  binary64 number, and the fact that connects them: a printed id below 2^53 parses
  back to itself.
\<close>

definition digit_char :: "nat \<Rightarrow> char" where
  "digit_char n = char_of (48 + n)"

text \<open>\<open>Number.prototype.toString()\<close> on a non-negative integer (radix 10).\<close>

fun dec_string :: "nat \<Rightarrow> string" where
  "dec_string n =
     (if n < 10 then [digit_char n] else dec_string (n div 10) @ [digit_char (n mod 10)])"

declare dec_string.simps [simp del]

definition is_digit :: "char \<Rightarrow> bool" where
  "is_digit c \<longleftrightarrow> (48::nat) \<le> of_char c \<and> (of_char c :: nat) \<le> 57"

definition hex_value :: "char \<Rightarrow> nat option" where
  "hex_value c =
     (let n = (of_char c :: nat) in
      if 48 \<le> n \<and> n \<le> 57 then Some (n - 48)
      else if 97 \<le> n \<and> n \<le> 102 then Some (n - 87)
      else if 65 \<le> n \<and> n \<le> 70 then Some (n - 55)
      else None)"

definition digit_value :: "nat \<Rightarrow> char \<Rightarrow> nat option" where
  "digit_value base c =
     (case hex_value c of Some v \<Rightarrow> if v < base then Some v else None | None \<Rightarrow> None)"

definition is_radix_digit :: "nat \<Rightarrow> char \<Rightarrow> bool" where
  "is_radix_digit base c \<longleftrightarrow> digit_value base c \<noteq> None"

text \<open>The value of a run of digits in a radix, most significant first.\<close>

definition radix_val :: "nat \<Rightarrow> string \<Rightarrow> nat" where
  "radix_val base ds =
     foldl (\<lambda>acc c. base * acc + (case digit_value base c of Some v \<Rightarrow> v | None \<Rightarrow> 0)) 0 ds"

section \<open>Rounding to binary64\<close>

text \<open>
  A JavaScript number is an IEEE 754 binary64 value. \<open>round_binary64 v\<close> is the
  value \<open>roundTiesToEven\<close> gives the rational \<open>v\<close>: 53 significant bits for a
  normal number, the fixed quantum 2^-1074 below 2^-1022, and \<open>None\<close> (an
  infinity) when the rounded magnitude reaches 2^1024.
\<close>

definition rat_pow :: "nat \<Rightarrow> int \<Rightarrow> rat" where
  "rat_pow b e = (if 0 \<le> e then of_nat b ^ nat e else inverse (of_nat b ^ nat (- e)))"

function int_log2 :: "int \<Rightarrow> nat" where
  "int_log2 n = (if n < 2 then 0 else Suc (int_log2 (n div 2)))"
  by auto
termination by (relation "measure nat") auto

declare int_log2.simps [simp del]

text \<open>\<open>rat_log2 a\<close> is the \<open>e\<close> with \<open>2^e \<le> a < 2^(e+1)\<close>, for a positive \<open>a\<close>.\<close>

definition rat_log2 :: "rat \<Rightarrow> int" where
  "rat_log2 a =
     (let (p, q) = quotient_of a; k = int (int_log2 p) - int (int_log2 q)
      in if a < rat_pow 2 k then k - 1 else k)"

definition round_even :: "rat \<Rightarrow> int" where
  "round_even x =
     (let f = \<lfloor>x\<rfloor>; d = x - of_int f
      in if d < 1 / 2 then f else if 1 / 2 < d then f + 1 else if even f then f else f + 1)"

definition round_binary64 :: "rat \<Rightarrow> rat option" where
  "round_binary64 v =
     (if v = 0 then Some 0
      else
        let a = \<bar>v\<bar>;
            q = max (rat_log2 a - 52) (- 1074);
            r = of_int (round_even (a / rat_pow 2 q)) * rat_pow 2 q
        in if rat_pow 2 1024 \<le> r then None else Some (if v < 0 then - r else r))"

text \<open>A binary64 value that is an integer, as that integer (\<open>Number.isInteger\<close>).\<close>

definition integral :: "rat option \<Rightarrow> int option" where
  "integral r = (case r of Some x \<Rightarrow> if x = of_int \<lfloor>x\<rfloor> then Some \<lfloor>x\<rfloor> else None | None \<Rightarrow> None)"

section \<open>\<open>parseInt\<close> and \<open>Number\<close>\<close>

text \<open>
  \<open>parseInt(s)\<close> with no radix: leading white space is skipped, an optional sign
  is read, a \<open>0x\<close>/\<open>0X\<close> prefix selects radix 16, and the longest run of digits
  is converted and rounded to binary64; no digit at all is \<open>NaN\<close>. The result is
  the integer when it is finite; \<open>NaN\<close> and an infinity are \<open>None\<close>.
\<close>

definition parse_int :: "string \<Rightarrow> int option" where
  "parse_int s =
     (let t = trim_start s;
          (sg, r) = (case t of
                       c # r \<Rightarrow> if c = CHR ''-'' then (-1::int, r)
                               else if c = CHR ''+'' then (1, r) else (1, t)
                     | [] \<Rightarrow> (1, []));
          (base, r2) = (if take 2 r = ''0x'' \<or> take 2 r = ''0X'' then (16::nat, drop 2 r)
                        else (10, r));
          ds = takeWhile (is_radix_digit base) r2
      in if ds = [] then None
         else integral (round_binary64 (of_int (sg * int (radix_val base ds)))))"

text \<open>
  \<open>Number(s)\<close> on a string (ECMAScript \<open>StringToNumber\<close>): the white-space
  trimmed string must be empty (0), a \<open>0x\<close>, \<open>0o\<close> or \<open>0b\<close> literal, or a
  signed \<open>StrUnsignedDecimalLiteral\<close> (\<open>Infinity\<close>, or digits with an optional
  fraction and exponent); anything else is \<open>NaN\<close>. Its mathematical value is
  rounded to binary64 (Node rounds correctly at every length). The program passes
  the result to a Prisma \<open>Int\<close>, so what matters is whether it is an integer:
  \<open>js_number\<close> is that integer, or \<open>None\<close> for \<open>NaN\<close>, an infinity or a
  fraction.
\<close>

datatype num_lit = NumInf | NumVal rat

definition dec_digits :: "string \<Rightarrow> int option" where
  "dec_digits ds = (if ds \<noteq> [] \<and> list_all is_digit ds then Some (int (radix_val 10 ds)) else None)"

definition signed_int :: "string \<Rightarrow> int option" where
  "signed_int r =
     (case r of
        c # ds \<Rightarrow> if c = CHR ''+'' then dec_digits ds
                 else if c = CHR ''-'' then map_option uminus (dec_digits ds) else dec_digits r
      | [] \<Rightarrow> None)"

definition decimal_mv :: "string \<Rightarrow> rat option" where
  "decimal_mv u =
     (let ip = takeWhile is_digit u; r1 = dropWhile is_digit u;
          (fp, r2) = (case r1 of
                        c # r \<Rightarrow> if c = CHR ''.'' then (takeWhile is_digit r, dropWhile is_digit r)
                                else ([], r1)
                      | [] \<Rightarrow> ([], []));
          ex = (case r2 of
                  [] \<Rightarrow> Some 0
                | c # r \<Rightarrow> if c = CHR ''e'' \<or> c = CHR ''E'' then signed_int r else None)
      in if ip = [] \<and> fp = [] then None
         else map_option (\<lambda>e. of_nat (radix_val 10 (ip @ fp)) * rat_pow 10 (e - int (length fp))) ex)"

definition non_decimal_mv :: "string \<Rightarrow> rat option" where
  "non_decimal_mv t =
     (case t of
        c0 # c1 # ds \<Rightarrow>
          (let base = (if c1 = CHR ''x'' \<or> c1 = CHR ''X'' then 16
                       else if c1 = CHR ''o'' \<or> c1 = CHR ''O'' then 8
                       else if c1 = CHR ''b'' \<or> c1 = CHR ''B'' then 2 else 0::nat)
           in if c0 = CHR ''0'' \<and> base \<noteq> 0 \<and> ds \<noteq> [] \<and> list_all (is_radix_digit base) ds
              then Some (of_nat (radix_val base ds)) else None)
      | _ \<Rightarrow> None)"

definition str_numeric :: "string \<Rightarrow> num_lit option" where
  "str_numeric t =
     (if t = [] then Some (NumVal 0)
      else case non_decimal_mv t of
        Some v \<Rightarrow> Some (NumVal v)
      | None \<Rightarrow>
          let (sg, u) = (case t of
                           c # r \<Rightarrow> if c = CHR ''-'' then (-1::rat, r)
                                   else if c = CHR ''+'' then (1, r) else (1, t)
                         | [] \<Rightarrow> (1, []))
          in if u = ''Infinity'' then Some NumInf
             else map_option (\<lambda>v. NumVal (sg * v)) (decimal_mv u))"

definition js_number :: "string \<Rightarrow> int option" where
  "js_number s =
     (case str_numeric (js_trim s) of
        Some (NumVal v) \<Rightarrow> integral (round_binary64 v)
      | _ \<Rightarrow> None)"

section \<open>Rounding integers\<close>

lemma int_log2_bounds: "1 \<le> n \<Longrightarrow> 2 ^ int_log2 n \<le> n \<and> n < 2 ^ Suc (int_log2 n)"
proof (induction n rule: int_log2.induct)
  case (1 n)
  show ?case
  proof (cases "n < 2")
    case True
    then have "int_log2 n = 0" by (subst int_log2.simps) simp
    with True "1.prems" show ?thesis by simp
  next
    case False
    then have ih: "2 ^ int_log2 (n div 2) \<le> n div 2 \<and> n div 2 < 2 ^ Suc (int_log2 (n div 2))"
      using "1.IH" by simp
    have "int_log2 n = Suc (int_log2 (n div 2))" using False by (subst int_log2.simps) simp
    with ih show ?thesis by auto
  qed
qed

lemma round_even_int [simp]: "round_even (of_int m) = m"
  by (simp add: round_even_def)

lemma round_binary64_int:
  assumes "\<bar>n\<bar> < 2 ^ 53"
  shows "round_binary64 (of_int n) = Some (of_int n)"
proof (cases "n = 0")
  case False
  define m where "m = \<bar>n\<bar>"
  define k where "k = int_log2 m"
  have m1: "1 \<le> m" using False by (simp add: m_def)
  have kb: "2 ^ int_log2 m \<le> m" "m < 2 ^ Suc (int_log2 m)" using int_log2_bounds [OF m1] by auto
  have p53: "(2::int) ^ int_log2 m < 2 ^ 53" using kb(1) assms by (simp add: m_def)
  have "int_log2 m < 53" by (rule power_less_imp_less_exp [OF _ p53]) simp
  then have k52: "int_log2 m \<le> 52" by simp
  have lg: "rat_log2 (of_int m) = int k"
  proof -
    have "\<not> (of_int m :: rat) < rat_pow 2 (int (int_log2 m))"
      using kb(1) by (simp add: rat_pow_def)
    then show ?thesis by (simp add: rat_log2_def k_def int_log2.simps [of 1])
  qed
  have q: "max (int k - 52) (- 1074) = - int (52 - k)" using k52 by (simp add: k_def)
  have nk: "nat (- (- int (52 - k))) = 52 - k" by simp
  have div: "of_int m / rat_pow 2 (- int (52 - k)) = of_int (m * 2 ^ (52 - k))"
    by (simp only: rat_pow_def nk) (simp add: divide_inverse)
  have mul_back: "of_int (m * 2 ^ (52 - k)) * rat_pow 2 (- int (52 - k)) = (of_int m :: rat)"
    by (simp only: rat_pow_def nk) simp
  have small: "\<not> rat_pow 2 1024 \<le> (of_int m :: rat)"
  proof -
    have "m < 2 ^ 1024" using assms by (simp add: m_def)
    then show ?thesis by (simp add: rat_pow_def)
  qed
  have a: "\<bar>of_int n\<bar> = (of_int m :: rat)" by (simp add: m_def)
  have sg: "(if (of_int n :: rat) < 0 then - of_int m else of_int m) = of_int n"
    by (simp add: m_def)
  have r: "of_int (round_even (of_int m / rat_pow 2 (- int (52 - k)))) * rat_pow 2 (- int (52 - k))
            = (of_int m :: rat)"
    by (simp only: div round_even_int mul_back)
  show ?thesis
    using False small unfolding round_binary64_def Let_def a lg q r by (simp add: m_def)
qed (simp add: round_binary64_def)

lemma digit_char_numerals [js_simps]:
  "digit_char 0 = CHR ''0''" "digit_char 1 = CHR ''1''" "digit_char 2 = CHR ''2''"
  "digit_char 3 = CHR ''3''" "digit_char 4 = CHR ''4''" "digit_char 5 = CHR ''5''"
  "digit_char 6 = CHR ''6''" "digit_char 7 = CHR ''7''" "digit_char 8 = CHR ''8''"
  "digit_char 9 = CHR ''9''" "digit_char (Suc 0) = CHR ''1''"
  by (simp_all add: digit_char_def js_simps)

section \<open>Printed ids parse back\<close>

lemma digit_value_digit_char [simp]: "k < 10 \<Longrightarrow> digit_value 10 (digit_char k) = Some k"
  by (simp add: digit_value_def hex_value_def digit_char_def)

lemma is_digit_digit_char [simp]: "k < 10 \<Longrightarrow> is_digit (digit_char k)"
  by (simp add: is_digit_def digit_char_def)

lemma radix_val_snoc: "radix_val b (xs @ [c]) = b * radix_val b xs + (case digit_value b c of Some v \<Rightarrow> v | None \<Rightarrow> 0)"
  by (simp add: radix_val_def)

lemma dec_string_ne [simp]: "dec_string n \<noteq> []"
  by (subst dec_string.simps) simp

lemma dec_string_digits: "list_all is_digit (dec_string n)"
proof (induction n rule: dec_string.induct)
  case (1 n)
  then show ?case by (subst dec_string.simps) simp
qed

lemma dec_string_value: "radix_val 10 (dec_string n) = n"
proof (induction n rule: dec_string.induct)
  case (1 n)
  show ?case
  proof (cases "n < 10")
    case True
    then show ?thesis by (subst dec_string.simps) (simp add: radix_val_def)
  next
    case False
    with "1.IH" show ?thesis by (subst dec_string.simps) (simp add: radix_val_snoc)
  qed
qed

lemma dec_string_inj [simp]: "dec_string m = dec_string n \<longleftrightarrow> m = n"
  by (metis dec_string_value)

lemma digit_digit_value: "is_digit c \<Longrightarrow> digit_value 10 c \<noteq> None"
  unfolding is_digit_def digit_value_def hex_value_def Let_def by auto

lemma ws_seqs_boundary: "w \<in> set ws_seqs \<Longrightarrow> w \<noteq> [] \<and> \<not> is_digit (hd w) \<and> \<not> is_digit (last w)"
  by (auto simp: ws_seqs_def is_digit_def)

lemma ws_not_digit_start: "is_digit c \<Longrightarrow> find (\<lambda>w. take (length w) (c # r) = w) ws_seqs = None"
proof (rule ccontr)
  assume d: "is_digit c" and "find (\<lambda>w. take (length w) (c # r) = w) ws_seqs \<noteq> None"
  then obtain w where w: "w \<in> set ws_seqs" and t: "take (length w) (c # r) = w"
    by (auto simp: find_None_iff)
  with ws_seqs_boundary have "w \<noteq> []" and "\<not> is_digit (hd w)" by auto
  with t have "hd w = c" by (cases w) auto
  with d \<open>\<not> is_digit (hd w)\<close> show False by simp
qed

lemma ws_not_digit_end: "s \<noteq> [] \<Longrightarrow> is_digit (last s) \<Longrightarrow> find (\<lambda>w. drop (length s - length w) s = w) ws_seqs = None"
proof (rule ccontr)
  assume s: "s \<noteq> []" and d: "is_digit (last s)"
    and "find (\<lambda>w. drop (length s - length w) s = w) ws_seqs \<noteq> None"
  then obtain w where w: "w \<in> set ws_seqs" and t: "drop (length s - length w) s = w"
    by (auto simp: find_None_iff)
  with ws_seqs_boundary have "w \<noteq> []" and "\<not> is_digit (last w)" by auto
  with s t have "last w = last s" by (metis last_drop drop_eq_Nil2 linorder_not_le)
  with d \<open>\<not> is_digit (last w)\<close> show False by simp
qed

lemma trim_start_digit:
  assumes "is_digit c" shows "trim_start (c # r) = c # r"
proof -
  from assms have "find (\<lambda>w. take (length w) (c # r) = w) ws_seqs = None"
    by (rule ws_not_digit_start)
  then show ?thesis by (subst trim_start.simps) (simp only: option.case)
qed

lemma trim_end_digit:
  assumes "s \<noteq> []" and "is_digit (last s)" shows "trim_end s = s"
proof -
  from assms have "find (\<lambda>w. drop (length s - length w) s = w) ws_seqs = None"
    by (rule ws_not_digit_end)
  then show ?thesis by (subst trim_end.simps) (simp only: option.case)
qed

lemma dec_string_trim: "trim_start (dec_string n) = dec_string n" "js_trim (dec_string n) = dec_string n"
proof -
  obtain c r where cr: "dec_string n = c # r" by (cases "dec_string n") auto
  have all: "list_all is_digit (dec_string n)" by (rule dec_string_digits)
  then have "is_digit c" by (simp add: cr)
  then show t: "trim_start (dec_string n) = dec_string n" by (simp add: cr trim_start_digit)
  from all have "is_digit (last (dec_string n))" by (simp add: list_all_iff)
  then show "js_trim (dec_string n) = dec_string n" by (simp add: js_trim_def t trim_end_digit)
qed

lemma takeWhile_digits: "list_all is_digit s \<Longrightarrow> takeWhile (is_radix_digit 10) s = s"
  by (induction s) (auto simp: digit_digit_value is_radix_digit_def)




lemma integral_of_int [simp]: "integral (Some (of_int n)) = Some n"
  by (simp add: integral_def)

lemma integral_of_nat [simp]: "integral (Some (of_nat n)) = Some (int n)"
  by (simp add: integral_def)

lemma digit_not_radix_letter:
  "is_digit c \<Longrightarrow> c \<noteq> CHR ''x'' \<and> c \<noteq> CHR ''X'' \<and> c \<noteq> CHR ''o'' \<and> c \<noteq> CHR ''O'' \<and>
     c \<noteq> CHR ''b'' \<and> c \<noteq> CHR ''B''"
  by (auto simp: is_digit_def)

lemma non_decimal_digits:
  assumes "list_all is_digit t"
  shows "non_decimal_mv t = None"
proof (cases t)
  case (Cons c0 r)
  show ?thesis
  proof (cases r)
    case (Cons c1 ds)
    with \<open>t = c0 # r\<close> assms have "is_digit c1" by simp
    then have "c1 \<noteq> CHR ''x'' \<and> c1 \<noteq> CHR ''X'' \<and> c1 \<noteq> CHR ''o'' \<and> c1 \<noteq> CHR ''O'' \<and>
               c1 \<noteq> CHR ''b'' \<and> c1 \<noteq> CHR ''B''"
      by (rule digit_not_radix_letter)
    with \<open>t = c0 # r\<close> Cons show ?thesis by (simp add: non_decimal_mv_def Let_def)
  qed (simp add: non_decimal_mv_def \<open>t = c0 # r\<close>)
qed (simp add: non_decimal_mv_def)

lemma decimal_mv_digits: "u \<noteq> [] \<Longrightarrow> list_all is_digit u \<Longrightarrow> decimal_mv u = Some (of_nat (radix_val 10 u))"
proof -
  assume "u \<noteq> []" and d: "list_all is_digit u"
  moreover have tw: "takeWhile is_digit u = u" and dw: "dropWhile is_digit u = []"
    using d by (simp_all add: list_all_iff)
  ultimately show ?thesis by (simp add: decimal_mv_def rat_pow_def Let_def tw dw)
qed

lemma dec_string_parses:
  assumes "n < 2 ^ 53"
  shows "parse_int (dec_string n) = Some (int n)" "js_number (dec_string n) = Some (int n)"
proof -
  obtain c r where cr: "dec_string n = c # r" by (cases "dec_string n") auto
  have all: "list_all is_digit (c # r)" using dec_string_digits cr by metis
  then have sign: "c \<noteq> CHR ''-''" "c \<noteq> CHR ''+''" "c \<noteq> CHR ''I''" by (auto simp: is_digit_def)
  have rnd: "round_binary64 (of_int (int n)) = Some (of_int (int n))"
    using assms by (intro round_binary64_int) simp
  moreover have "take 2 (c # r) \<noteq> ''0x'' \<and> take 2 (c # r) \<noteq> ''0X''"
    using all by (cases r) (auto simp: is_digit_def)
  ultimately have "parse_int (dec_string n) = integral (round_binary64 (of_int (int n)))"
    using all sign dec_string_value[of n] dec_string_trim(1)[of n]
    by (auto simp: parse_int_def cr takeWhile_digits Let_def is_radix_digit_def digit_digit_value
        simp del: of_int_of_nat_eq)
  then show "parse_int (dec_string n) = Some (int n)" using rnd by simp
  have "str_numeric (dec_string n) = Some (NumVal (of_nat n))"
    using all sign dec_string_value[of n]
    by (simp add: str_numeric_def cr decimal_mv_digits non_decimal_digits [OF all])
  then show "js_number (dec_string n) = Some (int n)"
    using rnd by (simp add: js_number_def dec_string_trim(2))
qed

text \<open>
  \<open>Number\<close> accepts more spellings of an id than the page prints: a zero fraction
  reads as the same integer, so the push route treats \<open>"12.0"\<close> as user 12.
\<close>

lemma non_decimal_second:
  "c1 \<noteq> CHR ''x'' \<and> c1 \<noteq> CHR ''X'' \<and> c1 \<noteq> CHR ''o'' \<and> c1 \<noteq> CHR ''O'' \<and> c1 \<noteq> CHR ''b'' \<and> c1 \<noteq> CHR ''B''
   \<Longrightarrow> non_decimal_mv (c0 # c1 # r) = None"
  by (simp add: non_decimal_mv_def Let_def)

lemma js_number_point_zero:
  assumes "n < 2 ^ 53"
  shows "js_number (dec_string n @ ''.0'') = Some (int n)"
proof -
  obtain c r where cr: "dec_string n = c # r" by (cases "dec_string n") auto
  have all: "list_all is_digit (c # r)" using dec_string_digits cr by metis
  then have c: "is_digit c" "c \<noteq> CHR ''-''" "c \<noteq> CHR ''+''" by (auto simp: is_digit_def)
  have tw: "takeWhile is_digit (dec_string n @ ''.0'') = dec_string n"
    and dw: "dropWhile is_digit (dec_string n @ ''.0'') = ''.0''"
    using all cr by (simp_all add: takeWhile_append2 dropWhile_append3 list_all_iff is_digit_def)
  have dot: "\<not> is_digit (CHR ''.'')" "is_digit (CHR ''0'')" by (simp_all add: is_digit_def)
  have "decimal_mv (dec_string n @ ''.0'') =
        Some (of_nat (radix_val 10 (dec_string n @ ''0'')) * rat_pow 10 (- 1))"
    unfolding decimal_mv_def Let_def tw dw using dot by simp
  also have "radix_val 10 (dec_string n @ ''0'') = 10 * n"
    using radix_val_snoc [of 10 "dec_string n" "CHR ''0''"] dec_string_value [of n]
    by (simp add: digit_value_def hex_value_def)
  finally have dm: "decimal_mv (dec_string n @ ''.0'') = Some (of_nat n)"
    by (simp add: rat_pow_def)
  have nd: "non_decimal_mv (dec_string n @ ''.0'') = None"
  proof (cases r)
    case Nil then show ?thesis using cr by (simp add: non_decimal_second)
  next
    case (Cons c1 ds)
    then have "is_digit c1" using all by simp
    then show ?thesis using cr Cons by (simp add: non_decimal_second digit_not_radix_letter)
  qed
  have trim: "js_trim (dec_string n @ ''.0'') = dec_string n @ ''.0''"
    using cr c(1) by (simp add: js_trim_def trim_start_digit trim_end_digit is_digit_def)
  have "str_numeric (dec_string n @ ''.0'') = Some (NumVal (of_nat n))"
    unfolding str_numeric_def nd using cr c dm by simp
  then show ?thesis
    using round_binary64_int [of "int n"] assms by (simp add: js_number_def trim)
qed

end
