(* ===== verification/Directory.thy ===== *)
theory Directory
  imports Store Ids
begin

text \<open>
  The recipient directory and the channel-eligibility filter.
  \<^item> \<open>src/app/page.tsx\<close> (\<open>Home\<close>) loads the users newest first and formats each
    row as the client's \<open>User\<close> interface (\<open>format_user\<close>, \<open>home\<close>); the
    LINE flag shown to the client is derived from the presence of a LINE id.
  \<^item> \<open>src/components/DashboardClient.tsx\<close> (\<open>handleSubmit\<close> and the channel
    checkboxes) selects, per channel, the users that are both selected and eligible
    (\<open>line_targets\<close>, \<open>email_targets\<close>, \<open>push_targets\<close>) and shows a count per
    channel (\<open>channel_counts\<close>).
\<close>

text \<open>The client's \<open>interface User\<close> (DashboardClient.tsx).\<close>

record ui_user =
  ui_id :: string
  ui_name :: "string option"
  ui_image :: "string option"
  ui_email :: "string option"
  lineUserId :: "string option"
  canReceiveEmail :: bool
  canReceiveLine :: bool
  canReceivePush :: bool

section \<open>The page: \<open>formattedUsers\<close>\<close>

definition format_user :: "user_row \<Rightarrow> ui_user" where
  "format_user r =
     \<lparr>ui_id = dec_string (uid r),
      ui_name = Some (js_or (line_display_name r) ''No Name''),
      ui_image = line_picture_url r,
      ui_email = Some (js_or (email r) ''''),
      lineUserId = line_user_id r,
      canReceiveEmail = can_receive_email r,
      canReceiveLine = js_truthy (line_user_id r),
      canReceivePush = can_receive_push r\<rparr>"

definition home :: "db \<Rightarrow> ui_user list" where
  "home d = map format_user (users_newest_first d)"

section \<open>Eligibility per channel\<close>

text \<open>\<open>users.filter((u) => selectedUsers.includes(u.id))\<close>.\<close>

definition selected_list :: "ui_user list \<Rightarrow> string list \<Rightarrow> ui_user list" where
  "selected_list us sel = filter (\<lambda>u. ui_id u \<in> set sel) us"

text \<open>
  \<open>targetLineIds\<close>: the selected users with \<open>canReceiveLine\<close>, mapped to their
  \<open>lineUserId\<close>, keeping the truthy ones.
\<close>

definition line_targets :: "ui_user list \<Rightarrow> string list \<Rightarrow> string list" where
  "line_targets us sel =
     truthy_strs (map lineUserId (filter (\<lambda>u. ui_id u \<in> set sel \<and> canReceiveLine u) us))"

text \<open>\<open>targetGoogleUsers\<close> and \<open>targetPushUsers\<close>.\<close>

definition email_targets :: "ui_user list \<Rightarrow> string list \<Rightarrow> ui_user list" where
  "email_targets us sel = filter (\<lambda>u. ui_id u \<in> set sel \<and> canReceiveEmail u) us"

definition push_targets :: "ui_user list \<Rightarrow> string list \<Rightarrow> ui_user list" where
  "push_targets us sel = filter (\<lambda>u. ui_id u \<in> set sel \<and> canReceivePush u) us"

text \<open>
  The counts beside the channel checkboxes (\<open>emailCount\<close>, \<open>lineCount\<close>,
  \<open>pushCount\<close>); a checkbox is disabled when its count is 0.
\<close>

definition channel_counts :: "ui_user list \<Rightarrow> string list \<Rightarrow> nat \<times> nat \<times> nat" where
  "channel_counts us sel =
     (let l = selected_list us sel in
      (length (filter canReceiveEmail l), length (filter canReceiveLine l),
       length (filter canReceivePush l)))"


section \<open>Properties of the filters\<close>

lemma distinct_ui_ids:
  "distinct (map uid rs) \<Longrightarrow> distinct (map ui_id (map format_user rs))"
  by (induction rs) (auto simp: format_user_def)

lemma set_users_newest_first [simp]: "set (users_newest_first d) = set (users d)"
  by (simp add: users_newest_first_def)

lemma distinct_home: "db_wf d \<Longrightarrow> distinct (map ui_id (home d))"
  unfolding home_def users_newest_first_def db_wf_def
  by (rule distinct_ui_ids) (simp add: distinct_map)

text \<open>
  C10: the LINE recipients of a dispatch are the truthy LINE ids of the selected
  rows, in directory order; the stored \<open>can_receive_line\<close> flag is not
  consulted, because the page derives \<open>canReceiveLine\<close> from the id.
\<close>

theorem line_targets_page:
  "line_targets (map format_user rs) sel =
     truthy_strs (map line_user_id (filter (\<lambda>r. dec_string (uid r) \<in> set sel) rs))"
proof (induction rs)
  case Nil
  then show ?case by (simp add: line_targets_def)
next
  case (Cons r rs)
  then show ?case
    by (cases "line_user_id r") (auto simp: line_targets_def format_user_def)
qed

text \<open>
  C24: a selected user whose row has the email flag set is an email target even
  when the row has no email address: the filter consults the flag only.
\<close>

theorem email_target_without_address:
  assumes "r \<in> set rs" and "dec_string (uid r) \<in> set sel" and "can_receive_email r"
    and "email r = None"
  shows "format_user r \<in> set (email_targets (map format_user rs) sel)"
  using assms by (auto simp: email_targets_def format_user_def)

theorem email_target_without_address_witness:
  "let r = blank_user\<lparr>uid := 7, can_receive_email := True\<rparr> in
     r \<in> set [r] \<and> dec_string (uid r) \<in> set [''7''] \<and> can_receive_email r \<and> email r = None \<and>
     format_user r \<in> set (email_targets (map format_user [r]) [''7''])"
  using email_target_without_address
    [of "blank_user\<lparr>uid := 7, can_receive_email := True\<rparr>"
        "[blank_user\<lparr>uid := 7, can_receive_email := True\<rparr>]" "[''7'']"]
  by (simp add: blank_user_def dec_string.simps digit_char_def js_simps)

text \<open>
  C25: the per-channel counts shown beside the checkboxes are the numbers of email
  targets, LINE recipients and push targets that a dispatch uses.
\<close>

theorem channel_counts_targets:
  "channel_counts (map format_user rs) sel =
     (length (email_targets (map format_user rs) sel),
      length (line_targets (map format_user rs) sel),
      length (push_targets (map format_user rs) sel))"
proof -
  have "length (filter canReceiveLine (selected_list (map format_user rs) sel)) =
        length (line_targets (map format_user rs) sel)"
  proof (induction rs)
    case Nil
    then show ?case by (simp add: line_targets_def selected_list_def)
  next
    case (Cons r rs)
    then show ?case
      by (cases "line_user_id r") (auto simp: line_targets_def selected_list_def format_user_def)
  qed
  then show ?thesis
    by (simp add: channel_counts_def email_targets_def push_targets_def selected_list_def
        filter_filter conj_commute)
qed

end
