(* ===== verification/Selection.thy ===== *)
theory Selection
  imports Directory
begin

text \<open>
  The recipient selection of \<open>src/components/DashboardClient.tsx\<close>: the state
  \<open>selectedUsers\<close> (a list of user ids) and the handlers that change it,
  \<open>handleUserToggle\<close> (a recipient's checkbox), \<open>handleSelectAll\<close> (the
  select-all / clear-all button) and the reset after a successful dispatch. The
  reachable selections are an inductive set; their invariant is that the list is
  duplicate-free and holds only ids of listed users, which is what makes the
  length comparison of \<open>handleSelectAll\<close> mean "everyone is selected".
\<close>

definition handleUserToggle :: "string \<Rightarrow> string list \<Rightarrow> string list" where
  "handleUserToggle i prev =
     (if i \<in> set prev then filter (\<lambda>x. x \<noteq> i) prev else prev @ [i])"

definition handleSelectAll :: "ui_user list \<Rightarrow> string list \<Rightarrow> string list" where
  "handleSelectAll us sel = (if length sel = length us then [] else map ui_id us)"

definition selection_wf :: "ui_user list \<Rightarrow> string list \<Rightarrow> bool" where
  "selection_wf us sel \<longleftrightarrow>
     distinct (map ui_id us) \<and> distinct sel \<and> set sel \<subseteq> set (map ui_id us)"

text \<open>
  The selections the dashboard can reach: it starts empty; a checkbox toggles the
  id of a listed user; the button selects all or clears; a successful dispatch
  resets the selection.
\<close>

inductive sel_reachable :: "ui_user list \<Rightarrow> string list \<Rightarrow> bool" for us where
  sel_init: "sel_reachable us []"
| sel_toggle: "sel_reachable us s \<Longrightarrow> i \<in> set (map ui_id us) \<Longrightarrow>
     sel_reachable us (handleUserToggle i s)"
| sel_all: "sel_reachable us s \<Longrightarrow> sel_reachable us (handleSelectAll us s)"
| sel_reset: "sel_reachable us s \<Longrightarrow> sel_reachable us []"

section \<open>Properties\<close>

lemma set_handleUserToggle:
  "set (handleUserToggle i s) = (if i \<in> set s then set s - {i} else insert i (set s))"
  by (auto simp: handleUserToggle_def)

lemma distinct_handleUserToggle: "distinct s \<Longrightarrow> distinct (handleUserToggle i s)"
  by (simp add: handleUserToggle_def)

lemma selection_wf_toggle:
  "selection_wf us s \<Longrightarrow> i \<in> set (map ui_id us) \<Longrightarrow> selection_wf us (handleUserToggle i s)"
  by (auto simp: selection_wf_def distinct_handleUserToggle set_handleUserToggle)

lemma selection_wf_all: "selection_wf us s \<Longrightarrow> selection_wf us (handleSelectAll us s)"
  by (simp add: selection_wf_def handleSelectAll_def)

lemma selection_wf_length_iff:
  assumes "selection_wf us s"
  shows "length s = length us \<longleftrightarrow> set s = set (map ui_id us)"
proof
  assume len: "length s = length us"
  from assms have "card (set s) = length s" "card (set (map ui_id us)) = length us"
    unfolding selection_wf_def by (metis distinct_card length_map)+
  with len assms show "set s = set (map ui_id us)"
    by (metis card_subset_eq finite_set selection_wf_def)
next
  assume "set s = set (map ui_id us)"
  with assms show "length s = length us"
    by (metis selection_wf_def distinct_card length_map)
qed

text \<open>
  C27: every reachable selection is duplicate-free and holds only ids of listed
  users, provided the listed ids are distinct (as the page's are).
\<close>

theorem sel_reachable_wf:
  assumes "sel_reachable us s" and "distinct (map ui_id us)"
  shows "distinct s \<and> set s \<subseteq> set (map ui_id us)"
proof -
  from assms have "selection_wf us s"
  proof (induction rule: sel_reachable.induct)
    case sel_init
    then show ?case by (simp add: selection_wf_def)
  next
    case (sel_toggle s i)
    then show ?case by (simp add: selection_wf_toggle)
  next
    case (sel_all s)
    then show ?case by (simp add: selection_wf_all)
  next
    case (sel_reset s)
    then show ?case by (simp add: selection_wf_def)
  qed
  then show ?thesis by (simp add: selection_wf_def)
qed

lemmas page_user_simps = format_user_def blank_user_def dec_string.simps js_simps

theorem sel_reachable_wf_witness:
  "sel_reachable (map format_user [blank_user\<lparr>uid := 1\<rparr>, blank_user\<lparr>uid := 2\<rparr>])
     (handleUserToggle ''1'' []) \<and>
   distinct (map ui_id (map format_user [blank_user\<lparr>uid := 1\<rparr>, blank_user\<lparr>uid := 2\<rparr>])) \<and>
   distinct (handleUserToggle ''1'' []) \<and>
   set (handleUserToggle ''1'' []) \<subseteq>
     set (map ui_id (map format_user [blank_user\<lparr>uid := 1\<rparr>, blank_user\<lparr>uid := 2\<rparr>]))"
proof -
  let ?us = "map format_user [blank_user\<lparr>uid := 1\<rparr>, blank_user\<lparr>uid := 2\<rparr>]"
  have r: "sel_reachable ?us (handleUserToggle ''1'' [])"
    by (rule sel_toggle [OF sel_init]) (simp add: page_user_simps)
  have d: "distinct (map ui_id ?us)"
    by (simp add: page_user_simps)
  from r d sel_reachable_wf [OF r d] show ?thesis by blast
qed

text \<open>
  C28: on a well-formed selection, the select-all button clears the selection
  exactly when every listed user is selected, and otherwise selects every listed
  user.
\<close>

theorem handleSelectAll_wf:
  assumes "selection_wf us s"
  shows "handleSelectAll us s = (if set s = set (map ui_id us) then [] else map ui_id us)"
  using selection_wf_length_iff [OF assms] by (simp add: handleSelectAll_def)

theorem handleSelectAll_wf_witness:
  "selection_wf (map format_user [blank_user\<lparr>uid := 1\<rparr>, blank_user\<lparr>uid := 2\<rparr>]) [''2'', ''1''] \<and>
   handleSelectAll (map format_user [blank_user\<lparr>uid := 1\<rparr>, blank_user\<lparr>uid := 2\<rparr>]) [''2'', ''1''] = []"
proof -
  let ?us = "map format_user [blank_user\<lparr>uid := 1\<rparr>, blank_user\<lparr>uid := 2\<rparr>]"
  have wf: "selection_wf ?us [''2'', ''1'']"
    by (simp add: selection_wf_def page_user_simps)
  from wf handleSelectAll_wf [OF wf] show ?thesis
    by (simp add: page_user_simps insert_commute)
qed

text \<open>
  C29: toggling a recipient flips that recipient's membership and leaves every
  other id's membership unchanged.
\<close>

theorem handleUserToggle_flip:
  "(i \<in> set (handleUserToggle i s) \<longleftrightarrow> i \<notin> set s) \<and>
   (j \<noteq> i \<longrightarrow> (j \<in> set (handleUserToggle i s) \<longleftrightarrow> j \<in> set s))"
  by (auto simp: set_handleUserToggle)

theorem handleUserToggle_flip_witness:
  "(''a'' \<in> set (handleUserToggle ''a'' [''a'', ''b'']) \<longleftrightarrow> ''a'' \<notin> set [''a'', ''b'']) \<and>
   ''b'' \<noteq> ''a'' \<and> (''b'' \<in> set (handleUserToggle ''a'' [''a'', ''b'']) \<longleftrightarrow> ''b'' \<in> set [''a'', ''b''])"
  using handleUserToggle_flip [of "''a''" "[''a'', ''b'']" "''b''"] by simp

end
