(* ===== verification/Mime.thy ===== *)
theory Mime
  imports Prelude "HOL-Library.Word"
begin

text \<open>
  The message encoding of the Gmail sender (\<open>src/app/api/notifications/google/route.ts\<close>):
  the subject as an RFC 2047 encoded word (\<open>=?utf-8?B?...?=\<close>), the MIME text
  joined with line feeds, and the raw message as unpadded base64url, obtained from
  Node's \<open>Buffer.toString("base64")\<close> by the three \<open>replace\<close> calls of the route.
  Strings are their UTF-8 bytes (see the prelude), so \<open>Buffer.from(s)\<close> is the
  identity on the representation.
  The register page decodes base64url with \<open>urlBase64ToUint8Array\<close> (re-pad,
  undo the URL alphabet, then the browser's \<open>atob\<close>); the last section proves
  that this decoder inverts the route's encoder on every byte string.
\<close>

section \<open>Base64 (\<open>Buffer.toString("base64")\<close>)\<close>

definition b64_alphabet :: string where
  "b64_alphabet = ''ABCDEFGHIJKLMNOPQRSTUVWXYZabcdefghijklmnopqrstuvwxyz0123456789+/''"

definition b64_char :: "nat \<Rightarrow> char" where
  "b64_char k = b64_alphabet ! k"

text \<open>Three bytes as a 24-bit number, split into four 6-bit digits.\<close>

definition b64_group :: "nat \<Rightarrow> nat list" where
  "b64_group n = [n div 262144, n div 4096 mod 64, n div 64 mod 64, n mod 64]"

fun base64 :: "string \<Rightarrow> string" where
  "base64 (a # b # c # rest) =
     map b64_char (b64_group (of_char a * 65536 + of_char b * 256 + of_char c)) @ base64 rest"
| "base64 [a, b] =
     map b64_char (take 3 (b64_group (of_char a * 65536 + of_char b * 256))) @ ''=''"
| "base64 [a] = map b64_char (take 2 (b64_group (of_char a * 65536))) @ ''==''"
| "base64 [] = []"

section \<open>The route's base64url rewrite\<close>

text \<open>
  \<open>.replace(/\+/g, "-").replace(/\//g, "_").replace(/=+$/, "")\<close>: both
  replacements are global, and the last one removes the run of \<open>=\<close> at the end.
\<close>

definition url_char :: "char \<Rightarrow> char" where
  "url_char c = (if c = CHR ''+'' then CHR ''-'' else if c = CHR ''/'' then CHR ''_'' else c)"

definition strip_padding :: "string \<Rightarrow> string" where
  "strip_padding s = rev (dropWhile (\<lambda>c. c = CHR ''='') (rev s))"

definition base64url :: "string \<Rightarrow> string" where
  "base64url s = strip_padding (map url_char (base64 s))"

section \<open>The MIME message\<close>

definition lf :: string where
  "lf = [CHR 0x0A]"

text \<open>\<open>Array.prototype.join("\n")\<close>.\<close>

fun join_lines :: "string list \<Rightarrow> string" where
  "join_lines [] = []"
| "join_lines [x] = x"
| "join_lines (x # y # ys) = x @ lf @ join_lines (y # ys)"

text \<open>A template literal \<open>`${v}`\<close> of a nullable string: \<open>null\<close> prints as \<open>null\<close>.\<close>

definition js_template :: "string option \<Rightarrow> string" where
  "js_template v = (case v of Some x \<Rightarrow> x | None \<Rightarrow> ''null'')"

definition utf8_subject :: "string \<Rightarrow> string" where
  "utf8_subject subj = ''=?utf-8?B?'' @ base64 subj @ ''?=''"

definition email_content :: "string option \<Rightarrow> string \<Rightarrow> string \<Rightarrow> string" where
  "email_content to subj msg =
     join_lines
       [''To: '' @ js_template to, ''Content-Type: text/html; charset=utf-8'',
        ''MIME-Version: 1.0'', ''Subject: '' @ utf8_subject subj, '''', msg]"

definition gmail_raw :: "string option \<Rightarrow> string \<Rightarrow> string \<Rightarrow> string" where
  "gmail_raw to subj msg = base64url (email_content to subj msg)"

section \<open>Decoding: \<open>atob\<close> and \<open>urlBase64ToUint8Array\<close>\<close>

text \<open>
  \<open>atob\<close> is the browser's forgiving-base64 decode (WHATWG HTML): drop ASCII
  white space; if the length is a multiple of 4, drop one or two final \<open>=\<close>; fail
  on a length of the form \<open>4k+1\<close> or on a character outside the alphabet; read
  6 bits per character and emit whole bytes, discarding the leftover bits. It is a
  platform function, modelled from that specification.
\<close>

definition b64_index :: "char \<Rightarrow> nat option" where
  "b64_index c = find (\<lambda>k. b64_char k = c) [0..<64]"

definition ascii_ws :: "char \<Rightarrow> bool" where
  "ascii_ws c \<longleftrightarrow> c \<in> {CHR 0x09, CHR 0x0A, CHR 0x0C, CHR 0x0D, CHR 0x20}"

definition strip_b64_pad :: "string \<Rightarrow> string" where
  "strip_b64_pad s =
     (if length s mod 4 = 0 then
        (case rev s of
           c1 # c2 # r \<Rightarrow> if c1 = CHR ''='' \<and> c2 = CHR ''='' then rev r
                         else if c1 = CHR ''='' then rev (c2 # r) else s
         | [c1] \<Rightarrow> if c1 = CHR ''='' then [] else s
         | [] \<Rightarrow> s)
      else s)"

fun b64_decode :: "nat list \<Rightarrow> string" where
  "b64_decode (a # b # c # d # rest) =
     (let n = a * 262144 + b * 4096 + c * 64 + d in
      [char_of (n div 65536), char_of (n div 256 mod 256), char_of (n mod 256)]) @ b64_decode rest"
| "b64_decode [a, b, c] = (let n = a * 4096 + b * 64 + c in [char_of (n div 1024), char_of (n div 4 mod 256)])"
| "b64_decode [a, b] = [char_of ((a * 64 + b) div 16)]"
| "b64_decode _ = []"

definition atob :: "string \<Rightarrow> string option" where
  "atob s =
     (let s1 = strip_b64_pad (filter (\<lambda>c. \<not> ascii_ws c) s) in
      if length s1 mod 4 = 1 then None
      else map_option b64_decode (those (map b64_index s1)))"

text \<open>
  \<open>urlBase64ToUint8Array\<close> of the register page: pad with \<open>=\<close> to a multiple of
  4, \<open>replace(/-/g, "+").replace(/_/g, "/")\<close>, \<open>atob\<close>, then one byte per
  character (\<open>charCodeAt\<close>). A thrown \<open>atob\<close> is \<open>None\<close>.
\<close>

definition url_unchar :: "char \<Rightarrow> char" where
  "url_unchar c = (if c = CHR ''-'' then CHR ''+'' else if c = CHR ''_'' then CHR ''/'' else c)"

definition urlBase64ToUint8Array :: "string \<Rightarrow> 8 word list option" where
  "urlBase64ToUint8Array s =
     (let padding = replicate ((4 - length s mod 4) mod 4) (CHR ''='');
          b = map url_unchar (s @ padding)
      in map_option (map (\<lambda>c. of_nat (of_char c))) (atob b))"

text \<open>The 6-bit digits \<open>base64\<close> emits before the padding (a proof device).\<close>

fun b64_digits :: "string \<Rightarrow> nat list" where
  "b64_digits (a # b # c # rest) = b64_group (of_char a * 65536 + of_char b * 256 + of_char c) @ b64_digits rest"
| "b64_digits [a, b] = take 3 (b64_group (of_char a * 65536 + of_char b * 256))"
| "b64_digits [a] = take 2 (b64_group (of_char a * 65536))"
| "b64_digits [] = []"

section \<open>The base64url codec\<close>

lemma b64_recombine:
  "(n::nat) div 262144 * 262144 + n div 4096 mod 64 * 4096 + n div 64 mod 64 * 64 + n mod 64 = n"
proof -
  have d1: "n div 64 div 64 = n div 4096" and d2: "n div 4096 div 64 = n div 262144"
    by (simp_all add: div_mult2_eq [symmetric])
  have a: "n = n div 64 * 64 + n mod 64" by simp
  have b: "n div 64 = n div 4096 * 64 + n div 64 mod 64"
    using div_mult_mod_eq [of "n div 64" 64] by (simp only: d1)
  have c: "n div 4096 = n div 262144 * 64 + n div 4096 mod 64"
    using div_mult_mod_eq [of "n div 4096" 64] by (simp only: d2)
  show ?thesis using a b c by linarith
qed

lemma digit_split:
  fixes q z k :: nat
  assumes "z < k"
  shows "(q * k + z) div k = q" and "(q * k + z) mod k = z"
  using assms by simp_all

lemma bytes3_split:
  fixes x y z :: nat
  assumes "y < 256" "z < 256"
  shows "(x * 65536 + y * 256 + z) div 65536 = x"
    and "(x * 65536 + y * 256 + z) div 256 mod 256 = y"
    and "(x * 65536 + y * 256 + z) mod 256 = z"
proof -
  have e: "x * 65536 + y * 256 + z = (x * 256 + y) * 256 + z" by simp
  have "y * 256 + z < 65536" using assms by linarith
  then show "(x * 65536 + y * 256 + z) div 65536 = x" by simp
  show "(x * 65536 + y * 256 + z) div 256 mod 256 = y"
    by (simp only: e digit_split [OF assms(2)] digit_split [OF assms(1)])
  show "(x * 65536 + y * 256 + z) mod 256 = z"
    by (simp only: e digit_split [OF assms(2)])
qed

lemma b64_decode_group:
  "b64_decode (b64_group (of_char a * 65536 + of_char b * 256 + of_char c) @ ds) = [a, b, c] @ b64_decode ds"
proof -
  let ?n = "of_char a * 65536 + of_char b * 256 + of_char c :: nat"
  note s = bytes3_split [OF nat_of_char_less_256 nat_of_char_less_256, of "of_char a" b c]
  have "b64_decode (b64_group ?n @ ds) =
          [char_of (?n div 65536), char_of (?n div 256 mod 256), char_of (?n mod 256)] @ b64_decode ds"
    by (simp only: b64_group_def append.simps b64_decode.simps Let_def b64_recombine)
  then show ?thesis by (simp only: s char_of_char)
qed


lemma b64_recombine2:
  "(m::nat) div 4096 * 4096 + m div 64 mod 64 * 64 + m mod 64 = m"
proof -
  have d1: "m div 64 div 64 = m div 4096" by (simp add: div_mult2_eq [symmetric])
  have a: "m = m div 64 * 64 + m mod 64" by simp
  have b: "m div 64 = m div 4096 * 64 + m div 64 mod 64"
    using div_mult_mod_eq [of "m div 64" 64] by (simp only: d1)
  show ?thesis using a b by linarith
qed

lemma b64_decode_pair:
  "b64_decode (take 3 (b64_group (of_char a * 65536 + of_char b * 256))) = [a, b]"
proof -
  let ?n = "of_char a * 65536 + of_char b * 256 :: nat"
  let ?m = "?n div 64"
  have q: "?n div 262144 = ?m div 4096" "?n div 4096 = ?m div 64" "?n div 256 = ?m div 4"
    "?n div 65536 = ?m div 1024"
    by (simp_all add: div_mult2_eq [symmetric])
  have "b64_decode (take 3 (b64_group ?n)) = [char_of (?m div 1024), char_of (?m div 4 mod 256)]"
    by (simp only: b64_group_def take.simps nat.simps list.simps b64_decode.simps Let_def q
        numeral_3_eq_3 b64_recombine2)
  also have "\<dots> = [char_of (?n div 65536), char_of (?n div 256 mod 256)]"
    by (simp only: q)
  also have "\<dots> = [a, b]"
    using bytes3_split [OF nat_of_char_less_256, of 0 "of_char a" b]
    by (simp add: char_of_char)
  finally show ?thesis .
qed

lemma b64_decode_single:
  "b64_decode (take 2 (b64_group (of_char a * 65536))) = [a]"
proof -
  let ?n = "of_char a * 65536 :: nat"
  have q: "?n div 262144 = ?n div 4096 div 64" by (simp add: div_mult2_eq [symmetric])
  have "b64_decode (take 2 (b64_group ?n)) = [char_of (?n div 4096 div 16)]"
    by (simp only: b64_group_def take.simps nat.simps list.simps b64_decode.simps q
        numeral_2_eq_2 div_mult_mod_eq)
  also have "?n div 4096 div 16 = of_char a" by (simp add: div_mult2_eq [symmetric])
  finally show ?thesis by (simp add: char_of_char)
qed


lemma b64_decode_digits: "b64_decode (b64_digits s) = s"
  by (induction s rule: b64_digits.induct)
     (simp_all only: b64_digits.simps b64_decode_group b64_decode_pair b64_decode_single
        append.simps b64_decode.simps)

lemma replicate_two: "replicate 2 c = [c, c]"
  by (simp add: numeral_2_eq_2)

lemma base64_split:
  "base64 s = map b64_char (b64_digits s) @ replicate ((3 - length s mod 3) mod 3) (CHR ''='')"
  by (induction s rule: base64.induct) (simp_all add: b64_group_def replicate_two)

lemma b64_group_bound:
  assumes "n < 16777216"
  shows "\<forall>k\<in>set (b64_group n). k < 64"
  using assms by (auto simp: b64_group_def)

lemma b64_digits_bound: "\<forall>k\<in>set (b64_digits s). k < 64"
proof (induction s rule: b64_digits.induct)
  case (1 a b c rest)
  have "of_char a * 65536 + of_char b * 256 + of_char c < (16777216::nat)"
    using nat_of_char_less_256 [of a] nat_of_char_less_256 [of b] nat_of_char_less_256 [of c]
    by linarith
  from b64_group_bound [OF this] show ?case using 1 by auto
next
  case (2 a b)
  have "of_char a * 65536 + of_char b * 256 < (16777216::nat)"
    using nat_of_char_less_256 [of a] nat_of_char_less_256 [of b] by linarith
  from b64_group_bound [OF this] show ?case by (auto dest: in_set_takeD)
next
  case (3 a)
  have "of_char a * 65536 < (16777216::nat)"
    using nat_of_char_less_256 [of a] by linarith
  from b64_group_bound [OF this] show ?case by (auto dest: in_set_takeD)
qed simp

lemma b64_digits_length: "length (b64_digits s) mod 4 \<noteq> 1"
  by (induction s rule: b64_digits.induct) (simp_all add: b64_group_def)

lemma b64_alphabet_facts:
  assumes "k < 64"
  shows "b64_char k \<noteq> CHR ''=''" and "\<not> ascii_ws (b64_char k)"
    and "url_char (b64_char k) \<noteq> CHR ''=''" and "url_unchar (url_char (b64_char k)) = b64_char k"
    and "b64_index (b64_char k) = Some k"
proof -
  have "list_all (\<lambda>k. b64_char k \<noteq> CHR ''='' \<and> \<not> ascii_ws (b64_char k) \<and>
           url_char (b64_char k) \<noteq> CHR ''='' \<and> url_unchar (url_char (b64_char k)) = b64_char k \<and>
           b64_index (b64_char k) = Some k) [0..<64]"
    by code_simp
  then show "b64_char k \<noteq> CHR ''=''" and "\<not> ascii_ws (b64_char k)"
    and "url_char (b64_char k) \<noteq> CHR ''=''" and "url_unchar (url_char (b64_char k)) = b64_char k"
    and "b64_index (b64_char k) = Some k"
    using assms by (simp_all add: list_all_iff)
qed

lemma those_b64_index:
  "\<forall>k\<in>set ds. k < 64 \<Longrightarrow> those (map b64_index (map b64_char ds)) = Some ds"
  by (induction ds) (simp_all add: b64_alphabet_facts(5))

lemma strip_b64_pad_digits:
  assumes "\<forall>k\<in>set ds. k < 64" and "length ds mod 4 \<noteq> 1"
  shows "strip_b64_pad (map b64_char ds @ replicate ((4 - length ds mod 4) mod 4) (CHR ''=''))
           = map b64_char ds"
proof (cases ds rule: rev_cases)
  case Nil
  then show ?thesis by (simp add: strip_b64_pad_def)
next
  case (snoc ys y)
  have y: "b64_char y \<noteq> CHR ''=''" using assms(1) snoc by (simp add: b64_alphabet_facts(1))
  have "length ds mod 4 = 0 \<or> length ds mod 4 = 2 \<or> length ds mod 4 = 3"
    using assms(2) by linarith
  then show ?thesis
  proof (elim disjE)
    assume "length ds mod 4 = 0"
    then show ?thesis using y snoc
      by (auto simp: strip_b64_pad_def split: list.split)
  next
    assume m: "length ds mod 4 = 2"
    then have "(4 - length ds mod 4) mod 4 = 2" by simp
    moreover have "(length ds + 2) mod 4 = 0" using m by presburger
    ultimately show ?thesis using snoc
      by (simp add: strip_b64_pad_def numeral_2_eq_2)
  next
    assume m: "length ds mod 4 = 3"
    then have "(4 - length ds mod 4) mod 4 = 1" by simp
    moreover have "(length ds + 1) mod 4 = 0" using m by presburger
    ultimately show ?thesis using snoc y
      by (simp add: strip_b64_pad_def)
  qed
qed

lemma ascii_ws_eq: "\<not> ascii_ws (CHR ''='')"
  by (simp add: ascii_ws_def)

lemma dropWhile_all_fail: "\<forall>c\<in>set ys. \<not> P c \<Longrightarrow> dropWhile P ys = ys"
  by (induction ys) auto

lemma atob_digits:
  assumes "\<forall>k\<in>set ds. k < 64" and "length ds mod 4 \<noteq> 1"
  shows "atob (map b64_char ds @ replicate ((4 - length ds mod 4) mod 4) (CHR ''=''))
           = Some (b64_decode ds)"
proof -
  let ?x = "map b64_char ds @ replicate ((4 - length ds mod 4) mod 4) (CHR ''='')"
  have f: "filter (\<lambda>c. \<not> ascii_ws c) ?x = ?x"
    using assms(1) by (auto simp: filter_id_conv b64_alphabet_facts(2) ascii_ws_eq)
  have l: "(length (map b64_char ds) mod 4 = 1) = False"
    using assms(2) by simp
  show ?thesis
    by (simp only: atob_def Let_def f strip_b64_pad_digits [OF assms] l if_False
        those_b64_index [OF assms(1)] option.map)
qed

lemma dropWhile_replicate_append: "P c \<Longrightarrow> dropWhile P (replicate n c @ ys) = dropWhile P ys"
  by (induction n) auto

lemma base64url_digits: "base64url s = map url_char (map b64_char (b64_digits s))"
proof -
  let ?X = "map url_char (map b64_char (b64_digits s))"
  let ?p = "(3 - length s mod 3) mod 3"
  have u: "url_char (CHR ''='') = CHR ''=''" by (simp add: url_char_def)
  have ne: "\<forall>c\<in>set (rev ?X). \<not> c = CHR ''=''"
    using b64_digits_bound [of s] by (auto simp: b64_alphabet_facts(3))
  have "base64url s = rev (dropWhile (\<lambda>c. c = CHR ''='') (rev (?X @ replicate ?p (CHR ''=''))))"
    by (simp only: base64url_def strip_padding_def base64_split map_append map_replicate u)
  also have "\<dots> = rev (dropWhile (\<lambda>c. c = CHR ''='') (rev ?X))"
    by (simp only: rev_append rev_replicate dropWhile_replicate_append [where c = "CHR ''=''"] simp_thms)
  also have "\<dots> = ?X"
    by (simp only: dropWhile_all_fail [OF ne] rev_rev_ident)
  finally show ?thesis .
qed

text \<open>
  C22: the register page's base64url decoder inverts the Gmail route's encoder:
  for every byte string (in particular every MIME message the route builds),
  \<open>urlBase64ToUint8Array\<close> of its base64url text returns exactly its bytes.
\<close>

theorem urlBase64_roundtrip:
  "urlBase64ToUint8Array (base64url s) = Some (map (\<lambda>c. of_nat (of_char c)) s)"
proof -
  let ?ds = "b64_digits s"
  let ?p = "(4 - length ?ds mod 4) mod 4"
  have u: "url_unchar (CHR ''='') = CHR ''=''" by (simp add: url_unchar_def)
  have un: "map url_unchar (map url_char (map b64_char ?ds)) = map b64_char ?ds"
    using b64_digits_bound [of s] by (simp add: b64_alphabet_facts(4))
  have "urlBase64ToUint8Array (base64url s) =
          map_option (map (\<lambda>c. of_nat (of_char c)))
            (atob (map url_unchar (map url_char (map b64_char ?ds) @ replicate ?p (CHR ''=''))))"
    by (simp only: urlBase64ToUint8Array_def Let_def base64url_digits length_map)
  also have "\<dots> = map_option (map (\<lambda>c. of_nat (of_char c))) (atob (map b64_char ?ds @ replicate ?p (CHR ''='')))"
    by (simp only: map_append map_replicate un u)
  also have "\<dots> = Some (map (\<lambda>c. of_nat (of_char c)) s)"
    by (simp only: atob_digits [OF b64_digits_bound b64_digits_length] b64_decode_digits option.map)
  finally show ?thesis .
qed


lemma b64_digits_len: "length (b64_digits s) = (4 * length s + 2) div 3"
  by (induction s rule: b64_digits.induct) (simp_all add: b64_group_def)

text \<open>
  C30: the raw message the Gmail route sends is URL-safe and unpadded: it contains
  no \<open>+\<close>, \<open>/\<close> or \<open>=\<close>, and has exactly \<open>\<lceil>4n/3\<rceil>\<close> characters for an
  \<open>n\<close>-byte message.
\<close>

theorem base64url_url_safe:
  "CHR ''+'' \<notin> set (base64url s) \<and> CHR ''/'' \<notin> set (base64url s) \<and>
   CHR ''='' \<notin> set (base64url s) \<and> length (base64url s) = (4 * length s + 2) div 3"
proof -
  have "list_all (\<lambda>k. url_char (b64_char k) \<notin> {CHR ''+'', CHR ''/'', CHR ''=''}) [0..<64]"
    by code_simp
  then have "\<forall>k\<in>set (b64_digits s). url_char (b64_char k) \<notin> {CHR ''+'', CHR ''/'', CHR ''=''}"
    using b64_digits_bound [of s] by (auto simp: list_all_iff)
  then show ?thesis
    by (auto simp: base64url_digits b64_digits_len)
qed

end
