(* ===== verification/Server.thy ===== *)
theory Server
  imports Store Ids Mime
begin

text \<open>
  The HTTP boundary of the Next.js server and the state the whole system threads
  through a request.
  \<^item> A route handler returns a \<open>response\<close>: \<open>NextResponse.json(body, {status})\<close>
    is \<open>Json status body\<close> (status 200 when none is given) and
    \<open>NextResponse.redirect(url)\<close> is \<open>Redirect url\<close> (status 307). The client's
    \<open>response.ok\<close> is \<open>resp_ok\<close>.
  \<^item> The external services (LINE Messaging API, Gmail API, web-push, the OAuth
    providers, bcrypt) are not part of the program: \<open>providers\<close> is an arbitrary
    oracle giving each call's outcome, and every call the program makes is appended
    to the \<open>outbox\<close>, in order, so that the number and order of calls are visible.
  \<^item> \<open>sys\<close> is the server store, the outbox, the browser's \<open>session\<close> cookie and
    the browser console (the \<open>console.error\<close> lines of the client).
\<close>

datatype body =
    JError string
  | JSuccess
  | JSent nat
  | JCreated string nat
  | JFailed string string

datatype response = Json nat body | Redirect string

fun status :: "response \<Rightarrow> nat" where
  "status (Json st _) = st"
| "status (Redirect _) = 307"

definition resp_ok :: "response \<Rightarrow> bool" where
  "resp_ok r \<longleftrightarrow> http_ok (status r)"

text \<open>The push payload \<open>{ title, body, url }\<close> before \<open>JSON.stringify\<close>.\<close>

record push_payload =
  pl_title :: string
  pl_body :: string
  pl_url :: "string option"

datatype push_result = Delivered | PushRejected "nat option"

text \<open>
  An HTTP call to an external API: a response (status and body text) or a thrown
  error (network failure) with its message.
\<close>

datatype net_result = NetResponse nat string | NetError string

datatype ext_call =
    LineMulticast "string list" string
  | GmailSend string string
  | WebPush nat push_payload

record providers =
  line_multicast :: "string list \<Rightarrow> string \<Rightarrow> net_result"
  gmail_send :: "string \<Rightarrow> string \<Rightarrow> string option"
  web_push :: "push_subscription \<Rightarrow> push_payload \<Rightarrow> push_result"
  base_url :: "string option"

datatype log_entry =
    EmailFailed string string
  | PushFailed string

section \<open>Requests to the application's own API\<close>

text \<open>The JSON body of \<open>/api/notifications/subscribe\<close>, \<open>{ userId, title, message, url }\<close>.\<close>

record push_req =
  pr_userId :: string
  pr_title :: "string option"
  pr_message :: "string option"
  pr_url :: "string option"

text \<open>The JSON body of \<open>/api/notifications/google\<close>, \<open>{ userId, message, subject }\<close>.\<close>

record gmail_req =
  gr_userId :: string
  gr_message :: string
  gr_subject :: "string option"

text \<open>The JSON body of \<open>/api/notifications/line\<close>, \<open>{ userIds, message }\<close>.\<close>

record line_req =
  lr_userIds :: "string list"
  lr_message :: string

text \<open>
  The JSON body \<open>{ username, password }\<close> of \<open>/api/auth/register\<close> and
  \<open>/api/auth/login\<close>; an absent or \<open>null\<close> field is \<open>None\<close>.
\<close>

record cred_req =
  cq_username :: "string option"
  cq_password :: "string option"

text \<open>A \<open>fetch\<close> from the browser to one of the routes, with its body.\<close>

datatype api_call =
    ApiLine line_req | ApiGmail gmail_req | ApiPush push_req
  | ApiRegister cred_req | ApiLogin cred_req

section \<open>System state\<close>

record sys =
  store :: db
  outbox :: "ext_call list"
  session :: "string option"
  console :: "log_entry list"
  fetches :: "api_call list"

text \<open>
  A route's request body as \<open>await req.json()\<close> and the destructuring of its
  fields deliver it: \<open>Parsed\<close> fields (absent ones \<open>None\<close>), or a body that is not
  valid JSON or is \<open>null\<close>, where the parse or the destructuring throws inside the
  route's \<open>try\<close>. Every route's \<open>catch\<close> answers 500 with the error's
  \<open>message\<close>, which the runtime chooses (\<open>Malformed msg\<close>).
\<close>

datatype 'a json_body = Parsed 'a | Malformed string

definition json_route :: "('a \<Rightarrow> sys \<Rightarrow> response \<times> sys) \<Rightarrow> 'a json_body \<Rightarrow> sys \<Rightarrow> response \<times> sys" where
  "json_route route b s = (case b of Parsed req \<Rightarrow> route req s | Malformed msg \<Rightarrow> (Json 500 (JError msg), s))"

text \<open>A fresh deployment: empty store, nothing sent, no session cookie.\<close>

definition init_sys :: sys where
  "init_sys = \<lparr>store = empty_db, outbox = [], session = None, console = [], fetches = []\<rparr>"

definition record_fetch :: "api_call \<Rightarrow> sys \<Rightarrow> sys" where
  "record_fetch c s = s\<lparr>fetches := fetches s @ [c]\<rparr>"

definition send_ext :: "ext_call \<Rightarrow> sys \<Rightarrow> sys" where
  "send_ext c s = s\<lparr>outbox := outbox s @ [c]\<rparr>"

definition log_error :: "log_entry \<Rightarrow> sys \<Rightarrow> sys" where
  "log_error e s = s\<lparr>console := console s @ [e]\<rparr>"

text \<open>
  Prisma's \<open>Int\<close> columns are 32-bit: a value outside that range, or a \<open>NaN\<close>,
  makes the client raise a validation error before any query. Its message is not
  modelled; \<open>prisma_error\<close> stands for it.
\<close>

definition prisma_int :: "int \<Rightarrow> bool" where
  "prisma_int i \<longleftrightarrow> - (2 ^ 31) \<le> i \<and> i < 2 ^ 31"

definition prisma_error :: string where
  "prisma_error = ''PrismaClientValidationError''"

lemma send_ext_simps [simp]:
  "store (send_ext c s) = store s" "session (send_ext c s) = session s"
  "console (send_ext c s) = console s" "outbox (send_ext c s) = outbox s @ [c]"
  "fetches (send_ext c s) = fetches s"
  by (simp_all add: send_ext_def)

lemma log_error_simps [simp]:
  "store (log_error e s) = store s" "session (log_error e s) = session s"
  "outbox (log_error e s) = outbox s" "console (log_error e s) = console s @ [e]"
  "fetches (log_error e s) = fetches s"
  by (simp_all add: log_error_def)

lemma record_fetch_simps [simp]:
  "store (record_fetch c s) = store s" "session (record_fetch c s) = session s"
  "outbox (record_fetch c s) = outbox s" "console (record_fetch c s) = console s"
  "fetches (record_fetch c s) = fetches s @ [c]"
  by (simp_all add: record_fetch_def)

lemma json_route_simps [simp]:
  "json_route route (Parsed req) s = route req s"
  "json_route route (Malformed msg) s = (Json 500 (JError msg), s)"
  by (simp_all add: json_route_def)

end
