(* ===== verification/Senders.thy ===== *)
theory Senders
  imports Server
begin

text \<open>
  The three channel senders, one per API route under
  \<open>src/app/api/notifications/\<close>:
  \<^item> \<open>push_route\<close> (\<open>subscribe/route.ts\<close>, \<open>POST\<close>): sends the payload to every
    active subscription of the user (\<open>Promise.allSettled\<close>), deletes a
    subscription whose endpoint answers 404 or 410, and reports the number of
    fulfilled sends;
  \<^item> \<open>gmail_route\<close> (\<open>google/route.ts\<close>, \<open>POST\<close>): looks the user up by
    \<open>parseInt(userId)\<close>, requires a stored refresh token, and sends one MIME
    message;
  \<^item> \<open>line_route\<close> (\<open>line/route.ts\<close>, \<open>POST\<close>): one multicast call carrying all
    ids, whatever their number.
\<close>

definition msg_no_device :: string where
  "msg_no_device = ''User '' @ utf8 [0x0E19, 0x0E35, 0x0E49, 0x0E22, 0x0E31, 0x0E07, 0x0E44,
     0x0E21, 0x0E48, 0x0E44, 0x0E14, 0x0E49, 0x0E25, 0x0E07, 0x0E17, 0x0E30, 0x0E40, 0x0E1A,
     0x0E35, 0x0E22, 0x0E19, 0x0E40, 0x0E04, 0x0E23, 0x0E37, 0x0E48, 0x0E2D, 0x0E07, 0x0E23,
     0x0E31, 0x0E1A, 0x0E41, 0x0E08, 0x0E49, 0x0E07, 0x0E40, 0x0E15, 0x0E37, 0x0E2D, 0x0E19]"

definition msg_new_alert :: string where
  "msg_new_alert = utf8 [0x0E41, 0x0E08, 0x0E49, 0x0E07, 0x0E40, 0x0E15, 0x0E37, 0x0E2D,
     0x0E19, 0x0E43, 0x0E2B, 0x0E21, 0x0E48]"

definition msg_default_body :: string where
  "msg_default_body = utf8 [0x0E04, 0x0E38, 0x0E13, 0x0E44, 0x0E14, 0x0E49, 0x0E23, 0x0E31,
     0x0E1A, 0x0E02, 0x0E49, 0x0E2D, 0x0E04, 0x0E27, 0x0E32, 0x0E21, 0x0E08, 0x0E32, 0x0E01,
     0x0E23, 0x0E30, 0x0E1A, 0x0E1A]"

definition msg_not_linked :: string where
  "msg_not_linked = utf8 [0x0E1C, 0x0E39, 0x0E49, 0x0E43, 0x0E0A, 0x0E49, 0x0E19, 0x0E35,
     0x0E49, 0x0E22, 0x0E31, 0x0E07, 0x0E44, 0x0E21, 0x0E48, 0x0E44, 0x0E14, 0x0E49, 0x0E40,
     0x0E0A, 0x0E37, 0x0E48, 0x0E2D, 0x0E21, 0x0E15, 0x0E48, 0x0E2D] @ '' Google '' @
     utf8 [0x0E2B, 0x0E23, 0x0E37, 0x0E2D, 0x0E44, 0x0E21, 0x0E48, 0x0E21, 0x0E35, 0x0E2A,
     0x0E34, 0x0E17, 0x0E18, 0x0E34, 0x0E4C, 0x0E2A, 0x0E48, 0x0E07, 0x0E40, 0x0E21, 0x0E25]"

section \<open>Push sender\<close>

text \<open>\<open>JSON.stringify({ title: title || ..., body: message || ..., url: baseUrl })\<close>.\<close>

definition push_payload_for :: "providers \<Rightarrow> push_req \<Rightarrow> push_payload" where
  "push_payload_for P req =
     \<lparr>pl_title = js_or (pr_title req) msg_new_alert,
      pl_body = js_or (pr_message req) msg_default_body,
      pl_url = base_url P\<rparr>"

datatype settled = Fulfilled | Rejected

text \<open>
  One subscription's task of the \<open>Promise.allSettled\<close> map: send; on a
  \<open>statusCode\<close> of 404 or 410 delete the subscription (a failing delete is absorbed,
  the task is rejected either way); rethrow.
\<close>

definition push_one :: "providers \<Rightarrow> push_payload \<Rightarrow> push_subscription \<Rightarrow> sys \<Rightarrow> settled \<times> sys" where
  "push_one P pl sub s =
     (let s1 = send_ext (WebPush (sub_id sub) pl) s in
      case web_push P sub pl of
        Delivered \<Rightarrow> (Fulfilled, s1)
      | PushRejected st \<Rightarrow>
          (Rejected,
           if st = Some 404 \<or> st = Some 410
           then (case delete_sub (sub_id sub) (store s1) of
                   Some d \<Rightarrow> s1\<lparr>store := d\<rparr>
                 | None \<Rightarrow> s1)
           else s1))"

fun push_each :: "providers \<Rightarrow> push_payload \<Rightarrow> push_subscription list \<Rightarrow> sys \<Rightarrow> settled list \<times> sys" where
  "push_each P pl [] s = ([], s)"
| "push_each P pl (sub # subs) s =
     (let (r, s1) = push_one P pl sub s;
          (rs, s2) = push_each P pl subs s1
      in (r # rs, s2))"

definition push_route :: "providers \<Rightarrow> push_req \<Rightarrow> sys \<Rightarrow> response \<times> sys" where
  "push_route P req s =
     (case js_number (pr_userId req) of
        None \<Rightarrow> (Json 500 (JError prisma_error), s)
      | Some i \<Rightarrow>
          if \<not> prisma_int i then (Json 500 (JError prisma_error), s)
          else
            let subs = (if i < 0 then [] else active_subs (nat i) (store s)) in
            if subs = [] then (Json 404 (JError msg_no_device), s)
            else
              let pl = push_payload_for P req;
                  (rs, s') = push_each P pl subs s
              in (Json 200 (JSent (length (filter (\<lambda>r. r = Fulfilled) rs))), s'))"

section \<open>Email sender\<close>

definition gmail_route :: "providers \<Rightarrow> gmail_req \<Rightarrow> sys \<Rightarrow> response \<times> sys" where
  "gmail_route P req s =
     (case parse_int (gr_userId req) of
        None \<Rightarrow> (Json 500 (JError prisma_error), s)
      | Some i \<Rightarrow>
          if \<not> prisma_int i then (Json 500 (JError prisma_error), s)
          else
            (case find_user (\<lambda>r. int (uid r) = i) (store s) of
               None \<Rightarrow> (Json 500 (JError msg_not_linked), s)
             | Some u \<Rightarrow>
                 if \<not> js_truthy (google_refresh_token u) then (Json 500 (JError msg_not_linked), s)
                 else
                   let tok = js_or (google_refresh_token u) [];
                       raw = gmail_raw (email u) (js_or (gr_subject req) msg_new_alert)
                               (gr_message req);
                       s' = send_ext (GmailSend tok raw) s
                   in (case gmail_send P tok raw of
                         None \<Rightarrow> (Json 200 JSuccess, s')
                       | Some e \<Rightarrow> (Json 500 (JError e), s'))))"

section \<open>LINE sender\<close>

definition line_route :: "providers \<Rightarrow> line_req \<Rightarrow> sys \<Rightarrow> response \<times> sys" where
  "line_route P req s =
     (let s' = send_ext (LineMulticast (lr_userIds req) (lr_message req)) s in
      case line_multicast P (lr_userIds req) (lr_message req) of
        NetError e \<Rightarrow> (Json 500 (JError e), s')
      | NetResponse st txt \<Rightarrow>
          if http_ok st then (Json 200 JSuccess, s') else (Json st (JError txt), s'))"

definition endpoint_gone :: "push_result \<Rightarrow> bool" where
  "endpoint_gone r \<longleftrightarrow> r = PushRejected (Some 404) \<or> r = PushRejected (Some 410)"

section \<open>Properties of the senders\<close>

lemma delete_sub_absorbed:
  assumes "store u = d0"
  shows "(case delete_sub i d0 of Some d \<Rightarrow> u\<lparr>store := d\<rparr> | None \<Rightarrow> u) =
           u\<lparr>store := d0\<lparr>push_subs := filter (\<lambda>x. sub_id x \<noteq> i) (push_subs d0)\<rparr>\<rparr>"
proof (cases "i \<in> set (map sub_id (push_subs d0))")
  case True
  then show ?thesis by (simp add: delete_sub_def)
next
  case False
  then have "filter (\<lambda>x. sub_id x \<noteq> i) (push_subs d0) = push_subs d0"
    by (auto simp: filter_id_conv)
  with False assms show ?thesis by (simp add: delete_sub_def)
qed

lemma push_one_eq:
  "push_one P pl sub s =
     (if web_push P sub pl = Delivered then Fulfilled else Rejected,
      (send_ext (WebPush (sub_id sub) pl) s)\<lparr>store :=
         if endpoint_gone (web_push P sub pl)
         then (store s)\<lparr>push_subs := filter (\<lambda>x. sub_id x \<noteq> sub_id sub) (push_subs (store s))\<rparr>
         else store s\<rparr>)"
proof (cases "web_push P sub pl")
  case Delivered
  then show ?thesis by (simp add: push_one_def endpoint_gone_def)
next
  case (PushRejected st)
  have st: "store (send_ext (WebPush (sub_id sub) pl) s) = store s" by simp
  show ?thesis
    using PushRejected delete_sub_absorbed [OF st]
    by (auto simp: push_one_def endpoint_gone_def Let_def)
qed

lemma push_each_eq:
  "push_each P pl subs s =
     (map (\<lambda>sub. if web_push P sub pl = Delivered then Fulfilled else Rejected) subs,
      s\<lparr>store := (store s)\<lparr>push_subs :=
          filter (\<lambda>x. sub_id x \<notin> set (map sub_id (filter (\<lambda>sub. endpoint_gone (web_push P sub pl)) subs)))
            (push_subs (store s))\<rparr>,
        outbox := outbox s @ map (\<lambda>sub. WebPush (sub_id sub) pl) subs\<rparr>)"
proof (induction subs arbitrary: s)
  case Nil
  then show ?case by (simp add: filter_id_conv)
next
  case (Cons sub subs)
  then show ?case
    by (auto simp: push_one_eq send_ext_def filter_filter intro!: filter_cong)
qed

lemma fulfilled_comp [simp]:
  "(\<lambda>r. r = Fulfilled) \<circ> (\<lambda>sub. if Q sub then Fulfilled else Rejected) = Q"
  by (auto simp: fun_eq_iff)

lemma push_route_eq:
  assumes "js_number (pr_userId req) = Some (int n)" and "n < 2 ^ 31"
  shows "push_route P req s =
     (let pl = push_payload_for P req; subs = active_subs n (store s) in
      if subs = [] then (Json 404 (JError msg_no_device), s)
      else (Json 200 (JSent (length (filter (\<lambda>sub. web_push P sub pl = Delivered) subs))),
            s\<lparr>store := (store s)\<lparr>push_subs :=
                filter (\<lambda>x. sub_id x \<notin> set (map sub_id (filter (\<lambda>sub. endpoint_gone (web_push P sub pl)) subs)))
                  (push_subs (store s))\<rparr>,
              outbox := outbox s @ map (\<lambda>sub. WebPush (sub_id sub) pl) subs\<rparr>))"
proof -
  from assms(2) have "prisma_int (int n)" by (simp add: prisma_int_def)
  with assms(1) show ?thesis
    by (simp add: push_route_def push_each_eq Let_def)
qed

text \<open>
  C7: when the user id parses to a stored id with active subscriptions, the push
  route calls web-push once per active subscription, in order; deletes exactly the
  subscriptions whose endpoint answered 404 or 410 and keeps every other row; and
  answers 200 with the number of deliveries as \<open>sentCount\<close>.
\<close>

theorem push_route_fanout:
  assumes "js_number (pr_userId req) = Some (int n)" and "n < 2 ^ 31"
    and "active_subs n (store s) \<noteq> []"
  shows "push_route P req s =
     (let pl = push_payload_for P req; subs = active_subs n (store s) in
      (Json 200 (JSent (length (filter (\<lambda>sub. web_push P sub pl = Delivered) subs))),
       s\<lparr>store := (store s)\<lparr>push_subs :=
           filter (\<lambda>x. sub_id x \<notin> set (map sub_id (filter (\<lambda>sub. endpoint_gone (web_push P sub pl)) subs)))
             (push_subs (store s))\<rparr>,
         outbox := outbox s @ map (\<lambda>sub. WebPush (sub_id sub) pl) subs\<rparr>))"
  using push_route_eq [OF assms(1,2)] assms(3) by (simp add: Let_def)

theorem push_route_fanout_witness:
  "let sub = \<lparr>sub_id = 5, user_id = 1, endpoint = ''https://push.example/a'', p256dh_key = ''k'',
               auth_key = ''a'', is_active = True\<rparr>;
       s = \<lparr>store = empty_db\<lparr>push_subs := [sub]\<rparr>, outbox = [], session = None, console = [], fetches = []\<rparr>;
       req = \<lparr>pr_userId = dec_string 1, pr_title = None, pr_message = Some ''hi'', pr_url = None\<rparr>;
       P = \<lparr>line_multicast = \<lambda>_ _. NetError [], gmail_send = \<lambda>_ _. None,
            web_push = \<lambda>_ _. Delivered, base_url = None\<rparr>
   in js_number (pr_userId req) = Some (int 1) \<and> (1::nat) < 2 ^ 31 \<and>
      active_subs 1 (store s) \<noteq> [] \<and>
      push_route P req s = (Json 200 (JSent 1), s\<lparr>outbox := [WebPush 5 (push_payload_for P req)]\<rparr>)"
  unfolding Let_def
  using push_route_fanout
    [of "\<lparr>pr_userId = dec_string 1, pr_title = None, pr_message = Some ''hi'', pr_url = None\<rparr>" 1
        "\<lparr>store = empty_db\<lparr>push_subs := [\<lparr>sub_id = 5, user_id = 1,
           endpoint = ''https://push.example/a'', p256dh_key = ''k'', auth_key = ''a'',
           is_active = True\<rparr>]\<rparr>, outbox = [], session = None, console = [], fetches = []\<rparr>"
        "\<lparr>line_multicast = \<lambda>_ _. NetError [], gmail_send = \<lambda>_ _. None,
           web_push = \<lambda>_ _. Delivered, base_url = None\<rparr>"]
  by (simp add: dec_string_parses active_subs_def empty_db_def endpoint_gone_def)

text \<open>
  C23: a user with no active subscription gets a 404 error from the push route and
  nothing is sent or changed.
\<close>

theorem push_route_no_subscription:
  assumes "js_number (pr_userId req) = Some (int n)" and "n < 2 ^ 31"
    and "active_subs n (store s) = []"
  shows "push_route P req s = (Json 404 (JError msg_no_device), s)"
  using push_route_eq [OF assms(1,2)] assms(3) by (simp add: Let_def)

theorem push_route_no_subscription_witness:
  "js_number (dec_string 3) = Some (int 3) \<and> (3::nat) < 2 ^ 31 \<and> active_subs 3 empty_db = [] \<and>
   push_route \<lparr>line_multicast = \<lambda>_ _. NetError [], gmail_send = \<lambda>_ _. None,
       web_push = \<lambda>_ _. Delivered, base_url = None\<rparr>
     \<lparr>pr_userId = dec_string 3, pr_title = None, pr_message = None, pr_url = None\<rparr>
     \<lparr>store = empty_db, outbox = [], session = None, console = [], fetches = []\<rparr> =
   (Json 404 (JError msg_no_device), \<lparr>store = empty_db, outbox = [], session = None, console = [], fetches = []\<rparr>)"
  using push_route_no_subscription
    [of "\<lparr>pr_userId = dec_string 3, pr_title = None, pr_message = None, pr_url = None\<rparr>" 3
        "\<lparr>store = empty_db, outbox = [], session = None, console = [], fetches = []\<rparr>"
        "\<lparr>line_multicast = \<lambda>_ _. NetError [], gmail_send = \<lambda>_ _. None,
       web_push = \<lambda>_ _. Delivered, base_url = None\<rparr>"]
  by (simp add: dec_string_parses active_subs_def empty_db_def)

text \<open>
  C16: when the only subscription of a user reports its endpoint gone, the route
  deletes it and reports zero sends; the next push request for that user is the
  404 error with no web-push call.
\<close>

theorem push_gone_then_no_device:
  assumes "js_number (pr_userId req) = Some (int n)" and "n < 2 ^ 31"
    and "active_subs n (store s) = [sub]"
    and "endpoint_gone (web_push P sub (push_payload_for P req))"
  shows "push_route P req s =
           (Json 200 (JSent 0), s\<lparr>store := (store s)\<lparr>push_subs :=
              filter (\<lambda>x. sub_id x \<noteq> sub_id sub) (push_subs (store s))\<rparr>,
              outbox := outbox s @ [WebPush (sub_id sub) (push_payload_for P req)]\<rparr>) \<and>
         push_route P req (snd (push_route P req s)) =
           (Json 404 (JError msg_no_device), snd (push_route P req s))"
proof -
  have gone: "web_push P sub (push_payload_for P req) \<noteq> Delivered"
    using assms(4) by (auto simp: endpoint_gone_def)
  have first: "push_route P req s =
           (Json 200 (JSent 0), s\<lparr>store := (store s)\<lparr>push_subs :=
              filter (\<lambda>x. sub_id x \<noteq> sub_id sub) (push_subs (store s))\<rparr>,
              outbox := outbox s @ [WebPush (sub_id sub) (push_payload_for P req)]\<rparr>)"
    using push_route_eq [OF assms(1,2), of P s] assms(3,4) gone by (simp add: Let_def)
  have "active_subs n (store (snd (push_route P req s))) =
        filter (\<lambda>x. sub_id x \<noteq> sub_id sub) (active_subs n (store s))"
    by (simp add: first active_subs_def filter_filter conj_commute conj_left_commute)
  then have "active_subs n (store (snd (push_route P req s))) = []"
    using assms(3) by simp
  then show ?thesis
    using first push_route_eq [OF assms(1,2), of P "snd (push_route P req s)"]
    by (simp add: Let_def)
qed

theorem push_gone_then_no_device_witness:
  "let sub = \<lparr>sub_id = 5, user_id = 1, endpoint = ''https://push.example/a'', p256dh_key = ''k'',
               auth_key = ''a'', is_active = True\<rparr>;
       s = \<lparr>store = empty_db\<lparr>push_subs := [sub]\<rparr>, outbox = [], session = None, console = [], fetches = []\<rparr>;
       req = \<lparr>pr_userId = dec_string 1, pr_title = None, pr_message = Some ''hi'', pr_url = None\<rparr>;
       P = \<lparr>line_multicast = \<lambda>_ _. NetError [], gmail_send = \<lambda>_ _. None,
            web_push = \<lambda>_ _. PushRejected (Some 410), base_url = None\<rparr>
   in js_number (pr_userId req) = Some (int 1) \<and> (1::nat) < 2 ^ 31 \<and>
      active_subs 1 (store s) = [sub] \<and> endpoint_gone (web_push P sub (push_payload_for P req)) \<and>
      fst (push_route P req s) = Json 200 (JSent 0) \<and>
      fst (push_route P req (snd (push_route P req s))) = Json 404 (JError msg_no_device)"
proof -
  let ?sub = "\<lparr>sub_id = 5, user_id = 1, endpoint = ''https://push.example/a'', p256dh_key = ''k'',
               auth_key = ''a'', is_active = True\<rparr>"
  let ?s = "\<lparr>store = empty_db\<lparr>push_subs := [?sub]\<rparr>, outbox = [], session = None, console = [], fetches = []\<rparr>"
  let ?req = "\<lparr>pr_userId = dec_string 1, pr_title = None, pr_message = Some ''hi'', pr_url = None\<rparr>"
  let ?P = "\<lparr>line_multicast = \<lambda>_ _. NetError [], gmail_send = \<lambda>_ _. None,
            web_push = \<lambda>_ _. PushRejected (Some 410), base_url = None\<rparr>"
  have h: "js_number (pr_userId ?req) = Some (int 1)" "(1::nat) < 2 ^ 31"
    "active_subs 1 (store ?s) = [?sub]" "endpoint_gone (web_push ?P ?sub (push_payload_for ?P ?req))"
    by (simp_all add: dec_string_parses active_subs_def empty_db_def endpoint_gone_def)
  note c = push_gone_then_no_device [OF h]
  have "fst (push_route ?P ?req ?s) = Json 200 (JSent 0)"
    by (simp only: conjunct1 [OF c] fst_conv)
  moreover have "fst (push_route ?P ?req (snd (push_route ?P ?req ?s))) = Json 404 (JError msg_no_device)"
    by (simp only: conjunct2 [OF c] fst_conv)
  ultimately show ?thesis using h by (simp only: Let_def simp_thms)
qed

subsection \<open>Frame lemmas used by the dispatcher\<close>

lemma gmail_route_frame:
  "fetches (snd (gmail_route P req s)) = fetches s"
  "console (snd (gmail_route P req s)) = console s"
  "session (snd (gmail_route P req s)) = session s"
  "store (snd (gmail_route P req s)) = store s"
  by (auto simp: gmail_route_def Let_def split: option.split)

lemma gmail_route_response:
  "store s' = store s \<Longrightarrow> fst (gmail_route P req s') = fst (gmail_route P req s)"
  by (auto simp: gmail_route_def Let_def split: option.split)

lemma line_route_frame:
  "fetches (snd (line_route P req s)) = fetches s"
  "console (snd (line_route P req s)) = console s"
  "session (snd (line_route P req s)) = session s"
  "store (snd (line_route P req s)) = store s"
  "outbox (snd (line_route P req s)) = outbox s @ [LineMulticast (lr_userIds req) (lr_message req)]"
  by (auto simp: line_route_def Let_def split: net_result.split)

lemma line_route_response: "fst (line_route P req s') = fst (line_route P req s)"
  by (auto simp: line_route_def Let_def split: net_result.split)

lemma line_route_snd:
  "snd (line_route P req s) = send_ext (LineMulticast (lr_userIds req) (lr_message req)) s"
  by (auto simp: line_route_def Let_def split: net_result.split)

lemma push_each_frame:
  "fetches (snd (push_each P pl subs s)) = fetches s"
  "console (snd (push_each P pl subs s)) = console s"
  "session (snd (push_each P pl subs s)) = session s"
  by (simp_all add: push_each_eq)

lemma push_route_frame:
  "fetches (snd (push_route P req s)) = fetches s"
  "console (snd (push_route P req s)) = console s"
  "session (snd (push_route P req s)) = session s"
  by (auto simp: push_route_def Let_def push_each_eq split: option.split prod.split)

lemma gmail_route_frameD:
  "gmail_route P req s = (r, s') \<Longrightarrow>
     fetches s' = fetches s \<and> console s' = console s \<and> session s' = session s \<and> store s' = store s"
  using gmail_route_frame [of P req s] by simp

lemma push_route_frameD:
  "push_route P req s = (r, s') \<Longrightarrow>
     fetches s' = fetches s \<and> console s' = console s \<and> session s' = session s"
  using push_route_frame [of P req s] by simp

lemma active_subs_other_user:
  assumes "distinct (map sub_id (push_subs d))" and "m \<noteq> n"
  shows "active_subs m (d\<lparr>push_subs := filter (\<lambda>x. sub_id x \<notin> sub_id ` {y \<in> set (active_subs n d). Q y})
                              (push_subs d)\<rparr>) = active_subs m d"
proof -
  have "sub_id x \<notin> sub_id ` {y \<in> set (active_subs n d). Q y}"
    if x: "x \<in> set (push_subs d)" "user_id x = m" for x
  proof
    assume "sub_id x \<in> sub_id ` {y \<in> set (active_subs n d). Q y}"
    then obtain y where y: "y \<in> set (push_subs d)" "user_id y = n" "sub_id y = sub_id x"
      by (auto simp: active_subs_def)
    with x assms(1) have "x = y" by (metis distinct_map inj_onD)
    with x y assms(2) show False by simp
  qed
  then show ?thesis
    unfolding active_subs_def by (auto simp: filter_filter intro!: filter_cong)
qed

lemma distinct_sub_ids_filter:
  "distinct (map sub_id xs) \<Longrightarrow> distinct (map sub_id (filter P xs))"
  by (induction xs) auto


section \<open>The LINE and Gmail routes\<close>

text \<open>
  C35: the LINE route makes exactly one multicast call carrying every id of the
  request, however many there are (no cap, no splitting), never touches the store,
  and answers ok exactly when the provider answers a 2xx status.
\<close>

theorem line_route_single_call:
  "outbox (snd (line_route P req s)) = outbox s @ [LineMulticast (lr_userIds req) (lr_message req)] \<and>
   store (snd (line_route P req s)) = store s \<and>
   (resp_ok (fst (line_route P req s)) \<longleftrightarrow>
      (\<exists>st txt. line_multicast P (lr_userIds req) (lr_message req) = NetResponse st txt \<and> http_ok st))"
  by (auto simp: line_route_def Let_def resp_ok_def split: net_result.split)

text \<open>
  C36: the Gmail route answers a user without a (truthy) refresh token with a 500
  error and makes no call.
\<close>

theorem gmail_route_no_token:
  assumes "parse_int (gr_userId req) = Some (int n)" and "n < 2 ^ 31"
    and "find_user (\<lambda>r. int (uid r) = int n) (store s) = Some u"
    and "\<not> js_truthy (google_refresh_token u)"
  shows "gmail_route P req s = (Json 500 (JError msg_not_linked), s)"
  using assms by (simp add: gmail_route_def prisma_int_def)

theorem gmail_route_no_token_witness:
  "let u = blank_user\<lparr>uid := 1\<rparr>; s = init_sys\<lparr>store := empty_db\<lparr>users := [u]\<rparr>\<rparr>;
       req = \<lparr>gr_userId = dec_string 1, gr_message = ''hi'', gr_subject = None\<rparr>;
       P = \<lparr>line_multicast = \<lambda>_ _. NetResponse 200 [], gmail_send = \<lambda>_ _. None,
            web_push = \<lambda>_ _. Delivered, base_url = None\<rparr>
   in parse_int (gr_userId req) = Some (int 1) \<and> (1::nat) < 2 ^ 31 \<and>
      find_user (\<lambda>r. int (uid r) = int 1) (store s) = Some u \<and>
      \<not> js_truthy (google_refresh_token u) \<and>
      gmail_route P req s = (Json 500 (JError msg_not_linked), s)"
proof -
  have p: "parse_int (gr_userId \<lparr>gr_userId = dec_string 1, gr_message = ''hi'', gr_subject = None\<rparr>) = Some (int 1)"
    by (simp add: dec_string_parses del: of_nat_1)
  have f: "find_user (\<lambda>r. int (uid r) = int 1) (store (init_sys\<lparr>store := empty_db\<lparr>users := [blank_user\<lparr>uid := 1\<rparr>]\<rparr>\<rparr>))
           = Some (blank_user\<lparr>uid := 1\<rparr>)"
    by (simp add: find_user_def)
  have t: "\<not> js_truthy (google_refresh_token (blank_user\<lparr>uid := 1\<rparr>))" by (simp add: blank_user_def)
  show ?thesis using gmail_route_no_token [OF p _ f t] p f t by (simp add: Let_def)
qed

end
