(* ===== verification/Dispatch.thy ===== *)
theory Dispatch
  imports Selection Senders
begin

text \<open>
  The dispatch orchestrator: \<open>handleSubmit\<close> of
  \<open>src/components/DashboardClient.tsx\<close>. The dashboard's React state is the
  record \<open>dash\<close>; one submit validates the form, then, in this order, posts one
  LINE multicast, one Gmail request per email target and one push request per push
  target, each through the route model of \<open>Senders\<close>, and finally sets the
  notification. The \<open>try\<close> block is \<open>submit_body\<close>: a thrown error is its
  \<open>Some\<close> result, and the side effects made before the throw stay in the system
  state. The \<open>finally\<close> clears \<open>loading\<close>.
\<close>

definition msg_enter_message :: string where
  "msg_enter_message = utf8 [0x0E01, 0x0E23, 0x0E38, 0x0E13, 0x0E32, 0x0E43, 0x0E2A, 0x0E48,
     0x0E02, 0x0E49, 0x0E2D, 0x0E04, 0x0E27, 0x0E32, 0x0E21]"

definition msg_pick_recipient :: string where
  "msg_pick_recipient = utf8 [0x0E01, 0x0E23, 0x0E38, 0x0E13, 0x0E32, 0x0E40, 0x0E25, 0x0E37,
     0x0E2D, 0x0E01, 0x0E1C, 0x0E39, 0x0E49, 0x0E23, 0x0E31, 0x0E1A, 0x0E2D, 0x0E22, 0x0E48,
     0x0E32, 0x0E07, 0x0E19, 0x0E49, 0x0E2D, 0x0E22] @ '' 1 '' @ utf8 [0x0E04, 0x0E19]"

definition msg_pick_channel :: string where
  "msg_pick_channel = utf8 [0x0E01, 0x0E23, 0x0E38, 0x0E13, 0x0E32, 0x0E40, 0x0E25, 0x0E37,
     0x0E2D, 0x0E01, 0x0E0A, 0x0E48, 0x0E2D, 0x0E07, 0x0E17, 0x0E32, 0x0E07, 0x0E01, 0x0E32,
     0x0E23, 0x0E2A, 0x0E48, 0x0E07, 0x0E2D, 0x0E22, 0x0E48, 0x0E32, 0x0E07, 0x0E19, 0x0E49,
     0x0E2D, 0x0E22] @ '' 1 '' @ utf8 [0x0E0A, 0x0E48, 0x0E2D, 0x0E07, 0x0E17, 0x0E32, 0x0E07]"

definition msg_line_failed :: string where
  "msg_line_failed = utf8 [0x0E44, 0x0E21, 0x0E48, 0x0E2A, 0x0E32, 0x0E21, 0x0E32, 0x0E23,
     0x0E16, 0x0E2A, 0x0E48, 0x0E07] @ '' LINE '' @ utf8 [0x0E44, 0x0E14, 0x0E49]"

definition msg_system_alert :: string where
  "msg_system_alert = utf8 [0x0E41, 0x0E08, 0x0E49, 0x0E07, 0x0E40, 0x0E15, 0x0E37, 0x0E2D,
     0x0E19, 0x0E08, 0x0E32, 0x0E01, 0x0E23, 0x0E30, 0x0E1A, 0x0E1A]"

definition msg_scheduled :: string where
  "msg_scheduled = utf8 [0x0E08, 0x0E31, 0x0E14, 0x0E40, 0x0E27, 0x0E25, 0x0E32, 0x0E01,
     0x0E32, 0x0E23, 0x0E41, 0x0E08, 0x0E49, 0x0E07, 0x0E40, 0x0E15, 0x0E37, 0x0E2D, 0x0E19,
     0x0E40, 0x0E23, 0x0E35, 0x0E22, 0x0E1A, 0x0E23, 0x0E49, 0x0E2D, 0x0E22, 0x0E41, 0x0E25,
     0x0E49, 0x0E27]"

definition msg_sent :: string where
  "msg_sent = utf8 [0x0E2A, 0x0E48, 0x0E07, 0x0E01, 0x0E32, 0x0E23, 0x0E41, 0x0E08, 0x0E49,
     0x0E07, 0x0E40, 0x0E15, 0x0E37, 0x0E2D, 0x0E19, 0x0E40, 0x0E23, 0x0E35, 0x0E22, 0x0E1A,
     0x0E23, 0x0E49, 0x0E2D, 0x0E22, 0x0E41, 0x0E25, 0x0E49, 0x0E27]"

section \<open>Dashboard state\<close>

record channels =
  ch_email :: bool
  ch_line :: bool
  ch_push :: bool

definition no_channels :: channels where
  "no_channels = \<lparr>ch_email = False, ch_line = False, ch_push = False\<rparr>"

datatype note_kind = NSuccess | NError

record dash =
  d_users :: "ui_user list"
  message :: string
  selectedUsers :: "string list"
  channels :: channels
  sendAt :: string
  isScheduled :: bool
  loading :: bool
  notification :: "(note_kind \<times> string) option"
  showLogoutModal :: bool

text \<open>The initial state of the component (the \<open>useState\<close> initialisers).\<close>

definition init_dash :: "ui_user list \<Rightarrow> dash" where
  "init_dash us =
     \<lparr>d_users = us, message = [], selectedUsers = [], channels = no_channels, sendAt = [],
      isScheduled = False, loading = False, notification = None, showLogoutModal = False\<rparr>"

section \<open>The steps of \<open>handleSubmit\<close>\<close>

text \<open>The three checks at the top of the \<open>try\<close> block.\<close>

definition validate :: "dash \<Rightarrow> string option" where
  "validate d =
     (if js_trim (message d) = [] then Some msg_enter_message
      else if selectedUsers d = [] then Some msg_pick_recipient
      else if \<not> ch_email (channels d) \<and> \<not> ch_line (channels d) \<and> \<not> ch_push (channels d)
      then Some msg_pick_channel
      else None)"

text \<open>The bodies the client posts.\<close>

definition email_request :: "ui_user \<Rightarrow> string \<Rightarrow> gmail_req" where
  "email_request u msg = \<lparr>gr_userId = ui_id u, gr_message = msg, gr_subject = Some msg_system_alert\<rparr>"

definition push_request :: "ui_user \<Rightarrow> string \<Rightarrow> push_req" where
  "push_request u msg =
     \<lparr>pr_userId = ui_id u, pr_title = Some msg_system_alert, pr_message = Some msg,
      pr_url = Some ''/''\<rparr>"

text \<open>\<open>errorData.error\<close> of a failed response.\<close>

fun error_text :: "response \<Rightarrow> string" where
  "error_text (Json _ (JError e)) = e"
| "error_text _ = ''undefined''"

text \<open>The LINE part: one request with every target id; a failed response throws.\<close>

definition send_line :: "providers \<Rightarrow> dash \<Rightarrow> sys \<Rightarrow> string option \<times> sys" where
  "send_line P d s =
     (let ids = line_targets (d_users d) (selectedUsers d) in
      if ch_line (channels d) \<and> ids \<noteq> [] then
        let req = \<lparr>lr_userIds = ids, lr_message = message d\<rparr>;
            (r, s1) = line_route P req (record_fetch (ApiLine req) s)
        in if \<not> resp_ok r then (Some msg_line_failed, s1) else (None, s1)
      else (None, s))"

text \<open>The Gmail loop: one awaited request per target; a failure is logged only.\<close>

fun email_loop :: "providers \<Rightarrow> string \<Rightarrow> ui_user list \<Rightarrow> sys \<Rightarrow> sys" where
  "email_loop P msg [] s = s"
| "email_loop P msg (u # us) s =
     (let req = email_request u msg;
          (r, s1) = gmail_route P req (record_fetch (ApiGmail req) s);
          s2 = (if \<not> resp_ok r then log_error (EmailFailed (ui_id u) (error_text r)) s1 else s1)
      in email_loop P msg us s2)"

definition send_email :: "providers \<Rightarrow> dash \<Rightarrow> sys \<Rightarrow> sys" where
  "send_email P d s =
     (if ch_email (channels d) then
        let ts = email_targets (d_users d) (selectedUsers d) in
        if ts \<noteq> [] then email_loop P (message d) ts s else s
      else s)"

text \<open>The push loop: one awaited request per target; a failure is logged only.\<close>

fun push_loop :: "providers \<Rightarrow> string \<Rightarrow> ui_user list \<Rightarrow> sys \<Rightarrow> sys" where
  "push_loop P msg [] s = s"
| "push_loop P msg (u # us) s =
     (let req = push_request u msg;
          (r, s1) = push_route P req (record_fetch (ApiPush req) s);
          s2 = (if \<not> resp_ok r then log_error (PushFailed (ui_id u)) s1 else s1)
      in push_loop P msg us s2)"

definition send_push :: "providers \<Rightarrow> dash \<Rightarrow> sys \<Rightarrow> sys" where
  "send_push P d s =
     (if ch_push (channels d) then
        let ts = push_targets (d_users d) (selectedUsers d) in
        if ts \<noteq> [] then push_loop P (message d) ts s else s
      else s)"

definition submit_body :: "providers \<Rightarrow> dash \<Rightarrow> sys \<Rightarrow> string option \<times> sys" where
  "submit_body P d s =
     (case validate d of
        Some e \<Rightarrow> (Some e, s)
      | None \<Rightarrow>
          (case send_line P d s of
             (Some e, s1) \<Rightarrow> (Some e, s1)
           | (None, s1) \<Rightarrow> (None, send_push P d (send_email P d s1))))"

definition handleSubmit :: "providers \<Rightarrow> dash \<Rightarrow> sys \<Rightarrow> dash \<times> sys" where
  "handleSubmit P d s =
     (let d0 = d\<lparr>loading := True, notification := None\<rparr>;
          (err, s') = submit_body P d0 s
      in case err of
           None \<Rightarrow>
             (d0\<lparr>notification := Some (NSuccess, if isScheduled d0 then msg_scheduled else msg_sent),
                 message := [], selectedUsers := [], channels := no_channels, loading := False\<rparr>, s')
         | Some e \<Rightarrow> (d0\<lparr>notification := Some (NError, e), loading := False\<rparr>, s'))"

section \<open>Properties of the dispatcher\<close>

lemma js_trim_hi: "js_trim ''hi'' = ''hi''"
  by (simp add: js_trim_def ws_seqs_def trim_start.simps trim_end.simps cong: option.case_cong_weak)

lemma js_trim_Nil: "js_trim [] = []"
  by (simp add: js_trim_def ws_seqs_def trim_start.simps trim_end.simps cong: option.case_cong_weak)

lemma email_loop_fetches:
  "fetches (email_loop P msg us s) = fetches s @ map (\<lambda>u. ApiGmail (email_request u msg)) us"
  by (induction us arbitrary: s) (auto simp: Let_def dest!: gmail_route_frameD split: prod.split)

lemma email_loop_store: "store (email_loop P msg us s) = store s"
  by (induction us arbitrary: s) (auto simp: Let_def dest!: gmail_route_frameD split: prod.split)

lemma email_loop_console:
  "console (email_loop P msg us s) = console s @
     concat (map (\<lambda>u. let r = fst (gmail_route P (email_request u msg) s) in
                      if resp_ok r then [] else [EmailFailed (ui_id u) (error_text r)]) us)"
proof (induction us arbitrary: s)
  case Nil
  then show ?case by simp
next
  case (Cons u us)
  let ?req = "email_request u msg"
  obtain r s1 where rs: "gmail_route P ?req (record_fetch (ApiGmail ?req) s) = (r, s1)"
    by (cases "gmail_route P ?req (record_fetch (ApiGmail ?req) s)")
  have r: "r = fst (gmail_route P ?req s)"
    using gmail_route_response [of "record_fetch (ApiGmail ?req) s" s P ?req] rs by simp
  have st: "store s1 = store s" "console s1 = console s"
    using gmail_route_frame [of P ?req "record_fetch (ApiGmail ?req) s"] rs by simp_all
  define s2 where "s2 = (if \<not> resp_ok r then log_error (EmailFailed (ui_id u) (error_text r)) s1 else s1)"
  have c2: "console s2 = console s @ (if resp_ok r then [] else [EmailFailed (ui_id u) (error_text r)])"
    using st by (simp add: s2_def)
  have "store s2 = store s" using st by (simp add: s2_def)
  then have same: "\<And>v. fst (gmail_route P (email_request v msg) s2) = fst (gmail_route P (email_request v msg) s)"
    by (rule gmail_route_response)
  have step: "email_loop P msg (u # us) s = email_loop P msg us s2"
    using rs by (simp add: s2_def Let_def)
  show ?case
    unfolding step Cons.IH [of s2] c2 same r by (simp add: Let_def)
qed

lemma push_loop_fetches:
  "fetches (push_loop P msg us s) = fetches s @ map (\<lambda>u. ApiPush (push_request u msg)) us"
  by (induction us arbitrary: s) (auto simp: Let_def dest!: push_route_frameD split: prod.split)

lemma push_request_parses:
  "uid r < 2 ^ 31 \<Longrightarrow> js_number (pr_userId (push_request (format_user r) msg)) = Some (int (uid r))"
  by (simp add: push_request_def format_user_def dec_string_parses)

lemma send_line_eq:
  "send_line P d s =
     (let ids = line_targets (d_users d) (selectedUsers d);
          req = \<lparr>lr_userIds = ids, lr_message = message d\<rparr>
      in if ch_line (channels d) \<and> ids \<noteq> []
         then (if resp_ok (fst (line_route P req s)) then None else Some msg_line_failed,
               send_ext (LineMulticast ids (message d)) (record_fetch (ApiLine req) s))
         else (None, s))"
proof (cases "ch_line (channels d) \<and> line_targets (d_users d) (selectedUsers d) \<noteq> []")
  case True
  let ?req = "\<lparr>lr_userIds = line_targets (d_users d) (selectedUsers d), lr_message = message d\<rparr>"
  obtain r s1 where rs: "line_route P ?req (record_fetch (ApiLine ?req) s) = (r, s1)"
    by (cases "line_route P ?req (record_fetch (ApiLine ?req) s)")
  have r: "r = fst (line_route P ?req s)"
    using rs line_route_response [of P ?req "record_fetch (ApiLine ?req) s" s] by simp
  have s1: "s1 = send_ext (LineMulticast (lr_userIds ?req) (lr_message ?req)) (record_fetch (ApiLine ?req) s)"
    using rs line_route_snd [of P ?req "record_fetch (ApiLine ?req) s"] by simp
  show ?thesis using True rs r s1 by (simp add: send_line_def Let_def)
next
  case False
  then show ?thesis by (auto simp: send_line_def Let_def)
qed

lemma dash_frame_simps [simp]:
  "validate (d\<lparr>loading := b, notification := n\<rparr>) = validate d"
  by (simp add: validate_def)

lemma send_email_fetches:
  "fetches (send_email P d s) = fetches s @
     (if ch_email (channels d)
      then map (\<lambda>u. ApiGmail (email_request u (message d))) (email_targets (d_users d) (selectedUsers d))
      else [])"
  by (simp add: send_email_def email_loop_fetches Let_def)

lemma send_push_fetches:
  "fetches (send_push P d s) = fetches s @
     (if ch_push (channels d)
      then map (\<lambda>u. ApiPush (push_request u (message d))) (push_targets (d_users d) (selectedUsers d))
      else [])"
  by (simp add: send_push_def push_loop_fetches Let_def)

text \<open>
  C8: when validation fails (blank message after trimming, no recipient, or no
  channel), the submit shows that error, clears the loading flag, keeps the form, and
  makes no request and no provider call.
\<close>

theorem handleSubmit_invalid:
  assumes "validate d = Some e"
  shows "handleSubmit P d s = (d\<lparr>loading := False, notification := Some (NError, e)\<rparr>, s)"
  using assms by (simp add: handleSubmit_def submit_body_def)

theorem handleSubmit_invalid_witness:
  "validate (init_dash []) = Some msg_enter_message \<and>
   handleSubmit \<lparr>line_multicast = \<lambda>_ _. NetResponse 200 [], gmail_send = \<lambda>_ _. None,
                 web_push = \<lambda>_ _. Delivered, base_url = None\<rparr> (init_dash []) init_sys =
     ((init_dash [])\<lparr>loading := False, notification := Some (NError, msg_enter_message)\<rparr>, init_sys)"
proof -
  have v: "validate (init_dash []) = Some msg_enter_message"
    by (simp add: validate_def init_dash_def js_trim_Nil)
  from v handleSubmit_invalid [OF v] show ?thesis by blast
qed

text \<open>
  C4: when the LINE request of a valid submit fails, the submit stops there: the only
  request made is the LINE multicast, no email or push request follows, and the error
  is shown.
\<close>

theorem handleSubmit_line_failure:
  assumes "validate d = None" and "ch_line (channels d)"
    and "line_targets (d_users d) (selectedUsers d) \<noteq> []"
    and "\<not> resp_ok (fst (line_route P
            \<lparr>lr_userIds = line_targets (d_users d) (selectedUsers d), lr_message = message d\<rparr> s))"
  shows "handleSubmit P d s =
           (d\<lparr>loading := False, notification := Some (NError, msg_line_failed)\<rparr>,
            send_ext (LineMulticast (line_targets (d_users d) (selectedUsers d)) (message d))
              (record_fetch (ApiLine \<lparr>lr_userIds = line_targets (d_users d) (selectedUsers d),
                                      lr_message = message d\<rparr>) s))"
  using assms by (simp add: handleSubmit_def submit_body_def send_line_eq Let_def)

theorem handleSubmit_line_failure_witness:
  "let d = (init_dash [format_user (blank_user\<lparr>uid := 1, line_user_id := Some ''U1''\<rparr>)])
             \<lparr>message := ''hi'', selectedUsers := [''1''], channels := no_channels\<lparr>ch_line := True\<rparr>\<rparr>;
       P = \<lparr>line_multicast = \<lambda>_ _. NetResponse 400 ''bad request'', gmail_send = \<lambda>_ _. None,
            web_push = \<lambda>_ _. Delivered, base_url = None\<rparr>
   in validate d = None \<and> ch_line (channels d) \<and> line_targets (d_users d) (selectedUsers d) = [''U1''] \<and>
      \<not> resp_ok (fst (line_route P \<lparr>lr_userIds = [''U1''], lr_message = ''hi''\<rparr> init_sys)) \<and>
      handleSubmit P d init_sys =
        (d\<lparr>loading := False, notification := Some (NError, msg_line_failed)\<rparr>,
         send_ext (LineMulticast [''U1''] ''hi'')
           (record_fetch (ApiLine \<lparr>lr_userIds = [''U1''], lr_message = ''hi''\<rparr>) init_sys))"
proof -
  let ?d = "(init_dash [format_user (blank_user\<lparr>uid := 1, line_user_id := Some ''U1''\<rparr>)])
             \<lparr>message := ''hi'', selectedUsers := [''1''], channels := no_channels\<lparr>ch_line := True\<rparr>\<rparr>"
  let ?P = "\<lparr>line_multicast = \<lambda>_ _. NetResponse 400 ''bad request'', gmail_send = \<lambda>_ _. None,
            web_push = \<lambda>_ _. Delivered, base_url = None\<rparr>"
  have h: "validate ?d = None" "ch_line (channels ?d)"
    "line_targets (d_users ?d) (selectedUsers ?d) = [''U1'']"
    "\<not> resp_ok (fst (line_route ?P \<lparr>lr_userIds = [''U1''], lr_message = ''hi''\<rparr> init_sys))"
    by (simp_all add: validate_def init_dash_def no_channels_def js_trim_hi line_targets_def
        format_user_def blank_user_def dec_string.simps js_simps line_route_def resp_ok_def http_ok_def)
  have "handleSubmit ?P ?d init_sys =
        (?d\<lparr>loading := False, notification := Some (NError, msg_line_failed)\<rparr>,
         send_ext (LineMulticast [''U1''] ''hi'')
           (record_fetch (ApiLine \<lparr>lr_userIds = [''U1''], lr_message = ''hi''\<rparr>) init_sys))"
    using handleSubmit_line_failure [of ?d ?P init_sys] h by (simp add: init_dash_def)
  with h show ?thesis by (simp add: Let_def)
qed

text \<open>
  C18: the email fan-out posts one Gmail request per target, in order, whatever the
  earlier requests returned; it never changes the store; and it logs exactly one
  console error per failed target.
\<close>

theorem email_loop_isolation:
  "fetches (email_loop P msg us s) = fetches s @ map (\<lambda>u. ApiGmail (email_request u msg)) us \<and>
   store (email_loop P msg us s) = store s \<and>
   console (email_loop P msg us s) = console s @
     concat (map (\<lambda>u. let r = fst (gmail_route P (email_request u msg) s) in
                      if resp_ok r then [] else [EmailFailed (ui_id u) (error_text r)]) us)"
  by (simp add: email_loop_fetches email_loop_store email_loop_console)

text \<open>
  C5: when validation passes and the LINE request (if any) succeeds, the requests
  made are the LINE multicast (if LINE is chosen and has recipients), then one Gmail
  request per email target, then one push request per push target; the success message
  is shown and the form is reset.
\<close>

theorem handleSubmit_success:
  assumes "validate d = None"
    and "ch_line (channels d) \<and> line_targets (d_users d) (selectedUsers d) \<noteq> [] \<longrightarrow>
      resp_ok (fst (line_route P \<lparr>lr_userIds = line_targets (d_users d) (selectedUsers d),
                                   lr_message = message d\<rparr> s))"
  shows "fst (handleSubmit P d s) =
           d\<lparr>loading := False,
             notification := Some (NSuccess, if isScheduled d then msg_scheduled else msg_sent),
             message := [], selectedUsers := [], channels := no_channels\<rparr> \<and>
         fetches (snd (handleSubmit P d s)) = fetches s @
           (if ch_line (channels d) \<and> line_targets (d_users d) (selectedUsers d) \<noteq> []
            then [ApiLine \<lparr>lr_userIds = line_targets (d_users d) (selectedUsers d),
                          lr_message = message d\<rparr>] else []) @
           (if ch_email (channels d)
            then map (\<lambda>u. ApiGmail (email_request u (message d))) (email_targets (d_users d) (selectedUsers d))
            else []) @
           (if ch_push (channels d)
            then map (\<lambda>u. ApiPush (push_request u (message d))) (push_targets (d_users d) (selectedUsers d))
            else [])"
  using assms
  by (auto simp: handleSubmit_def submit_body_def send_line_eq send_push_fetches send_email_fetches
      Let_def)

theorem handleSubmit_success_witness:
  "let d = (init_dash [format_user (blank_user\<lparr>uid := 1, line_user_id := Some ''U1''\<rparr>)])
             \<lparr>message := ''hi'', selectedUsers := [''1''], channels := no_channels\<lparr>ch_line := True\<rparr>\<rparr>;
       P = \<lparr>line_multicast = \<lambda>_ _. NetResponse 200 [], gmail_send = \<lambda>_ _. None,
            web_push = \<lambda>_ _. Delivered, base_url = None\<rparr>
   in validate d = None \<and>
      (ch_line (channels d) \<and> line_targets (d_users d) (selectedUsers d) \<noteq> [] \<longrightarrow>
        resp_ok (fst (line_route P \<lparr>lr_userIds = line_targets (d_users d) (selectedUsers d),
                                     lr_message = message d\<rparr> init_sys))) \<and>
      fetches (snd (handleSubmit P d init_sys)) = [ApiLine \<lparr>lr_userIds = [''U1''], lr_message = ''hi''\<rparr>]"
proof -
  let ?d = "(init_dash [format_user (blank_user\<lparr>uid := 1, line_user_id := Some ''U1''\<rparr>)])
             \<lparr>message := ''hi'', selectedUsers := [''1''], channels := no_channels\<lparr>ch_line := True\<rparr>\<rparr>"
  let ?P = "\<lparr>line_multicast = \<lambda>_ _. NetResponse 200 [], gmail_send = \<lambda>_ _. None,
            web_push = \<lambda>_ _. Delivered, base_url = None\<rparr>"
  have lt: "line_targets (d_users ?d) (selectedUsers ?d) = [''U1'']"
    by (simp add: init_dash_def line_targets_def format_user_def blank_user_def dec_string.simps js_simps)
  have h: "validate ?d = None"
    "ch_line (channels ?d) \<and> line_targets (d_users ?d) (selectedUsers ?d) \<noteq> [] \<longrightarrow>
        resp_ok (fst (line_route ?P \<lparr>lr_userIds = line_targets (d_users ?d) (selectedUsers ?d),
                                     lr_message = message ?d\<rparr> init_sys))"
    by (simp_all add: validate_def init_dash_def no_channels_def js_trim_hi line_route_def
        resp_ok_def http_ok_def)
  have "fetches (snd (handleSubmit ?P ?d init_sys)) = [ApiLine \<lparr>lr_userIds = [''U1''], lr_message = ''hi''\<rparr>]"
    using conjunct2 [OF handleSubmit_success [OF h]] lt
    by (simp add: init_dash_def no_channels_def init_sys_def)
  with h show ?thesis by (simp add: Let_def)
qed

lemma push_loop_cons:
  assumes "uid r < 2 ^ 31" and "distinct (map sub_id (push_subs (store s)))"
  obtains s2 where "push_loop P msg (format_user r # us) s = push_loop P msg us s2"
    and "outbox s2 = outbox s @ map (\<lambda>sub. WebPush (sub_id sub) (push_payload_for P (push_request (format_user r) msg)))
                                   (active_subs (uid r) (store s))"
    and "distinct (map sub_id (push_subs (store s2)))"
    and "\<And>n. n \<noteq> uid r \<Longrightarrow> active_subs n (store s2) = active_subs n (store s)"
proof -
  let ?req = "push_request (format_user r) msg"
  let ?pl = "push_payload_for P ?req"
  let ?t = "record_fetch (ApiPush ?req) s"
  have eq: "push_route P ?req ?t =
     (let pl = push_payload_for P ?req; subs = active_subs (uid r) (store ?t) in
      if subs = [] then (Json 404 (JError msg_no_device), ?t)
      else (Json 200 (JSent (length (filter (\<lambda>sub. web_push P sub pl = Delivered) subs))),
            ?t\<lparr>store := (store ?t)\<lparr>push_subs :=
                filter (\<lambda>x. sub_id x \<notin> set (map sub_id (filter (\<lambda>sub. endpoint_gone (web_push P sub pl)) subs)))
                  (push_subs (store ?t))\<rparr>,
              outbox := outbox ?t @ map (\<lambda>sub. WebPush (sub_id sub) pl) subs\<rparr>))"
    using assms(1) by (intro push_route_eq push_request_parses)
  obtain resp s1 where rs: "push_route P ?req ?t = (resp, s1)" by (cases "push_route P ?req ?t")
  define s2 where "s2 = (if \<not> resp_ok resp then log_error (PushFailed (ui_id (format_user r))) s1 else s1)"
  show ?thesis
  proof
    show "push_loop P msg (format_user r # us) s = push_loop P msg us s2"
      using rs by (simp add: s2_def Let_def)
    show "outbox s2 = outbox s @ map (\<lambda>sub. WebPush (sub_id sub) ?pl) (active_subs (uid r) (store s))"
      using eq rs by (auto simp: s2_def Let_def split: if_splits)
    show "distinct (map sub_id (push_subs (store s2)))"
      using eq rs assms(2) by (auto simp: s2_def Let_def distinct_sub_ids_filter split: if_splits)
    fix n assume ne: "n \<noteq> uid r"
    show "active_subs n (store s2) = active_subs n (store s)"
    proof (cases "active_subs (uid r) (store s) = []")
      case True
      with eq rs show ?thesis by (simp add: s2_def Let_def)
    next
      case False
      with eq rs have "store s2 = (store s)\<lparr>push_subs :=
          filter (\<lambda>x. sub_id x \<notin> sub_id ` {y \<in> set (active_subs (uid r) (store s)).
                        endpoint_gone (web_push P y ?pl)}) (push_subs (store s))\<rparr>"
        by (simp add: s2_def Let_def)
      then show ?thesis using active_subs_other_user [OF assms(2) ne] by simp
    qed
  qed
qed

text \<open>
  C17: the push fan-out over directory users with distinct ids calls web-push exactly
  once per active subscription of each target, in target order, provided subscription
  ids are distinct.
\<close>

theorem push_loop_fanout:
  assumes "distinct (map uid rs)" and "\<forall>r\<in>set rs. uid r < 2 ^ 31"
    and "distinct (map sub_id (push_subs (store s)))"
  shows "outbox (push_loop P msg (map format_user rs) s) = outbox s @
           concat (map (\<lambda>r. map (\<lambda>sub. WebPush (sub_id sub) (push_payload_for P (push_request (format_user r) msg)))
                              (active_subs (uid r) (store s))) rs)"
  using assms
proof (induction rs arbitrary: s)
  case (Cons r rs)
  obtain s2 where st: "push_loop P msg (format_user r # map format_user rs) s = push_loop P msg (map format_user rs) s2"
    and out: "outbox s2 = outbox s @ map (\<lambda>sub. WebPush (sub_id sub) (push_payload_for P (push_request (format_user r) msg)))
                                         (active_subs (uid r) (store s))"
    and d: "distinct (map sub_id (push_subs (store s2)))"
    and other: "\<And>n. n \<noteq> uid r \<Longrightarrow> active_subs n (store s2) = active_subs n (store s)"
    using push_loop_cons [of r s P msg "map format_user rs"] Cons.prems(2,3) by auto
  have "\<forall>r'\<in>set rs. active_subs (uid r') (store s2) = active_subs (uid r') (store s)"
    using Cons.prems(1) other by (metis distinct.simps(2) image_eqI list.simps(9) set_map)
  then have meq: "map (\<lambda>r'. map (\<lambda>sub. WebPush (sub_id sub) (push_payload_for P (push_request (format_user r') msg)))
                        (active_subs (uid r') (store s2))) rs =
        map (\<lambda>r'. map (\<lambda>sub. WebPush (sub_id sub) (push_payload_for P (push_request (format_user r') msg)))
                        (active_subs (uid r') (store s))) rs"
    by simp
  have "outbox (push_loop P msg (map format_user rs) s2) = outbox s2 @
          concat (map (\<lambda>r'. map (\<lambda>sub. WebPush (sub_id sub) (push_payload_for P (push_request (format_user r') msg)))
                        (active_subs (uid r') (store s2))) rs)"
    using Cons.prems d by (intro Cons.IH) auto
  then show ?case
    by (simp only: st out meq list.map concat.simps append_assoc)
qed simp

theorem push_loop_fanout_witness:
  "let rs = [blank_user\<lparr>uid := 1\<rparr>, blank_user\<lparr>uid := 2\<rparr>];
       sub = \<lparr>sub_id = 9, user_id = 2, endpoint = ''https://push.example/b'', p256dh_key = ''k'',
              auth_key = ''x'', is_active = True\<rparr>;
       s = init_sys\<lparr>store := empty_db\<lparr>push_subs := [sub]\<rparr>\<rparr>;
       P = \<lparr>line_multicast = \<lambda>_ _. NetResponse 200 [], gmail_send = \<lambda>_ _. None,
            web_push = \<lambda>_ _. Delivered, base_url = None\<rparr>
   in distinct (map uid rs) \<and> (\<forall>r\<in>set rs. uid r < 2 ^ 31) \<and>
      distinct (map sub_id (push_subs (store s))) \<and>
      outbox (push_loop P ''hi'' (map format_user rs) s) =
        [WebPush 9 (push_payload_for P (push_request (format_user (blank_user\<lparr>uid := 2\<rparr>)) ''hi''))]"
proof -
  let ?rs = "[blank_user\<lparr>uid := 1\<rparr>, blank_user\<lparr>uid := 2\<rparr>]"
  let ?s = "init_sys\<lparr>store := empty_db\<lparr>push_subs := [\<lparr>sub_id = 9, user_id = 2,
              endpoint = ''https://push.example/b'', p256dh_key = ''k'', auth_key = ''x'',
              is_active = True\<rparr>]\<rparr>\<rparr>"
  let ?P = "\<lparr>line_multicast = \<lambda>_ _. NetResponse 200 [], gmail_send = \<lambda>_ _. None,
            web_push = \<lambda>_ _. Delivered, base_url = None\<rparr>"
  have h: "distinct (map uid ?rs)" "\<forall>r\<in>set ?rs. uid r < 2 ^ 31"
    "distinct (map sub_id (push_subs (store ?s)))"
    by (simp_all add: blank_user_def empty_db_def)
  have "outbox (push_loop ?P ''hi'' (map format_user ?rs) ?s) =
        [WebPush 9 (push_payload_for ?P (push_request (format_user (blank_user\<lparr>uid := 2\<rparr>)) ''hi''))]"
    using push_loop_fanout [OF h, of ?P "''hi''"]
    by (simp add: init_sys_def empty_db_def active_subs_def blank_user_def)
  with h show ?thesis by (simp add: Let_def)
qed

text \<open>
  C26: the schedule controls (sendAt, isScheduled) have no effect on what a submit
  sends or stores; only the success text differs.
\<close>

theorem handleSubmit_schedule_ignored:
  "snd (handleSubmit P (d\<lparr>sendAt := t, isScheduled := b\<rparr>) s) = snd (handleSubmit P d s)"
  by (simp add: handleSubmit_def submit_body_def send_line_eq send_email_def send_push_def
      validate_def Let_def split: option.split)

lemma find_distinct_key:
  "distinct (map f xs) \<Longrightarrow> x \<in> set xs \<Longrightarrow> find (\<lambda>y. f y = f x) xs = Some x"
  by (induction xs) (auto simp: image_iff)

lemma db_wf_uid_bound: "db_wf d \<Longrightarrow> r \<in> set (users d) \<Longrightarrow> uid r < 2 ^ 31"
  by (fastforce simp: db_wf_def list_all_iff)

text \<open>
  C31: the ids the page prints and the routes read agree: for every row of a
  well-formed store, the id that \<open>user.id.toString()\<close> puts in the Gmail
  request is read back by \<open>parseInt\<close> as the row's id, passes the 32-bit
  check, and \<open>findUnique\<close> on it returns exactly that row; the push request's
  \<open>Number(userId)\<close> reads back the same id.
\<close>

theorem requests_address_user:
  assumes "db_wf d" and "r \<in> set (users d)"
  shows "parse_int (gr_userId (email_request (format_user r) msg)) = Some (int (uid r)) \<and>
         prisma_int (int (uid r)) \<and>
         find_user (\<lambda>x. int (uid x) = int (uid r)) d = Some r \<and>
         js_number (pr_userId (push_request (format_user r) msg)) = Some (int (uid r))"
proof -
  have b: "uid r < 2 ^ 31" using db_wf_uid_bound [OF assms] .
  then have b53: "uid r < 2 ^ 53" by simp
  have "find_user (\<lambda>x. uid x = uid r) d = Some r"
    using assms find_distinct_key [of uid "users d" r] by (simp add: db_wf_def find_user_def)
  moreover have "prisma_int (int (uid r))" using b by (simp add: prisma_int_def)
  ultimately show ?thesis
    using dec_string_parses [OF b53]
    by (simp add: email_request_def push_request_def format_user_def)
qed

theorem requests_address_user_witness:
  "db_wf (empty_db\<lparr>users := [blank_user\<lparr>uid := 7\<rparr>], next_user_id := 8, now := 1\<rparr>) \<and>
   blank_user\<lparr>uid := 7\<rparr> \<in> set (users (empty_db\<lparr>users := [blank_user\<lparr>uid := 7\<rparr>], next_user_id := 8, now := 1\<rparr>)) \<and>
   parse_int (gr_userId (email_request (format_user (blank_user\<lparr>uid := 7\<rparr>)) ''hi'')) = Some 7 \<and>
   find_user (\<lambda>x. int (uid x) = 7) (empty_db\<lparr>users := [blank_user\<lparr>uid := 7\<rparr>], next_user_id := 8, now := 1\<rparr>) =
     Some (blank_user\<lparr>uid := 7\<rparr>) \<and>
   js_number (pr_userId (push_request (format_user (blank_user\<lparr>uid := 7\<rparr>)) ''hi'')) = Some 7"
proof -
  have wf: "db_wf (empty_db\<lparr>users := [blank_user\<lparr>uid := 7\<rparr>], next_user_id := 8, now := 1\<rparr>)"
    by (simp add: db_wf_def empty_db_def blank_user_def List.map_filter_simps)
  show ?thesis
    using requests_address_user [OF wf, of "blank_user\<lparr>uid := 7\<rparr>" "''hi''"] wf by simp
qed

end
