(* ===== verification/Auth.thy ===== *)
theory Auth
  imports Server
begin

text \<open>
  Sign-up and sign-in on the server: \<open>api/auth/register\<close>, \<open>api/auth/login\<close>,
  the server actions \<open>loginAction\<close> and \<open>logoutAction\<close> of \<open>app/actions/auth.ts\<close>,
  and the OAuth callbacks \<open>api/auth/google/callback\<close> and \<open>api/auth/line/callback\<close>.
  A signed-in browser is one whose \<open>session\<close> cookie is set; every path that signs
  in sets it to \<open>"true"\<close>. bcrypt and the OAuth providers' token and profile
  endpoints are oracles in \<open>auth_providers\<close>: \<open>None\<close> (or \<open>Inl msg\<close>) is a call
  that throws, so that the route's \<open>catch\<close> answers.
\<close>

section \<open>Messages\<close>

definition msg_fill_all :: string where
  "msg_fill_all = utf8 [0x0E01, 0x0E23, 0x0E38, 0x0E13, 0x0E32, 0x0E01, 0x0E23, 0x0E2D,
     0x0E01, 0x0E02, 0x0E49, 0x0E2D, 0x0E21, 0x0E39, 0x0E25, 0x0E43, 0x0E2B, 0x0E49, 0x0E04,
     0x0E23, 0x0E1A]"

definition msg_username_taken :: string where
  "msg_username_taken = ''Username '' @ utf8 [0x0E19, 0x0E35, 0x0E49, 0x0E21, 0x0E35, 0x0E1C,
     0x0E39, 0x0E49, 0x0E43, 0x0E0A, 0x0E49, 0x0E07, 0x0E32, 0x0E19, 0x0E41, 0x0E25, 0x0E49,
     0x0E27]"

definition msg_registered :: string where
  "msg_registered = utf8 [0x0E2A, 0x0E21, 0x0E31, 0x0E04, 0x0E23, 0x0E2A, 0x0E21, 0x0E32,
     0x0E0A, 0x0E34, 0x0E01, 0x0E2A, 0x0E33, 0x0E40, 0x0E23, 0x0E47, 0x0E08]"

definition msg_user_not_found :: string where
  "msg_user_not_found = utf8 [0x0E44, 0x0E21, 0x0E48, 0x0E1E, 0x0E1A, 0x0E0A, 0x0E37, 0x0E48,
     0x0E2D, 0x0E1C, 0x0E39, 0x0E49, 0x0E43, 0x0E0A, 0x0E49, 0x0E2B, 0x0E23, 0x0E37, 0x0E2D,
     0x0E23, 0x0E2B, 0x0E31, 0x0E2A, 0x0E1C, 0x0E48, 0x0E32, 0x0E19, 0x0E44, 0x0E21, 0x0E48,
     0x0E16, 0x0E39, 0x0E01, 0x0E15, 0x0E49, 0x0E2D, 0x0E07]"

definition msg_wrong_password :: string where
  "msg_wrong_password = utf8 [0x0E23, 0x0E2B, 0x0E31, 0x0E2A, 0x0E1C, 0x0E48, 0x0E32, 0x0E19,
     0x0E44, 0x0E21, 0x0E48, 0x0E16, 0x0E39, 0x0E01, 0x0E15, 0x0E49, 0x0E2D, 0x0E07]"

definition msg_bad_credentials :: string where
  "msg_bad_credentials = ''Username '' @ utf8 [0x0E2B, 0x0E23, 0x0E37, 0x0E2D] @ '' Password
     '' @ utf8 [0x0E44, 0x0E21, 0x0E48, 0x0E16, 0x0E39, 0x0E01, 0x0E15, 0x0E49, 0x0E2D,
     0x0E07]"

definition bcrypt_error :: string where
  "bcrypt_error = ''data and hash arguments required''"

section \<open>Providers of the sign-in flows\<close>

text \<open>The parsed JSON of Google's token endpoint and userinfo endpoint.\<close>

record google_tokens =
  gt_access_token :: "string option"
  gt_refresh_token :: "string option"

record google_user =
  gu_email :: "string option"
  gu_name :: "string option"
  gu_picture :: "string option"

text \<open>The parsed JSON of LINE's token endpoint and profile endpoint.\<close>

record line_tokens =
  lt_error :: "string option"
  lt_error_description :: "string option"
  lt_access_token :: "string option"

record line_profile =
  lp_userId :: "string option"
  lp_displayName :: "string option"
  lp_pictureUrl :: "string option"

text \<open>
  \<open>google_userinfo\<close> and \<open>line_profile_of\<close> receive the text of the
  \<open>Authorization\<close> header's token, \<open>${tokens.access_token}\<close> (\<open>"undefined"\<close>
  when the token response has none).
\<close>

record auth_providers =
  bcrypt_hash :: "string \<Rightarrow> string"
  bcrypt_compare :: "string \<Rightarrow> string \<Rightarrow> bool"
  google_token :: "string \<Rightarrow> google_tokens option"
  google_userinfo :: "string \<Rightarrow> google_user option"
  line_token :: "string \<Rightarrow> string + line_tokens"
  line_profile_of :: "string \<Rightarrow> string + line_profile"
  nextauth_url :: "string option"

text \<open>\<open>String(v)\<close> of a possibly undefined value.\<close>

definition js_string :: "string option \<Rightarrow> string" where
  "js_string v = (case v of None \<Rightarrow> ''undefined'' | Some x \<Rightarrow> x)"

definition set_session :: "sys \<Rightarrow> sys" where
  "set_session s = s\<lparr>session := Some ''true''\<rparr>"

section \<open>\<open>POST /api/auth/register\<close>\<close>

text \<open>The row \<open>prisma.user.create\<close> inserts: push on, e-mail and LINE off.\<close>

definition credentials_user :: "string \<Rightarrow> string \<Rightarrow> user_row" where
  "credentials_user u h =
     blank_user\<lparr>username := Some u, password_hash := Some h, line_display_name := Some u,
                login_provider := Some CREDENTIALS, can_receive_push := True,
                can_receive_email := False, can_receive_line := False\<rparr>"

definition register_route :: "auth_providers \<Rightarrow> cred_req \<Rightarrow> sys \<Rightarrow> response \<times> sys" where
  "register_route A req s =
     (if \<not> js_truthy (cq_username req) \<or> \<not> js_truthy (cq_password req)
      then (Json 400 (JError msg_fill_all), s)
      else
        let u = js_or (cq_username req) []; p = js_or (cq_password req) [] in
        (case find_user (\<lambda>r. username r = Some u) (store s) of
           Some _ \<Rightarrow> (Json 400 (JError msg_username_taken), s)
         | None \<Rightarrow>
             (case create_user (credentials_user u (bcrypt_hash A p)) (store s) of
                None \<Rightarrow> (Json 500 (JError prisma_error), s)
              | Some (r, d) \<Rightarrow> (Json 201 (JCreated msg_registered (uid r)), s\<lparr>store := d\<rparr>))))"

section \<open>\<open>POST /api/auth/login\<close>\<close>

text \<open>
  \<open>findUnique({ where: { username } })\<close> with \<open>username\<close> undefined is a Prisma
  validation error; \<open>bcrypt.compare(undefined, hash)\<close> rejects.
\<close>

definition login_route :: "auth_providers \<Rightarrow> cred_req \<Rightarrow> sys \<Rightarrow> response \<times> sys" where
  "login_route A req s =
     (case cq_username req of
        None \<Rightarrow> (Json 500 (JError prisma_error), s)
      | Some u \<Rightarrow>
          (case find_user (\<lambda>r. username r = Some u) (store s) of
             None \<Rightarrow> (Json 401 (JError msg_user_not_found), s)
           | Some r \<Rightarrow>
               if \<not> js_truthy (password_hash r) then (Json 401 (JError msg_user_not_found), s)
               else
                 (case cq_password req of
                    None \<Rightarrow> (Json 500 (JError bcrypt_error), s)
                  | Some p \<Rightarrow>
                      if bcrypt_compare A p (js_or (password_hash r) [])
                      then (Json 200 JSuccess, set_session s)
                      else (Json 401 (JError msg_wrong_password), s))))"

section \<open>Server actions (\<open>app/actions/auth.ts\<close>)\<close>

text \<open>A server action either redirects (\<open>redirect()\<close> throws a navigation) or returns a value.\<close>

datatype action_result = ActRedirect string | ActError string

definition loginAction :: "string option \<Rightarrow> string option \<Rightarrow> sys \<Rightarrow> action_result \<times> sys" where
  "loginAction u p s =
     (if u = Some ''admin'' \<and> p = Some ''123456''
      then (ActRedirect ''/'', set_session s)
      else (ActError msg_bad_credentials, s))"

definition logoutAction :: "sys \<Rightarrow> action_result \<times> sys" where
  "logoutAction s = (ActRedirect ''/login'', s\<lparr>session := None\<rparr>)"

section \<open>OAuth callbacks\<close>

text \<open>
  \<open>if (!code)\<close> answers 400; the code exchange, the profile request and the
  Prisma calls run inside \<open>try\<close>. The profile's fields are written with
  \<open>prisma_set\<close>: an absent field leaves the column unchanged.
\<close>

definition google_update :: "google_tokens \<Rightarrow> google_user \<Rightarrow> user_row \<Rightarrow> user_row" where
  "google_update tok gu r =
     r\<lparr>line_display_name := prisma_set (gu_name gu) (line_display_name r),
       line_picture_url := prisma_set (gu_picture gu) (line_picture_url r),
       login_provider := Some GOOGLE,
       google_refresh_token :=
         (if js_truthy (gt_refresh_token tok) then gt_refresh_token tok
          else google_refresh_token r)\<rparr>"

definition google_callback :: "auth_providers \<Rightarrow> string option \<Rightarrow> sys \<Rightarrow> response \<times> sys" where
  "google_callback A code s =
     (if \<not> js_truthy code then (Json 400 (JError ''No code provided''), s)
      else
        (case google_token A (js_or code []) of
           None \<Rightarrow> (Json 500 (JError ''Internal Server Error''), s)
         | Some tok \<Rightarrow>
             (case google_userinfo A (js_string (gt_access_token tok)) of
                None \<Rightarrow> (Json 500 (JError ''Internal Server Error''), s)
              | Some gu \<Rightarrow>
                  (case gu_email gu of
                     None \<Rightarrow> (Json 500 (JError ''Internal Server Error''), s)
                   | Some e \<Rightarrow>
                       (case find_user (\<lambda>r. email r = Some e) (store s) of
                          None \<Rightarrow> (Redirect ''/register?error=account_not_found'', s)
                        | Some _ \<Rightarrow>
                            (Redirect ''/'',
                             set_session (s\<lparr>store := update_user (\<lambda>r. email r = Some e)
                                                      (google_update tok gu) (store s)\<rparr>)))))))"

definition line_update :: "line_profile \<Rightarrow> user_row \<Rightarrow> user_row" where
  "line_update pr r =
     r\<lparr>line_display_name := prisma_set (lp_displayName pr) (line_display_name r),
       line_picture_url := prisma_set (lp_pictureUrl pr) (line_picture_url r),
       login_provider := Some LINE, can_receive_line := True\<rparr>"

text \<open>
  \<open>throw new Error(tokens.error_description)\<close>: the message of \<open>new Error(undefined)\<close>
  is the empty string.
\<close>

definition line_failed :: "string \<Rightarrow> response" where
  "line_failed m = Json 500 (JFailed ''Login failed'' m)"

definition line_callback :: "auth_providers \<Rightarrow> string option \<Rightarrow> sys \<Rightarrow> response \<times> sys" where
  "line_callback A code s =
     (if \<not> js_truthy code then (Json 400 (JError ''No code provided''), s)
      else
        (case line_token A (js_or code []) of
           Inl m \<Rightarrow> (line_failed m, s)
         | Inr tok \<Rightarrow>
             if js_truthy (lt_error tok) then (line_failed (js_or (lt_error_description tok) []), s)
             else
               (case line_profile_of A (js_string (lt_access_token tok)) of
                  Inl m \<Rightarrow> (line_failed m, s)
                | Inr pr \<Rightarrow>
                    (case lp_userId pr of
                       None \<Rightarrow> (line_failed prisma_error, s)
                     | Some lid \<Rightarrow>
                         (case find_user (\<lambda>r. line_user_id r = Some lid) (store s) of
                            None \<Rightarrow> (Redirect ''/register?error=line_not_linked'', s)
                          | Some _ \<Rightarrow>
                              (Redirect (js_string (nextauth_url A)),
                               set_session (s\<lparr>store := update_user (\<lambda>r. line_user_id r = Some lid)
                                                        (line_update pr) (store s)\<rparr>)))))))"


section \<open>Properties of the sign-in routes\<close>

lemma register_route_created:
  assumes "register_route A req s = (Json 201 (JCreated m i), s1)"
  obtains u p r d where "cq_username req = Some u" "cq_password req = Some p" "u \<noteq> []" "p \<noteq> []"
    "find_user (\<lambda>r. username r = Some u) (store s) = None"
    "create_user (credentials_user u (bcrypt_hash A p)) (store s) = Some (r, d)"
    "s1 = s\<lparr>store := d\<rparr>" "i = uid r"
  using assms
  by (cases "cq_username req"; cases "cq_password req")
     (auto simp: register_route_def Let_def split: if_splits option.splits)

text \<open>
  C12: a successful sign-up can be followed by a successful sign-in with the same
  credentials, which sets the session cookie, provided bcrypt's hashes are
  non-empty and verify against their password.
\<close>

theorem register_then_login:
  assumes "register_route A req s = (Json 201 (JCreated m i), s1)"
    and "\<forall>p. bcrypt_hash A p \<noteq> [] \<and> bcrypt_compare A p (bcrypt_hash A p)"
  shows "login_route A req s1 = (Json 200 JSuccess, set_session s1)"
proof -
  obtain u p r d where reg: "cq_username req = Some u" "cq_password req = Some p"
    "find_user (\<lambda>r. username r = Some u) (store s) = None"
    "create_user (credentials_user u (bcrypt_hash A p)) (store s) = Some (r, d)"
    "s1 = s\<lparr>store := d\<rparr>"
    using register_route_created [OF assms(1)] by metis
  note c = create_user_SomeD [OF reg(4)]
  have r: "r = (credentials_user u (bcrypt_hash A p))\<lparr>uid := next_user_id (store s), created_at := now (store s)\<rparr>"
    using c(1) .
  have f: "find_user (\<lambda>x. username x = Some u) d = Some r"
    using find_user_snoc_new [OF reg(3)] c(2) r by (simp add: credentials_user_def)
  have h: "password_hash r = Some (bcrypt_hash A p)" using r by (simp add: credentials_user_def)
  show ?thesis
    using reg(1,2,5) f h assms(2) by (simp add: login_route_def)
qed

theorem register_then_login_witness:
  "let A = \<lparr>bcrypt_hash = \<lambda>p. ''$2b$'' @ p, bcrypt_compare = \<lambda>p h. h = ''$2b$'' @ p,
            google_token = \<lambda>_. None, google_userinfo = \<lambda>_. None, line_token = \<lambda>_. Inl [],
            line_profile_of = \<lambda>_. Inl [], nextauth_url = None\<rparr>;
       req = \<lparr>cq_username = Some ''alice'', cq_password = Some ''secret1''\<rparr>;
       s1 = snd (register_route A req init_sys)
   in register_route A req init_sys = (Json 201 (JCreated msg_registered 1), s1) \<and>
      (\<forall>p. bcrypt_hash A p \<noteq> [] \<and> bcrypt_compare A p (bcrypt_hash A p)) \<and>
      login_route A req s1 = (Json 200 JSuccess, set_session s1)"
proof -
  define A where "A = \<lparr>bcrypt_hash = \<lambda>p. ''$2b$'' @ p, bcrypt_compare = \<lambda>p h. h = ''$2b$'' @ p,
            google_token = \<lambda>_. None, google_userinfo = \<lambda>_. None, line_token = \<lambda>_. Inl [],
            line_profile_of = \<lambda>_. Inl [], nextauth_url = None\<rparr>"
  define req where "req = \<lparr>cq_username = Some ''alice'', cq_password = Some ''secret1''\<rparr>"
  have reg: "register_route A req init_sys = (Json 201 (JCreated msg_registered 1), snd (register_route A req init_sys))"
    by (simp add: register_route_def A_def req_def find_user_def create_user_def unique_ok_def
        init_sys_def empty_db_def Let_def)
  have b: "\<forall>p. bcrypt_hash A p \<noteq> [] \<and> bcrypt_compare A p (bcrypt_hash A p)"
    by (simp add: A_def)
  show ?thesis
    using reg b register_then_login [OF reg b] by (simp add: Let_def A_def req_def)
qed

text \<open>
  C13: the login route changes nothing, or it answers success and sets the session
  exactly when the username exists, has a stored hash, and bcrypt accepts the
  password against it.
\<close>

theorem login_route_session:
  "snd (login_route A req s) = s \<or>
   (\<exists>u p r. cq_username req = Some u \<and> cq_password req = Some p \<and>
      find_user (\<lambda>x. username x = Some u) (store s) = Some r \<and> js_truthy (password_hash r) \<and>
      bcrypt_compare A p (js_or (password_hash r) []) \<and>
      login_route A req s = (Json 200 JSuccess, set_session s))"
  by (auto simp: login_route_def split: option.split)

lemma ran_users_map: "db_wf d \<Longrightarrow> ran (users_map d) = set (users d)"
  by (simp add: users_map_def db_wf_def ran_distinct comp_def image_image)

lemma unique_ok_credentials:
  "unique_ok (credentials_user u h) d \<longleftrightarrow> (\<forall>x\<in>set (users d). username x \<noteq> Some u)"
  by (simp add: unique_ok_def credentials_user_def blank_user_def list_all_iff)



lemma find_user_username_None:
  "find_user (\<lambda>r. username r = Some u) d = None \<longleftrightarrow> (\<forall>x\<in>set (users d). username x \<noteq> Some u)"
  unfolding find_user_def find_None_iff by blast

text \<open>
  C9: the register route rejects a request before touching the store: a missing or
  empty username or password is answered 400 "fill all fields", and a username
  that some stored row already carries is answered 400 "username taken"; in both
  cases the state is returned unchanged.
\<close>

theorem register_route_errors:
  "(\<not> js_truthy (cq_username req) \<or> \<not> js_truthy (cq_password req) \<longrightarrow>
      register_route A req s = (Json 400 (JError msg_fill_all), s)) \<and>
   (cq_username req = Some u \<and> u \<noteq> [] \<and> js_truthy (cq_password req) \<and>
    find_user (\<lambda>r. username r = Some u) (store s) = Some r \<longrightarrow>
      register_route A req s = (Json 400 (JError msg_username_taken), s))"
  by (simp add: register_route_def js_or_def)

theorem register_route_errors_witness:
  "register_route (\<lparr>bcrypt_hash = \<lambda>p. ''$2b$'' @ p, bcrypt_compare = \<lambda>p h. h = ''$2b$'' @ p,
     google_token = \<lambda>_. None, google_userinfo = \<lambda>_. None, line_token = \<lambda>_. Inl [],
     line_profile_of = \<lambda>_. Inl [], nextauth_url = None\<rparr>) \<lparr>cq_username = Some ''alice'', cq_password = None\<rparr> init_sys =
     (Json 400 (JError msg_fill_all), init_sys) \<and>
   register_route (\<lparr>bcrypt_hash = \<lambda>p. ''$2b$'' @ p, bcrypt_compare = \<lambda>p h. h = ''$2b$'' @ p,
     google_token = \<lambda>_. None, google_userinfo = \<lambda>_. None, line_token = \<lambda>_. Inl [],
     line_profile_of = \<lambda>_. Inl [], nextauth_url = None\<rparr>) \<lparr>cq_username = Some ''alice'', cq_password = Some ''pw''\<rparr>
     (init_sys\<lparr>store := empty_db\<lparr>users := [(credentials_user ''alice'' ''h'')\<lparr>uid := 1\<rparr>], next_user_id := 2\<rparr>\<rparr>) =
     (Json 400 (JError msg_username_taken),
      init_sys\<lparr>store := empty_db\<lparr>users := [(credentials_user ''alice'' ''h'')\<lparr>uid := 1\<rparr>], next_user_id := 2\<rparr>\<rparr>)"
proof -
  have f: "find_user (\<lambda>r. username r = Some ''alice'')
      (store (init_sys\<lparr>store := empty_db\<lparr>users := [(credentials_user ''alice'' ''h'')\<lparr>uid := 1\<rparr>], next_user_id := 2\<rparr>\<rparr>))
      = Some ((credentials_user ''alice'' ''h'')\<lparr>uid := 1\<rparr>)"
    by (simp add: find_user_def credentials_user_def)
  show ?thesis
    using register_route_errors [of "\<lparr>cq_username = Some ''alice'', cq_password = None\<rparr>" "\<lparr>bcrypt_hash = \<lambda>p. ''$2b$'' @ p, bcrypt_compare = \<lambda>p h. h = ''$2b$'' @ p,
     google_token = \<lambda>_. None, google_userinfo = \<lambda>_. None, line_token = \<lambda>_. Inl [],
     line_profile_of = \<lambda>_. Inl [], nextauth_url = None\<rparr>" init_sys]
      register_route_errors [of "\<lparr>cq_username = Some ''alice'', cq_password = Some ''pw''\<rparr>" "\<lparr>bcrypt_hash = \<lambda>p. ''$2b$'' @ p, bcrypt_compare = \<lambda>p h. h = ''$2b$'' @ p,
     google_token = \<lambda>_. None, google_userinfo = \<lambda>_. None, line_token = \<lambda>_. Inl [],
     line_profile_of = \<lambda>_. Inl [], nextauth_url = None\<rparr>"
        "init_sys\<lparr>store := empty_db\<lparr>users := [(credentials_user ''alice'' ''h'')\<lparr>uid := 1\<rparr>], next_user_id := 2\<rparr>\<rparr>"
        "''alice''" "(credentials_user ''alice'' ''h'')\<lparr>uid := 1\<rparr>"] f
    by (simp add: js_truthy_def)
qed

text \<open>
  C32: on a well-formed store, the register route refines insertion into the map
  from ids to rows: a filled-in request whose username is new adds exactly the
  binding from the next id to the credentials row (push on, hash of the password,
  creation time \<open>now\<close>); a taken username, or an exhausted id sequence,
  leaves the map as it was.
\<close>

theorem register_route_refines:
  assumes "db_wf (store s)" and "cq_username req = Some u" and "u \<noteq> []"
    and "cq_password req = Some p" and "p \<noteq> []"
  shows "users_map (store (snd (register_route A req s))) =
     (if (\<exists>r\<in>ran (users_map (store s)). username r = Some u) \<or> \<not> next_user_id (store s) < 2 ^ 31
      then users_map (store s)
      else (users_map (store s))(next_user_id (store s) \<mapsto>
              (credentials_user u (bcrypt_hash A p))\<lparr>uid := next_user_id (store s), created_at := now (store s)\<rparr>))"
proof -
  have reg: "register_route A req s =
     (case find_user (\<lambda>r. username r = Some u) (store s) of
        Some _ \<Rightarrow> (Json 400 (JError msg_username_taken), s)
      | None \<Rightarrow>
          (case create_user (credentials_user u (bcrypt_hash A p)) (store s) of
             None \<Rightarrow> (Json 500 (JError prisma_error), s)
           | Some (r, d) \<Rightarrow> (Json 201 (JCreated msg_registered (uid r)), s\<lparr>store := d\<rparr>)))"
    using assms(2-5) by (simp add: register_route_def js_or_def)
  note ran = ran_users_map [OF assms(1)]
  show ?thesis
  proof (cases "find_user (\<lambda>r. username r = Some u) (store s)")
    case (Some r)
    then have "\<exists>x\<in>set (users (store s)). username x = Some u"
      using find_user_SomeD by blast
    then show ?thesis using Some by (simp add: reg ran)
  next
    case None
    then have nf: "\<forall>x\<in>set (users (store s)). username x \<noteq> Some u"
      by (simp add: find_user_username_None)
    show ?thesis
    proof (cases "next_user_id (store s) < 2 ^ 31")
      case True
      define r' where "r' = (credentials_user u (bcrypt_hash A p))\<lparr>uid := next_user_id (store s), created_at := now (store s)\<rparr>"
      define d' where "d' = (store s)\<lparr>users := users (store s) @ [r'], next_user_id := Suc (next_user_id (store s)),
                      now := Suc (now (store s))\<rparr>"
      have c: "create_user (credentials_user u (bcrypt_hash A p)) (store s) = Some (r', d')"
        using True nf by (simp add: create_user_def unique_ok_credentials r'_def d'_def Let_def)
      have "users_map d' = (users_map (store s))(uid r' \<mapsto> r')"
        using create_user_refines [OF assms(1) c] by blast
      then show ?thesis using None True nf c by (simp add: reg ran r'_def)
    next
      case False
      then have "create_user (credentials_user u (bcrypt_hash A p)) (store s) = None"
        by (simp add: create_user_def)
      then show ?thesis using None False by (simp add: reg)
    qed
  qed
qed

theorem register_route_refines_witness:
  "users_map (store (snd (register_route (\<lparr>bcrypt_hash = \<lambda>p. ''$2b$'' @ p, bcrypt_compare = \<lambda>p h. h = ''$2b$'' @ p,
     google_token = \<lambda>_. None, google_userinfo = \<lambda>_. None, line_token = \<lambda>_. Inl [],
     line_profile_of = \<lambda>_. Inl [], nextauth_url = None\<rparr>) \<lparr>cq_username = Some ''bob'', cq_password = Some ''pw''\<rparr>
      (init_sys\<lparr>store := empty_db\<lparr>users := [(credentials_user ''alice'' ''h'')\<lparr>uid := 1\<rparr>], next_user_id := 2, now := 1\<rparr>\<rparr>)))) =
   [1 \<mapsto> (credentials_user ''alice'' ''h'')\<lparr>uid := 1\<rparr>,
    2 \<mapsto> (credentials_user ''bob'' ''$2b$pw'')\<lparr>uid := 2, created_at := 1\<rparr>]"
proof -
  define d where "d = empty_db\<lparr>users := [(credentials_user ''alice'' ''h'')\<lparr>uid := 1\<rparr>], next_user_id := 2, now := 1\<rparr>"
  have wf: "db_wf (store (init_sys\<lparr>store := d\<rparr>))"
    by (simp add: d_def db_wf_def empty_db_def credentials_user_def blank_user_def List.map_filter_simps)
  have m: "users_map d = [1 \<mapsto> (credentials_user ''alice'' ''h'')\<lparr>uid := 1\<rparr>]"
    by (simp add: users_map_def d_def empty_db_def)
  have nu: "\<not> (\<exists>r\<in>ran (users_map d). username r = Some ''bob'')"
    by (simp add: m credentials_user_def)
  show ?thesis
    using register_route_refines [OF wf, of "\<lparr>cq_username = Some ''bob'', cq_password = Some ''pw''\<rparr>" "''bob''" "''pw''" "\<lparr>bcrypt_hash = \<lambda>p. ''$2b$'' @ p, bcrypt_compare = \<lambda>p h. h = ''$2b$'' @ p,
     google_token = \<lambda>_. None, google_userinfo = \<lambda>_. None, line_token = \<lambda>_. Inl [],
     line_profile_of = \<lambda>_. Inl [], nextauth_url = None\<rparr>"]
      nu m unfolding d_def [symmetric]
    by (simp add: d_def empty_db_def )
qed

end
