(* ===== verification/Pages.thy ===== *)
theory Pages
  imports Auth Senders
begin

text \<open>
  The client handlers of the sign-in pages: \<open>handleLoginSubmit\<close> of
  \<open>app/login/page.tsx\<close> and \<open>handleChange\<close>/\<open>handleSubmit\<close> of
  \<open>app/register/page.tsx\<close>. Each page's React state is a record; a handler maps
  the page state and the system state to new ones, running the route it fetches.
  Navigation (\<open>window.location.href\<close>) is the page's \<open>location\<close> field.
\<close>

section \<open>Messages of the register page\<close>

definition msg_enter_username :: string where
  "msg_enter_username = utf8 [0x0E01, 0x0E23, 0x0E38, 0x0E13, 0x0E32, 0x0E01, 0x0E23, 0x0E2D,
     0x0E01] @ '' Username''"

definition msg_password_short :: string where
  "msg_password_short = utf8 [0x0E23, 0x0E2B, 0x0E31, 0x0E2A, 0x0E1C, 0x0E48, 0x0E32, 0x0E19,
     0x0E15, 0x0E49, 0x0E2D, 0x0E07, 0x0E21, 0x0E35, 0x0E2D, 0x0E22, 0x0E48, 0x0E32, 0x0E07,
     0x0E19, 0x0E49, 0x0E2D, 0x0E22] @ '' 6 '' @ utf8 [0x0E15, 0x0E31, 0x0E27, 0x0E2D,
     0x0E31, 0x0E01, 0x0E29, 0x0E23]"

definition msg_password_mismatch :: string where
  "msg_password_mismatch = utf8 [0x0E23, 0x0E2B, 0x0E31, 0x0E2A, 0x0E1C, 0x0E48, 0x0E32,
     0x0E19, 0x0E44, 0x0E21, 0x0E48, 0x0E15, 0x0E23, 0x0E07, 0x0E01, 0x0E31, 0x0E19]"

definition msg_signup_error :: string where
  "msg_signup_error = utf8 [0x0E40, 0x0E01, 0x0E34, 0x0E14, 0x0E02, 0x0E49, 0x0E2D, 0x0E1C,
     0x0E34, 0x0E14, 0x0E1E, 0x0E25, 0x0E32, 0x0E14, 0x0E43, 0x0E19, 0x0E01, 0x0E32, 0x0E23,
     0x0E2A, 0x0E21, 0x0E31, 0x0E04, 0x0E23, 0x0E2A, 0x0E21, 0x0E32, 0x0E0A, 0x0E34,
     0x0E01]"

definition msg_system_error :: string where
  "msg_system_error = utf8 [0x0E23, 0x0E30, 0x0E1A, 0x0E1A, 0x0E02, 0x0E31, 0x0E14, 0x0E02,
     0x0E49, 0x0E2D, 0x0E07] @ '' '' @ utf8 [0x0E01, 0x0E23, 0x0E38, 0x0E13, 0x0E32, 0x0E25,
     0x0E2D, 0x0E07, 0x0E43, 0x0E2B, 0x0E21, 0x0E48]"

section \<open>Login page\<close>

record login_page =
  lg_loading :: bool
  lg_error :: string
  lg_location :: "string option"

text \<open>
  The form fields are always strings. \<open>response.ok && result.success\<close> navigates
  to \<open>/\<close> (leaving \<open>loading\<close> set); otherwise \<open>result.error\<close> or the fallback
  is shown.
\<close>

fun login_error_text :: "response \<Rightarrow> string" where
  "login_error_text (Json _ (JError e)) = js_or (Some e) msg_bad_credentials"
| "login_error_text _ = msg_bad_credentials"

definition handleLoginSubmit ::
  "auth_providers \<Rightarrow> string \<Rightarrow> string \<Rightarrow> login_page \<Rightarrow> sys \<Rightarrow> login_page \<times> sys" where
  "handleLoginSubmit A u p pg s =
     (let pg0 = pg\<lparr>lg_loading := True, lg_error := []\<rparr>;
          req = \<lparr>cq_username = Some u, cq_password = Some p\<rparr>;
          (r, s1) = login_route A req (record_fetch (ApiLogin req) s)
      in if resp_ok r \<and> r = Json 200 JSuccess then (pg0\<lparr>lg_location := Some ''/''\<rparr>, s1)
         else (pg0\<lparr>lg_error := login_error_text r, lg_loading := False\<rparr>, s1))"

section \<open>Register page\<close>

record register_page =
  rp_username :: string
  rp_password :: string
  rp_confirm :: string
  rp_loading :: bool
  rp_error :: string
  rp_success :: bool
  rp_location :: "string option"

datatype reg_field = FUsername | FPassword | FConfirm

text \<open>\<open>handleChange\<close>: \<open>setFormData({ ...formData, [e.target.name]: e.target.value })\<close>.\<close>

fun handleChange :: "reg_field \<Rightarrow> string \<Rightarrow> register_page \<Rightarrow> register_page" where
  "handleChange FUsername v pg = pg\<lparr>rp_username := v\<rparr>"
| "handleChange FPassword v pg = pg\<lparr>rp_password := v\<rparr>"
| "handleChange FConfirm v pg = pg\<lparr>rp_confirm := v\<rparr>"

text \<open>
  The browser's service worker, as the sign-up sees it: absent
  (\<open>"serviceWorker" in navigator\<close> false), ready, failing
  (\<open>pushManager.subscribe\<close> throws; caught), or never ready
  (\<open>navigator.serviceWorker.ready\<close> never settles, so the handler never continues).
\<close>

datatype sw_state = SwAbsent | SwReady | SwThrows | SwHangs

fun created_id :: "response \<Rightarrow> nat option" where
  "created_id (Json _ (JCreated _ i)) = Some i"
| "created_id _ = None"

fun register_error_text :: "response \<Rightarrow> string" where
  "register_error_text (Json _ (JError e)) = js_or (Some e) msg_signup_error"
| "register_error_text _ = msg_signup_error"

text \<open>
  The request the page sends after sign-up: \<open>{ userId: data.userId, subscription }\<close>
  to \<open>/api/notifications/subscribe\<close>, whose handler reads \<open>userId\<close>, \<open>title\<close>,
  \<open>message\<close> and \<open>url\<close>; \<open>Number\<close> of the JSON number \<open>userId\<close> is the number
  itself, which \<open>dec_string\<close> represents.
\<close>

definition signup_push_request :: "nat \<Rightarrow> push_req" where
  "signup_push_request i = \<lparr>pr_userId = dec_string i, pr_title = None, pr_message = None, pr_url = None\<rparr>"

definition reg_fail :: "string \<Rightarrow> register_page \<Rightarrow> register_page" where
  "reg_fail e pg = pg\<lparr>rp_error := e, rp_loading := False\<rparr>"

definition register_submit ::
  "auth_providers \<Rightarrow> providers \<Rightarrow> sw_state \<Rightarrow> register_page \<Rightarrow> sys \<Rightarrow> register_page \<times> sys" where
  "register_submit A P sw pg s =
     (let pg0 = pg\<lparr>rp_loading := True, rp_error := [], rp_success := False\<rparr> in
      if js_trim (rp_username pg) = [] then (reg_fail msg_enter_username pg0, s)
      else if js_length (rp_password pg) < 6 then (reg_fail msg_password_short pg0, s)
      else if rp_password pg \<noteq> rp_confirm pg then (reg_fail msg_password_mismatch pg0, s)
      else
        let req = \<lparr>cq_username = Some (rp_username pg), cq_password = Some (rp_password pg)\<rparr>;
            (r, s1) = register_route A req (record_fetch (ApiRegister req) s)
        in if \<not> resp_ok r then (reg_fail (register_error_text r) pg0, s1)
           else if sw = SwHangs then (pg0, s1)
           else
             let s2 = (case created_id r of
                         Some i \<Rightarrow>
                           if sw = SwReady
                           then snd (push_route P (signup_push_request i)
                                       (record_fetch (ApiPush (signup_push_request i)) s1))
                           else s1
                       | None \<Rightarrow> s1)
             in (pg0\<lparr>rp_success := True, rp_username := [], rp_password := [], rp_confirm := [],
                     rp_loading := False, rp_location := Some ''/''\<rparr>,
                 set_session s2))"


section \<open>Properties of the sign-up page\<close>

lemma register_route_push_subs:
  "push_subs (store (snd (register_route A req s))) = push_subs (store s)"
  by (auto simp: register_route_def Let_def create_user_def split: option.split)

lemma push_route_push_subs:
  "set (push_subs (store (snd (push_route P req s)))) \<subseteq> set (push_subs (store s))"
  by (auto simp: push_route_def Let_def push_each_eq split: option.split)

text \<open>
  C2: signing up never stores a push subscription: the page posts the browser's
  subscription to the push sending route, which ignores it (and can only delete rows).
\<close>

theorem register_submit_no_subscription:
  "set (push_subs (store (snd (register_submit A P sw pg s)))) \<subseteq> set (push_subs (store s))"
proof -
  let ?req = "\<lparr>cq_username = Some (rp_username pg), cq_password = Some (rp_password pg)\<rparr>"
  obtain r s1 where rs: "register_route A ?req (record_fetch (ApiRegister ?req) s) = (r, s1)"
    by (cases "register_route A ?req (record_fetch (ApiRegister ?req) s)")
  have s1: "push_subs (store s1) = push_subs (store s)"
    using register_route_push_subs [of A ?req "record_fetch (ApiRegister ?req) s"] rs by simp
  have p: "set (push_subs (store (snd (push_route P q (record_fetch c s1))))) \<subseteq> set (push_subs (store s))"
    for q c
    using push_route_push_subs [of P q "record_fetch c s1"] s1 by simp
  show ?thesis
    unfolding register_submit_def Let_def
    using rs s1 by (auto simp: set_session_def split: option.splits if_splits
        intro: p [THEN subsetD])
qed

text \<open>
  C19: when the service worker never becomes ready, a valid sign-up that the server
  accepted never completes: the account exists, but the page keeps its spinner, shows
  no success and never sets the session.
\<close>

theorem register_submit_hangs:
  assumes "js_trim (rp_username pg) \<noteq> []" and "\<not> js_length (rp_password pg) < 6"
    and "rp_password pg = rp_confirm pg"
    and "resp_ok (fst (register_route A \<lparr>cq_username = Some (rp_username pg), cq_password = Some (rp_password pg)\<rparr>
                       (record_fetch (ApiRegister \<lparr>cq_username = Some (rp_username pg),
                                                   cq_password = Some (rp_password pg)\<rparr>) s)))"
  shows "rp_loading (fst (register_submit A P SwHangs pg s)) \<and>
         \<not> rp_success (fst (register_submit A P SwHangs pg s)) \<and>
         session (snd (register_submit A P SwHangs pg s)) = session s \<and>
         store (snd (register_submit A P SwHangs pg s)) =
           store (snd (register_route A \<lparr>cq_username = Some (rp_username pg), cq_password = Some (rp_password pg)\<rparr> s))"
proof -
  have fr: "store (snd (register_route A req (record_fetch c s))) = store (snd (register_route A req s))"
    "session (snd (register_route A req (record_fetch c s))) = session s" for req c
    by (auto simp: register_route_def Let_def split: option.split)
  show ?thesis
    using assms by (simp add: register_submit_def Let_def prod.case_eq_if fr)
qed

theorem register_submit_hangs_witness:
  "let A = \<lparr>bcrypt_hash = \<lambda>p. ''$2b$'' @ p, bcrypt_compare = \<lambda>p h. h = ''$2b$'' @ p,
            google_token = \<lambda>_. None, google_userinfo = \<lambda>_. None, line_token = \<lambda>_. Inl [],
            line_profile_of = \<lambda>_. Inl [], nextauth_url = None\<rparr>;
       P = \<lparr>line_multicast = \<lambda>_ _. NetResponse 200 [], gmail_send = \<lambda>_ _. None,
            web_push = \<lambda>_ _. Delivered, base_url = None\<rparr>;
       pg = \<lparr>rp_username = ''alice'', rp_password = ''secret1'', rp_confirm = ''secret1'',
             rp_loading = False, rp_error = [], rp_success = False, rp_location = None\<rparr>;
       req = \<lparr>cq_username = Some ''alice'', cq_password = Some ''secret1''\<rparr>
   in js_trim (rp_username pg) \<noteq> [] \<and> \<not> js_length (rp_password pg) < 6 \<and>
      rp_password pg = rp_confirm pg \<and>
      resp_ok (fst (register_route A req (record_fetch (ApiRegister req) init_sys))) \<and>
      rp_loading (fst (register_submit A P SwHangs pg init_sys)) \<and>
      \<not> rp_success (fst (register_submit A P SwHangs pg init_sys)) \<and>
      session (snd (register_submit A P SwHangs pg init_sys)) = None \<and>
      store (snd (register_submit A P SwHangs pg init_sys)) = store (snd (register_route A req init_sys))"
proof -
  define A where "A = \<lparr>bcrypt_hash = \<lambda>p. ''$2b$'' @ p, bcrypt_compare = \<lambda>p h. h = ''$2b$'' @ p,
            google_token = \<lambda>_. None, google_userinfo = \<lambda>_. None, line_token = \<lambda>_. Inl [],
            line_profile_of = \<lambda>_. Inl [], nextauth_url = None\<rparr>"
  define P where "P = \<lparr>line_multicast = \<lambda>_ _. NetResponse 200 [], gmail_send = \<lambda>_ _. None,
            web_push = \<lambda>_ _. Delivered, base_url = None\<rparr>"
  define pg where "pg = \<lparr>rp_username = ''alice'', rp_password = ''secret1'', rp_confirm = ''secret1'',
             rp_loading = False, rp_error = [], rp_success = False, rp_location = None\<rparr>"
  have t: "js_trim (rp_username pg) \<noteq> []"
    by (simp add: pg_def js_trim_def ws_seqs_def trim_start.simps trim_end.simps
        cong: option.case_cong_weak)
  have l: "\<not> js_length (rp_password pg) < 6"
    by (simp add: pg_def js_length_def utf16_units_def)
  have c: "rp_password pg = rp_confirm pg" by (simp add: pg_def)
  have ok: "resp_ok (fst (register_route A \<lparr>cq_username = Some (rp_username pg), cq_password = Some (rp_password pg)\<rparr>
             (record_fetch (ApiRegister \<lparr>cq_username = Some (rp_username pg), cq_password = Some (rp_password pg)\<rparr>) init_sys)))"
    by (simp add: register_route_def A_def pg_def find_user_def create_user_def unique_ok_def
        init_sys_def empty_db_def record_fetch_def resp_ok_def Let_def)
  have s: "session init_sys = None" by (simp add: init_sys_def)
  show ?thesis
    using register_submit_hangs [OF t l c ok, of P] t l c ok s
    by (simp add: Let_def A_def P_def pg_def)
qed


text \<open>
  C34: the interface between the register route and its page: a response is ok
  exactly when it carries the created user's id that the page reads as
  \<open>data.userId\<close>; every error response carries an \<open>error\<close> text instead.
\<close>

theorem register_response_type:
  "resp_ok (fst (register_route A req s)) \<longleftrightarrow> created_id (fst (register_route A req s)) \<noteq> None"
  by (auto simp: register_route_def Let_def resp_ok_def split: option.split)

end
