(* ===== verification/System.thy ===== *)
theory System
  imports Dispatch Pages
begin

text \<open>
  The whole deployment as a state machine. \<open>reach A P\<close> is the set of system
  states reachable from a fresh deployment by any sequence of the program's
  operations: the register and login pages, the auth routes and server actions,
  the OAuth callbacks, a dashboard submit with any form state, and direct calls to
  the three notification routes (which the middleware does not guard). \<open>sys_inv\<close>
  is proved of every reachable state by rule induction, one preservation lemma per
  operation; the theorems draw its consequences.
\<close>

section \<open>The invariant and the reachable states\<close>

text \<open>
  No operation ever writes \<open>email\<close>, \<open>line_user_id\<close> or \<open>google_refresh_token\<close>
  (the OAuth callbacks only update rows already holding them), and no operation
  creates a push subscription.
\<close>

definition unlinked :: "user_row \<Rightarrow> bool" where
  "unlinked r \<longleftrightarrow> email r = None \<and> line_user_id r = None \<and> google_refresh_token r = None"

fun is_line_call :: "ext_call \<Rightarrow> bool" where
  "is_line_call (LineMulticast _ _) = True"
| "is_line_call _ = False"

definition sys_inv :: "sys \<Rightarrow> bool" where
  "sys_inv s \<longleftrightarrow>
     db_wf (store s) \<and> push_subs (store s) = [] \<and> list_all unlinked (users (store s)) \<and>
     list_all is_line_call (outbox s)"

text \<open>
  Every operation of the program, each with arbitrary arguments: a dashboard
  submit with any form state covers every sequence of UI events before it.
\<close>

inductive reach :: "auth_providers \<Rightarrow> providers \<Rightarrow> sys \<Rightarrow> bool" for A P where
  reach_init: "reach A P init_sys"
| reach_register_page: "reach A P s \<Longrightarrow> reach A P (snd (register_submit A P sw pg s))"
| reach_login_page: "reach A P s \<Longrightarrow> reach A P (snd (handleLoginSubmit A u p lp s))"
| reach_register: "reach A P s \<Longrightarrow> reach A P (snd (json_route (register_route A) b s))"
| reach_login: "reach A P s \<Longrightarrow> reach A P (snd (json_route (login_route A) b s))"
| reach_login_action: "reach A P s \<Longrightarrow> reach A P (snd (loginAction u p s))"
| reach_logout: "reach A P s \<Longrightarrow> reach A P (snd (logoutAction s))"
| reach_google_callback: "reach A P s \<Longrightarrow> reach A P (snd (google_callback A c s))"
| reach_line_callback: "reach A P s \<Longrightarrow> reach A P (snd (line_callback A c s))"
| reach_dashboard: "reach A P s \<Longrightarrow> reach A P (snd (handleSubmit P d s))"
| reach_push_api: "reach A P s \<Longrightarrow> reach A P (snd (json_route (push_route P) b s))"
| reach_gmail_api: "reach A P s \<Longrightarrow> reach A P (snd (json_route (gmail_route P) b s))"
| reach_line_api: "reach A P s \<Longrightarrow> reach A P (snd (json_route (line_route P) b s))"

lemma sys_inv_frame:
  "store s' = store s \<Longrightarrow> outbox s' = outbox s \<Longrightarrow> sys_inv s' = sys_inv s"
  by (simp add: sys_inv_def)

lemma sys_inv_simps [simp]:
  "sys_inv (record_fetch c s) = sys_inv s" "sys_inv (log_error e s) = sys_inv s"
  "sys_inv (set_session s) = sys_inv s" "sys_inv (s\<lparr>session := v\<rparr>) = sys_inv s"
  "sys_inv (send_ext (LineMulticast ids m) s) = sys_inv s"
  by (simp_all add: sys_inv_def set_session_def)

lemma inv_no_token:
  "sys_inv s \<Longrightarrow> find_user P (store s) = Some u \<Longrightarrow> google_refresh_token u = None"
  by (auto simp: sys_inv_def list_all_iff unlinked_def dest!: find_user_SomeD)

lemma inv_no_email_match:
  "sys_inv s \<Longrightarrow> find_user (\<lambda>r. email r = Some e) (store s) = None"
  by (auto simp: sys_inv_def list_all_iff unlinked_def find_user_def find_None_iff)

lemma inv_no_line_match:
  "sys_inv s \<Longrightarrow> find_user (\<lambda>r. line_user_id r = Some l) (store s) = None"
  by (auto simp: sys_inv_def list_all_iff unlinked_def find_user_def find_None_iff)

lemma inv_no_subs: "sys_inv s \<Longrightarrow> active_subs n (store s) = []"
  by (simp add: sys_inv_def active_subs_def)

lemma push_route_inv: "sys_inv s \<Longrightarrow> snd (push_route P req s) = s"
  by (auto simp: push_route_def inv_no_subs Let_def split: option.split)

lemma gmail_route_inv: "sys_inv s \<Longrightarrow> snd (gmail_route P req s) = s"
  by (auto simp: gmail_route_def Let_def dest: inv_no_token split: option.split)

lemma line_route_inv: "sys_inv s \<Longrightarrow> sys_inv (snd (line_route P req s))"
  by (simp add: line_route_snd)

lemma email_loop_inv: "sys_inv s \<Longrightarrow> sys_inv (email_loop P msg us s)"
proof (induction us arbitrary: s)
  case (Cons u us)
  let ?req = "email_request u msg"
  have "snd (gmail_route P ?req (record_fetch (ApiGmail ?req) s)) = record_fetch (ApiGmail ?req) s"
    using Cons.prems by (simp add: gmail_route_inv)
  then show ?case
    using Cons by (auto simp: Let_def split: prod.split)
qed simp

lemma push_loop_inv: "sys_inv s \<Longrightarrow> sys_inv (push_loop P msg us s)"
proof (induction us arbitrary: s)
  case (Cons u us)
  let ?req = "push_request u msg"
  have "snd (push_route P ?req (record_fetch (ApiPush ?req) s)) = record_fetch (ApiPush ?req) s"
    using Cons.prems by (simp add: push_route_inv)
  then show ?case
    using Cons by (auto simp: Let_def split: prod.split)
qed simp

lemma handleSubmit_inv: "sys_inv s \<Longrightarrow> sys_inv (snd (handleSubmit P d s))"
  by (auto simp: handleSubmit_def submit_body_def send_line_eq send_email_def send_push_def Let_def
      email_loop_inv push_loop_inv split: option.split prod.split)


lemma credentials_user_unlinked: "unlinked (credentials_user u h\<lparr>uid := i, created_at := c\<rparr>)"
  by (simp add: unlinked_def credentials_user_def blank_user_def)

lemma create_user_inv:
  assumes "sys_inv s" and "create_user (credentials_user u h) (store s) = Some (r, d)"
  shows "sys_inv (s\<lparr>store := d\<rparr>)"
proof -
  note c = create_user_SomeD [OF assms(2)]
  have "db_wf d" using assms db_wf_create_user by (auto simp: sys_inv_def)
  then show ?thesis
    using assms(1) c(1,2) credentials_user_unlinked by (auto simp: sys_inv_def)
qed

lemma register_route_inv: "sys_inv s \<Longrightarrow> sys_inv (snd (register_route A req s))"
  by (auto simp: register_route_def Let_def create_user_inv split: option.split)

lemma login_route_inv: "sys_inv s \<Longrightarrow> sys_inv (snd (login_route A req s))"
  by (auto simp: login_route_def split: option.split)

lemma loginAction_inv: "sys_inv s \<Longrightarrow> sys_inv (snd (loginAction u p s))"
  by (simp add: loginAction_def)

lemma logoutAction_inv: "sys_inv s \<Longrightarrow> sys_inv (snd (logoutAction s))"
  by (simp add: logoutAction_def)

lemma google_callback_inv: "sys_inv s \<Longrightarrow> snd (google_callback A code s) = s"
  by (auto simp: google_callback_def inv_no_email_match split: option.split)

lemma line_callback_inv: "sys_inv s \<Longrightarrow> snd (line_callback A code s) = s"
  by (auto simp: line_callback_def inv_no_line_match split: option.split sum.split)

lemma handleLoginSubmit_inv: "sys_inv s \<Longrightarrow> sys_inv (snd (handleLoginSubmit A u p pg s))"
  by (simp add: handleLoginSubmit_def Let_def prod.case_eq_if login_route_inv)

lemma register_submit_inv: "sys_inv s \<Longrightarrow> sys_inv (snd (register_submit A P sw pg s))"
proof -
  assume s: "sys_inv s"
  have r: "sys_inv (snd (register_route A req (record_fetch c s)))" for req c
    using s by (simp add: register_route_inv)
  show ?thesis
    using s by (simp add: register_submit_def Let_def prod.case_eq_if r push_route_inv
        split: option.split)
qed


lemma sys_inv_init: "sys_inv init_sys"
  by (simp add: sys_inv_def init_sys_def db_wf_empty) (simp add: empty_db_def)

lemma reach_inv: "reach A P s \<Longrightarrow> sys_inv s"
  by (induction rule: reach.induct)
     (simp_all add: sys_inv_init register_submit_inv handleLoginSubmit_inv register_route_inv
        login_route_inv loginAction_inv logoutAction_inv google_callback_inv line_callback_inv
        handleSubmit_inv push_route_inv gmail_route_inv line_route_inv json_route_def
        split: json_body.split)

lemma reach_register_parsed: "reach A P s \<Longrightarrow> reach A P (snd (register_route A req s))"
  using reach_register [of A P s "Parsed req"] by simp

section \<open>Properties of every reachable state\<close>

text \<open>Every reachable store satisfies the store invariant \<open>db_wf\<close>.\<close>

theorem reach_db_wf: "reach A P s \<Longrightarrow> db_wf (store s)"
  using reach_inv by (simp add: sys_inv_def)

text \<open>
  C1: in no reachable state has an e-mail or a web-push been sent: sign-up never
  stores a subscription and no operation stores a refresh token, so only LINE
  multicasts (from direct calls to the LINE route) ever leave the system.
\<close>

theorem reach_no_email_or_push:
  "reach A P s \<Longrightarrow> GmailSend t raw \<notin> set (outbox s) \<and> WebPush i pl \<notin> set (outbox s)"
  using reach_inv by (fastforce simp: sys_inv_def list_all_iff)

theorem reach_no_email_or_push_witness:
  "let A = \<lparr>bcrypt_hash = \<lambda>p. p, bcrypt_compare = \<lambda>p h. p = h, google_token = \<lambda>_. None,
            google_userinfo = \<lambda>_. None, line_token = \<lambda>_. Inl [], line_profile_of = \<lambda>_. Inl [],
            nextauth_url = None\<rparr>;
       P = \<lparr>line_multicast = \<lambda>_ _. NetResponse 200 [], gmail_send = \<lambda>_ _. None,
            web_push = \<lambda>_ _. Delivered, base_url = None\<rparr>;
       s = snd (register_route A \<lparr>cq_username = Some ''alice'', cq_password = Some ''secret1''\<rparr> init_sys)
   in reach A P s \<and>
      GmailSend ''tok'' ''raw'' \<notin> set (outbox s) \<and>
      WebPush 1 \<lparr>pl_title = ''t'', pl_body = ''b'', pl_url = None\<rparr> \<notin> set (outbox s)"
  unfolding Let_def using reach_no_email_or_push [OF reach_register_parsed [OF reach_init]] reach_register_parsed [OF reach_init]
  by blast

text \<open>
  C3: in every reachable state both OAuth callbacks leave the state unchanged and
  the Google callback never completes a sign-in: no stored row has an e-mail
  address or a LINE id for them to match.
\<close>

theorem reach_oauth_never_signs_in:
  "reach A P s \<Longrightarrow>
     snd (google_callback A c s) = s \<and> snd (line_callback A c' s) = s \<and>
     fst (google_callback A c s) \<noteq> Redirect ''/''"
  using reach_inv google_callback_inv line_callback_inv
  by (auto simp: google_callback_def inv_no_email_match split: option.split)

theorem reach_oauth_never_signs_in_witness:
  "let A = \<lparr>bcrypt_hash = \<lambda>p. p, bcrypt_compare = \<lambda>p h. p = h, google_token = \<lambda>_. None,
            google_userinfo = \<lambda>_. None, line_token = \<lambda>_. Inl [], line_profile_of = \<lambda>_. Inl [],
            nextauth_url = None\<rparr>;
       P = \<lparr>line_multicast = \<lambda>_ _. NetResponse 200 [], gmail_send = \<lambda>_ _. None,
            web_push = \<lambda>_ _. Delivered, base_url = None\<rparr>;
       s = snd (register_route A \<lparr>cq_username = Some ''alice'', cq_password = Some ''secret1''\<rparr> init_sys)
   in reach A P s \<and>
      snd (google_callback A (Some ''code'') s) = s \<and> snd (line_callback A (Some ''code'') s) = s \<and>
      fst (google_callback A (Some ''code'') s) \<noteq> Redirect ''/''"
  unfolding Let_def using reach_oauth_never_signs_in [OF reach_register_parsed [OF reach_init]] reach_register_parsed [OF reach_init]
  by blast

text \<open>
  C20: in every reachable state the push route answers 404 (no device) for every
  well-formed user id, without calling web-push.
\<close>

theorem reach_push_no_device:
  assumes "reach A P s" and "js_number (pr_userId req) = Some (int n)" and "n < 2 ^ 31"
  shows "push_route P req s = (Json 404 (JError msg_no_device), s)"
  using push_route_eq [OF assms(2,3)] inv_no_subs [OF reach_inv [OF assms(1)]]
  by (simp add: Let_def)

theorem reach_push_no_device_witness:
  "let A = \<lparr>bcrypt_hash = \<lambda>p. p, bcrypt_compare = \<lambda>p h. p = h, google_token = \<lambda>_. None,
            google_userinfo = \<lambda>_. None, line_token = \<lambda>_. Inl [], line_profile_of = \<lambda>_. Inl [],
            nextauth_url = None\<rparr>;
       P = \<lparr>line_multicast = \<lambda>_ _. NetResponse 200 [], gmail_send = \<lambda>_ _. None,
            web_push = \<lambda>_ _. Delivered, base_url = None\<rparr>;
       s = snd (register_route A \<lparr>cq_username = Some ''alice'', cq_password = Some ''secret1''\<rparr> init_sys)
   in reach A P s \<and> js_number (pr_userId (signup_push_request 1)) = Some (int 1) \<and> (1::nat) < 2 ^ 31 \<and>
      push_route P (signup_push_request 1) s = (Json 404 (JError msg_no_device), s)"
proof -
  have j: "js_number (pr_userId (signup_push_request 1)) = Some (int 1)"
    by (simp add: signup_push_request_def dec_string_parses del: of_nat_1)
  show ?thesis
    unfolding Let_def using reach_push_no_device [OF reach_register_parsed [OF reach_init] j] reach_register_parsed [OF reach_init] j
    by simp
qed

end
