(* ===== verification/DashboardUI.thy ===== *)
theory DashboardUI
  imports Dispatch Auth
begin

text \<open>
  The interactive part of \<open>DashboardClient.tsx\<close> besides \<open>handleSubmit\<close>: the
  events the rendered page delivers and the state update each one makes. A
  controlled checkbox's click delivers \<open>e.target.checked\<close>, the negation of its
  current value. An event whose element is disabled or not rendered is not
  delivered, so it leaves the state unchanged: the channel checkboxes are disabled
  when their count is 0, the date input exists only while \<open>isScheduled\<close>, the
  submit button is disabled while \<open>loading\<close>, the modal buttons exist only while
  \<open>showLogoutModal\<close>, and a recipient checkbox exists only for a listed user.
  Navigation after logout is not tracked.
\<close>

datatype modal_event = OpenLogout | CloseLogout | ConfirmLogout

datatype channel_kind = CEmail | CLine | CPush

datatype dash_event =
    Modal modal_event
  | EditMessage string
  | ClickChannel channel_kind
  | ClickSchedule | EditSendAt string
  | SelectAll | ToggleUser string
  | Submit

text \<open>
  The header's logout button opens the modal; its backdrop and cancel button close
  it; its confirm button closes it and runs \<open>logoutAction\<close>.
\<close>

fun logout_step :: "modal_event \<Rightarrow> dash \<times> sys \<Rightarrow> dash \<times> sys" where
  "logout_step OpenLogout (d, s) = (d\<lparr>showLogoutModal := True\<rparr>, s)"
| "logout_step CloseLogout (d, s) =
     (if showLogoutModal d then (d\<lparr>showLogoutModal := False\<rparr>, s) else (d, s))"
| "logout_step ConfirmLogout (d, s) =
     (if showLogoutModal d then (d\<lparr>showLogoutModal := False\<rparr>, snd (logoutAction s)) else (d, s))"

text \<open>\<open>emailCount\<close>, \<open>lineCount\<close>, \<open>pushCount\<close> of the channel block.\<close>

fun channel_count :: "channel_kind \<Rightarrow> dash \<Rightarrow> nat" where
  "channel_count CEmail d = fst (channel_counts (d_users d) (selectedUsers d))"
| "channel_count CLine d = fst (snd (channel_counts (d_users d) (selectedUsers d)))"
| "channel_count CPush d = snd (snd (channel_counts (d_users d) (selectedUsers d)))"

text \<open>
  \<open>setChannels({ ...channels, email: e.target.checked })\<close> and its two siblings; a
  checkbox with \<open>disabled={count === 0}\<close> delivers no event.
\<close>

fun toggle_channel :: "channel_kind \<Rightarrow> channels \<Rightarrow> channels" where
  "toggle_channel CEmail c = c\<lparr>ch_email := \<not> ch_email c\<rparr>"
| "toggle_channel CLine c = c\<lparr>ch_line := \<not> ch_line c\<rparr>"
| "toggle_channel CPush c = c\<lparr>ch_push := \<not> ch_push c\<rparr>"

definition channel_click :: "channel_kind \<Rightarrow> dash \<Rightarrow> dash" where
  "channel_click k d =
     (if channel_count k d = 0 then d else d\<lparr>channels := toggle_channel k (channels d)\<rparr>)"

text \<open>The form and the recipient column.\<close>

fun form_step :: "providers \<Rightarrow> dash_event \<Rightarrow> dash \<times> sys \<Rightarrow> dash \<times> sys" where
  "form_step P (Modal m) ds = logout_step m ds"
| "form_step P (EditMessage v) (d, s) = (d\<lparr>message := v\<rparr>, s)"
| "form_step P (ClickChannel k) (d, s) = (channel_click k d, s)"
| "form_step P ClickSchedule (d, s) = (d\<lparr>isScheduled := \<not> isScheduled d\<rparr>, s)"
| "form_step P (EditSendAt v) (d, s) = (if isScheduled d then (d\<lparr>sendAt := v\<rparr>, s) else (d, s))"
| "form_step P SelectAll (d, s) =
     (d\<lparr>selectedUsers := handleSelectAll (d_users d) (selectedUsers d)\<rparr>, s)"
| "form_step P (ToggleUser i) (d, s) =
     (if i \<in> set (map ui_id (d_users d))
      then (d\<lparr>selectedUsers := handleUserToggle i (selectedUsers d)\<rparr>, s) else (d, s))"
| "form_step P Submit (d, s) = (if loading d then (d, s) else handleSubmit P d s)"

text \<open>
  While the modal is shown, its fixed full-screen overlay receives every click: only
  the modal's own events are delivered.
\<close>

fun dash_step :: "providers \<Rightarrow> dash_event \<Rightarrow> dash \<times> sys \<Rightarrow> dash \<times> sys" where
  "dash_step P (Modal m) ds = logout_step m ds"
| "dash_step P e (d, s) = (if showLogoutModal d then (d, s) else form_step P e (d, s))"

fun dash_run :: "providers \<Rightarrow> dash_event list \<Rightarrow> dash \<times> sys \<Rightarrow> dash \<times> sys" where
  "dash_run P [] ds = ds"
| "dash_run P (e # es) ds = dash_run P es (dash_step P e ds)"

definition dash_wf :: "dash \<Rightarrow> bool" where
  "dash_wf d \<longleftrightarrow> selection_wf (d_users d) (selectedUsers d) \<and> \<not> loading d"

section \<open>Helper lemmas\<close>

lemma handleSubmit_dash:
  "d_users (fst (handleSubmit P d s)) = d_users d \<and> \<not> loading (fst (handleSubmit P d s)) \<and>
   (selectedUsers (fst (handleSubmit P d s)) = selectedUsers d \<or>
    selectedUsers (fst (handleSubmit P d s)) = [])"
  by (auto simp: handleSubmit_def Let_def split: prod.split option.split)

lemma logout_step_users: "d_users (fst (logout_step m (d, s))) = d_users d"
  by (cases m) auto

lemma dash_step_users: "d_users (fst (dash_step P e (d, s))) = d_users d"
proof -
  have "d_users (fst (form_step P e (d, s))) = d_users d"
    using handleSubmit_dash [of P d s] logout_step_users [of _ d s]
    by (cases e) (auto simp: channel_click_def)
  then show ?thesis using logout_step_users [of _ d s] by (cases e) auto
qed

lemma dash_step_wf: "dash_wf d \<Longrightarrow> dash_wf (fst (dash_step P e (d, s)))"
proof -
  assume wf: "dash_wf d"
  have "dash_wf (fst (form_step P e (d, s)))"
  proof (cases e)
    case (Modal m)
    then show ?thesis using wf by (cases m) (auto simp: dash_wf_def)
  next
    case Submit
    then show ?thesis using wf handleSubmit_dash [of P d s]
      by (auto simp: dash_wf_def selection_wf_def)
  qed (use wf in \<open>auto simp: dash_wf_def selection_wf_toggle selection_wf_all channel_click_def\<close>)
  then show ?thesis using wf by (cases e) auto
qed

section \<open>Properties of the event loop\<close>

text \<open>
  C21: whatever events the page delivers, the selection stays duplicate-free and
  within the listed users, the directory is unchanged, and \<open>loading\<close> is false
  between events: every submit ends with the button enabled again.
\<close>

theorem dash_run_wf:
  assumes "distinct (map ui_id us)"
  shows "dash_wf (fst (dash_run P es (init_dash us, s))) \<and> d_users (fst (dash_run P es (init_dash us, s))) = us"
proof -
  have "dash_wf d \<and> d_users d = us \<Longrightarrow>
        dash_wf (fst (dash_run P es (d, s))) \<and> d_users (fst (dash_run P es (d, s))) = us" for d s
  proof (induction es arbitrary: d s)
    case (Cons e es)
    obtain d' s' where st: "dash_step P e (d, s) = (d', s')" by (cases "dash_step P e (d, s)")
    have "dash_wf d'" using dash_step_wf [OF conjunct1 [OF Cons.prems], of P e s] st by simp
    moreover have "d_users d' = us"
      using dash_step_users [of P e d s] Cons.prems st by simp
    ultimately show ?case using Cons.IH st by simp
  qed simp
  moreover have "dash_wf (init_dash us)"
    using assms by (simp add: dash_wf_def init_dash_def selection_wf_def)
  ultimately show ?thesis by (simp add: init_dash_def)
qed


theorem dash_run_wf_witness:
  "let us = [format_user (blank_user\<lparr>uid := 1\<rparr>), format_user (blank_user\<lparr>uid := 2\<rparr>)];
       P = \<lparr>line_multicast = \<lambda>_ _. NetResponse 200 [], gmail_send = \<lambda>_ _. None,
            web_push = \<lambda>_ _. Delivered, base_url = None\<rparr>;
       es = [ToggleUser ''2'', SelectAll, EditMessage ''hi'', Submit]
   in distinct (map ui_id us) \<and> dash_wf (fst (dash_run P es (init_dash us, init_sys))) \<and>
      d_users (fst (dash_run P es (init_dash us, init_sys))) = us"
proof -
  have "distinct (map ui_id [format_user (blank_user\<lparr>uid := 1\<rparr>), format_user (blank_user\<lparr>uid := 2\<rparr>)])"
    by (simp add: format_user_def blank_user_def dec_string.simps js_simps)
  from dash_run_wf [OF this] this show ?thesis unfolding Let_def by blast
qed

lemma counts_zero_targets:
  assumes "channel_counts us sel = (0, 0, 0)"
  shows "line_targets us sel = [] \<and> email_targets us sel = [] \<and> push_targets us sel = []"
proof -
  have e: "filter canReceiveEmail (selected_list us sel) = []"
   and l: "filter canReceiveLine (selected_list us sel) = []"
   and p: "filter canReceivePush (selected_list us sel) = []"
    using assms by (simp_all add: channel_counts_def Let_def)
  have "filter (\<lambda>u. ui_id u \<in> set sel \<and> canReceiveLine u) us = []"
    using l by (simp add: selected_list_def filter_filter conj_commute)
  moreover have "filter (\<lambda>u. ui_id u \<in> set sel \<and> canReceiveEmail u) us = []"
    using e by (simp add: selected_list_def filter_filter conj_commute)
  moreover have "filter (\<lambda>u. ui_id u \<in> set sel \<and> canReceivePush u) us = []"
    using p by (simp add: selected_list_def filter_filter conj_commute)
  ultimately show ?thesis
    by (simp add: line_targets_def email_targets_def push_targets_def)
qed

text \<open>
  C11: a channel checkbox keeps its value when its count drops to 0 (it is only
  disabled, and a click on it changes nothing). When validation passes but no
  selected user can receive on any channel, as after checking LINE for a LINE user
  and then swapping that user for one with no channel, the submit sends nothing at
  all, leaves the state untouched and reports success.
\<close>

theorem dash_stale_channel_success:
  assumes "validate d = None" and "channel_counts (d_users d) (selectedUsers d) = (0, 0, 0)"
  shows "notification (fst (handleSubmit P d s)) =
           Some (NSuccess, if isScheduled d then msg_scheduled else msg_sent) \<and>
         snd (handleSubmit P d s) = s \<and> (\<forall>k. channel_click k d = d)"
proof -
  note t = counts_zero_targets [OF assms(2)]
  let ?d0 = "d\<lparr>loading := True, notification := None\<rparr>"
  have "submit_body P ?d0 s = (None, s)"
    using assms(1) t by (simp add: submit_body_def send_line_def send_email_def send_push_def Let_def)
  moreover have "channel_click k d = d" for k
    using assms(2) by (cases k) (simp_all add: channel_click_def)
  ultimately show ?thesis by (simp add: handleSubmit_def)
qed

theorem dash_stale_channel_success_witness:
  "let us = [format_user (blank_user\<lparr>uid := 1, line_user_id := Some ''U1''\<rparr>), format_user (blank_user\<lparr>uid := 2\<rparr>)];
       P = \<lparr>line_multicast = \<lambda>_ _. NetResponse 200 [], gmail_send = \<lambda>_ _. None,
            web_push = \<lambda>_ _. Delivered, base_url = None\<rparr>;
       d = fst (dash_run P [ToggleUser ''1'', ClickChannel CLine, ToggleUser ''1'', ToggleUser ''2'', EditMessage ''hi'']
                  (init_dash us, init_sys))
   in ch_line (channels d) \<and> validate d = None \<and> channel_counts (d_users d) (selectedUsers d) = (0, 0, 0) \<and>
      notification (fst (handleSubmit P d init_sys)) = Some (NSuccess, msg_sent) \<and>
      snd (handleSubmit P d init_sys) = init_sys \<and> (\<forall>k. channel_click k d = d)"
proof -
  define us where "us = [format_user (blank_user\<lparr>uid := 1, line_user_id := Some ''U1''\<rparr>), format_user (blank_user\<lparr>uid := 2\<rparr>)]"
  define P where "P = \<lparr>line_multicast = \<lambda>_ _. NetResponse 200 [], gmail_send = \<lambda>_ _. None,
            web_push = \<lambda>_ _. Delivered, base_url = None\<rparr>"
  define D where "D = (init_dash us)\<lparr>message := ''hi'', selectedUsers := [''2''], channels := no_channels\<lparr>ch_line := True\<rparr>\<rparr>"
  have run: "fst (dash_run P [ToggleUser ''1'', ClickChannel CLine, ToggleUser ''1'', ToggleUser ''2'', EditMessage ''hi'']
                  (init_dash us, init_sys)) = D"
    by (simp add: D_def us_def init_dash_def format_user_def blank_user_def dec_string.simps js_simps
      handleUserToggle_def channel_click_def channel_counts_def selected_list_def Let_def no_channels_def)
  have v: "validate D = None"
    by (simp add: D_def validate_def js_trim_hi)
  have c: "channel_counts (d_users D) (selectedUsers D) = (0, 0, 0)"
    by (simp add: D_def us_def init_dash_def format_user_def blank_user_def dec_string.simps js_simps
      channel_counts_def selected_list_def Let_def)
  have "\<not> isScheduled D" by (simp add: D_def init_dash_def)
  then show ?thesis
    using dash_stale_channel_success [OF v c, of P init_sys] v c run
    unfolding Let_def us_def [symmetric] P_def [symmetric] by (simp add: D_def)
qed

end
