(* ===== verification/DashboardView.thy ===== *)
theory DashboardView
  imports DashboardUI
begin

text \<open>
  What \<open>DashboardClient.tsx\<close> renders from its state: the notification banner,
  the submit button, the recipient column's select-all button and counter, one
  card per user (avatar, title, e-mail line, channel badges) and the logout modal.
  \<open>dash_render\<close> is the JSX's conditional logic; class names and styling are not
  modelled. \<open>String.prototype.toUpperCase\<close> follows the Unicode case tables,
  which are not part of the program: ASCII letters are mapped here and any other
  character through the oracle \<open>U\<close>.
\<close>

section \<open>Labels\<close>

definition msg_sending :: string where
  "msg_sending = utf8 [0x0E01, 0x0E33, 0x0E25, 0x0E31, 0x0E07, 0x0E2A, 0x0E48, 0x0E07] @ ''...''"

definition msg_schedule_button :: string where
  "msg_schedule_button = utf8 [0x0E08, 0x0E31, 0x0E14, 0x0E40, 0x0E27, 0x0E25, 0x0E32, 0x0E01, 0x0E32,
     0x0E23, 0x0E41, 0x0E08, 0x0E49, 0x0E07, 0x0E40, 0x0E15, 0x0E37, 0x0E2D, 0x0E19]"

definition msg_send_now_button :: string where
  "msg_send_now_button = utf8 [0x0E2A, 0x0E48, 0x0E07, 0x0E01, 0x0E32, 0x0E23, 0x0E41, 0x0E08, 0x0E49,
     0x0E07, 0x0E40, 0x0E15, 0x0E37, 0x0E2D, 0x0E19, 0x0E17, 0x0E31, 0x0E19, 0x0E17, 0x0E35]"

definition msg_clear_all :: string where
  "msg_clear_all = utf8 [0x0E22, 0x0E01, 0x0E40, 0x0E25, 0x0E34, 0x0E01, 0x0E17, 0x0E31, 0x0E49, 0x0E07,
     0x0E2B, 0x0E21, 0x0E14]"

definition msg_select_all :: string where
  "msg_select_all = utf8 [0x0E40, 0x0E25, 0x0E37, 0x0E2D, 0x0E01, 0x0E17, 0x0E31, 0x0E49, 0x0E07, 0x0E2B,
     0x0E21, 0x0E14]"

definition msg_selected :: string where
  "msg_selected = utf8 [0x0E40, 0x0E25, 0x0E37, 0x0E2D, 0x0E01, 0x0E41, 0x0E25, 0x0E49, 0x0E27] @ '': ''"

definition msg_persons :: string where
  "msg_persons = '' '' @ utf8 [0x0E04, 0x0E19]"

section \<open>Strings\<close>

text \<open>
  \<open>charAt(0)\<close>: the first UTF-16 code unit. On the UTF-8 encoding of a BMP
  character that is the character's byte sequence; for a character above U+FFFF it
  is a lone high surrogate, which the page renders as U+FFFD.
\<close>

definition js_char_at0 :: "string \<Rightarrow> string" where
  "js_char_at0 s =
     (case s of
        [] \<Rightarrow> []
      | c # _ \<Rightarrow>
          (let n = of_char c :: nat in
           if n < 0x80 then [c] else if n < 0xE0 then take 2 s else if n < 0xF0 then take 3 s
           else utf8 [0xFFFD]))"

definition js_to_upper :: "(string \<Rightarrow> string) \<Rightarrow> string \<Rightarrow> string" where
  "js_to_upper U s =
     (case s of
        [c] \<Rightarrow> (let n = of_char c :: nat in if 97 \<le> n \<and> n \<le> 122 then [char_of (n - 32)] else [c])
      | [] \<Rightarrow> []
      | _ \<Rightarrow> U s)"

section \<open>User cards\<close>

datatype avatar = AvatarImage string string | AvatarInitial string

record user_card =
  card_checked :: bool
  card_avatar :: avatar
  card_title :: string
  card_email :: "string option"
  card_badges :: "channel_kind list"
  card_no_channel :: bool

text \<open>
  \<open>user.name || user.email || "?"\<close> names the avatar; the title is
  \<open>user.name || user.email\<close>, where a \<open>null\<close> child renders no text.
\<close>

definition card_label :: "ui_user \<Rightarrow> string" where
  "card_label u = js_or (ui_name u) (js_or (ui_email u) ''?'')"

definition user_card_of :: "(string \<Rightarrow> string) \<Rightarrow> string list \<Rightarrow> ui_user \<Rightarrow> user_card" where
  "user_card_of U sel u =
     \<lparr>card_checked = ui_id u \<in> set sel,
      card_avatar = (if js_truthy (ui_image u) then AvatarImage (the (ui_image u)) (card_label u)
                     else AvatarInitial (js_to_upper U (js_char_at0 (card_label u)))),
      card_title = js_or (ui_name u) (case ui_email u of None \<Rightarrow> [] | Some e \<Rightarrow> e),
      card_email = (if js_truthy (ui_email u) then ui_email u else None),
      card_badges = (if canReceiveEmail u then [CEmail] else []) @
                    (if canReceiveLine u then [CLine] else []) @
                    (if canReceivePush u then [CPush] else []),
      card_no_channel = (\<not> canReceiveEmail u \<and> \<not> canReceiveLine u \<and> \<not> canReceivePush u)\<rparr>"

section \<open>The page\<close>

record dash_view =
  dv_banner :: "(note_kind \<times> string) option"
  dv_submit_label :: string
  dv_submit_disabled :: bool
  dv_select_label :: string
  dv_counter :: string
  dv_cards :: "user_card list"
  dv_modal :: bool

definition dash_render :: "(string \<Rightarrow> string) \<Rightarrow> dash \<Rightarrow> dash_view" where
  "dash_render U d =
     \<lparr>dv_banner = notification d,
      dv_submit_label = (if loading d then msg_sending
                         else if isScheduled d then msg_schedule_button else msg_send_now_button),
      dv_submit_disabled = loading d,
      dv_select_label = (if length (selectedUsers d) = length (d_users d) then msg_clear_all
                         else msg_select_all),
      dv_counter = msg_selected @ dec_string (length (selectedUsers d)) @ '' / '' @
                   dec_string (length (d_users d)) @ msg_persons,
      dv_cards = map (user_card_of U (selectedUsers d)) (d_users d),
      dv_modal = showLogoutModal d\<rparr>"

section \<open>Properties of the view\<close>

text \<open>
  On a well-formed dashboard the recipient column is consistent: the counter shows
  the number of ticked cards, and the button offers to clear the selection exactly
  when every listed user is selected. The cards built from \<open>page.tsx\<close>'s rows
  never fall back to the e-mail or to "?", since every row has a name.
\<close>

lemma length_filter_selected:
  assumes "selection_wf us sel"
  shows "length (filter (\<lambda>u. ui_id u \<in> set sel) us) = length sel"
proof -
  have "length (filter (\<lambda>u. ui_id u \<in> set sel) us) = length (filter (\<lambda>i. i \<in> set sel) (map ui_id us))"
    by (simp add: filter_map comp_def)
  also have "\<dots> = card (set (filter (\<lambda>i. i \<in> set sel) (map ui_id us)))"
  proof -
    have "distinct (filter (\<lambda>i. i \<in> set sel) (map ui_id us))"
      using assms by (simp add: selection_wf_def)
    then show ?thesis by (rule distinct_card [symmetric])
  qed
  also have "set (filter (\<lambda>i. i \<in> set sel) (map ui_id us)) = set sel"
    using assms by (auto simp: selection_wf_def)
  also have "card (set sel) = length sel"
    using assms by (simp add: selection_wf_def distinct_card)
  finally show ?thesis .
qed

lemma dash_counter_checked:
  "dash_wf d \<Longrightarrow> length (filter card_checked (dv_cards (dash_render U d))) = length (selectedUsers d)"
  using length_filter_selected [of "d_users d" "selectedUsers d"]
  by (simp add: dash_wf_def dash_render_def user_card_of_def filter_map comp_def)

lemma select_labels_differ: "msg_clear_all \<noteq> msg_select_all"
  by (simp add: msg_clear_all_def msg_select_all_def utf8_def)

lemma dash_select_label:
  "dash_wf d \<Longrightarrow>
   dv_select_label (dash_render U d) = msg_clear_all \<longleftrightarrow>
   set (selectedUsers d) = set (map ui_id (d_users d))"
  using selection_wf_length_iff [of "d_users d" "selectedUsers d"] select_labels_differ
  by (simp add: dash_wf_def dash_render_def)

lemma home_card:
  "card_label (format_user r) = js_or (line_display_name r) ''No Name'' \<and>
   card_title (user_card_of U sel (format_user r)) = js_or (line_display_name r) ''No Name'' \<and>
   card_email (user_card_of U sel (format_user r)) = (if js_truthy (email r) then email r else None) \<and>
   (card_no_channel (user_card_of U sel (format_user r)) \<longleftrightarrow>
      \<not> can_receive_email r \<and> \<not> js_truthy (line_user_id r) \<and> \<not> can_receive_push r)"
  by (auto simp: card_label_def user_card_of_def format_user_def js_or_def split: option.splits)

end
