(* ===== verification/Middleware.thy ===== *)
theory Middleware
  imports Prelude
begin

text \<open>
  \<open>src/middleware.ts\<close>: the request gate of every page. \<open>middleware\<close> decides from
  the \<open>session\<close> cookie's value and the path; \<open>config.matcher\<close> decides which paths
  it runs on. The matcher \<open>/((?!api|_next/static|_next/image|favicon.ico|sw.js|icon.png).*)\<close>
  is a regular expression: a path is matched when it starts with \<open>/\<close> and none of
  the alternatives matches at the start of the rest, where the \<open>.\<close> of
  \<open>favicon.ico\<close>, \<open>sw.js\<close> and \<open>icon.png\<close> matches any character (a pathname is
  percent-encoded, so it holds no line terminator for \<open>.\<close> to reject).
  \<open>navigate\<close> is the browser following the redirects the gate answers with.
\<close>

datatype mw_result = MwNext | MwRedirect string

definition middleware :: "string option \<Rightarrow> string \<Rightarrow> mw_result" where
  "middleware session pathname =
     (if js_truthy session \<and> (pathname = ''/login'' \<or> pathname = ''/register'')
      then MwRedirect ''/''
      else if \<not> js_truthy session \<and> pathname \<noteq> ''/login'' \<and> pathname \<noteq> ''/register''
      then MwRedirect ''/login''
      else MwNext)"

definition matcher_exclusions :: "string list" where
  "matcher_exclusions = [''api'', ''_next/static'', ''_next/image'', ''favicon.ico'', ''sw.js'', ''icon.png'']"

text \<open>A regular-expression literal matched at the start of a string, \<open>.\<close> a wildcard.\<close>

fun re_prefix :: "string \<Rightarrow> string \<Rightarrow> bool" where
  "re_prefix [] _ = True"
| "re_prefix (p # ps) [] = False"
| "re_prefix (p # ps) (c # cs) = ((p = CHR ''.'' \<or> p = c) \<and> re_prefix ps cs)"

definition matcher :: "string \<Rightarrow> bool" where
  "matcher path =
     (case path of
        [] \<Rightarrow> False
      | c # rest \<Rightarrow> c = CHR ''/'' \<and> \<not> list_ex (\<lambda>x. re_prefix x rest) matcher_exclusions)"

text \<open>What a request meets: the middleware on a matched path, the route otherwise.\<close>

definition mw_gate :: "string option \<Rightarrow> string \<Rightarrow> mw_result" where
  "mw_gate session path = (if matcher path then middleware session path else MwNext)"


text \<open>
  The browser following the redirects of \<open>NextResponse.redirect\<close>: it requests
  \<open>path\<close> and, while the gate answers with a redirect, requests the target with
  the same cookie. Nothing in the program bounds the chain, so the loop is a partial
  function whose value is \<open>None\<close> when the redirects never end; the browser lands
  on the page the gate serves.
\<close>

partial_function (option) navigate :: "string option \<Rightarrow> string \<Rightarrow> string option" where
  "navigate session path =
     (case mw_gate session path of
        MwNext \<Rightarrow> Some path
      | MwRedirect target \<Rightarrow> navigate session target)"


section \<open>Properties of the gate\<close>

lemma re_prefix_append: "re_prefix p (p @ rest)"
  by (induction p) auto

lemma matcher_api: "\<not> matcher (''/api'' @ rest)"
  using re_prefix_append [of "''api''" rest] by (simp add: matcher_def matcher_exclusions_def)

lemma mw_gate_redirect_target:
  "mw_gate session path = MwRedirect target \<Longrightarrow>
   target = (if js_truthy session then ''/'' else ''/login'')"
  by (auto simp: mw_gate_def middleware_def split: if_splits)

lemma mw_gate_landing:
  "mw_gate session (if js_truthy session then ''/'' else ''/login'') = MwNext"
  by (simp add: mw_gate_def middleware_def matcher_def matcher_exclusions_def)

lemma navigate_served: "mw_gate session path = MwNext \<Longrightarrow> navigate session path = Some path"
  by (simp add: navigate.simps)

text \<open>
  C6: the matcher excludes every path beginning with \<open>/api\<close>, so the
  notification routes (which send messages) and the auth routes are reachable
  without any session.
\<close>

theorem mw_api_unguarded: "mw_gate session (''/api'' @ rest) = MwNext"
  using matcher_api [of rest] by (simp add: mw_gate_def)

text \<open>
  C14: a request without a truthy \<open>session\<close> cookie for a matched path other than
  \<open>/login\<close> and \<open>/register\<close> is redirected to \<open>/login\<close>.
\<close>

theorem mw_unauthenticated_redirect:
  assumes "matcher path" and "\<not> js_truthy session"
    and "path \<noteq> ''/login''" and "path \<noteq> ''/register''"
  shows "mw_gate session path = MwRedirect ''/login''"
  using assms by (simp add: mw_gate_def middleware_def)

theorem mw_unauthenticated_redirect_witness:
  "matcher ''/'' \<and> \<not> js_truthy None \<and> ''/'' \<noteq> ''/login'' \<and> ''/'' \<noteq> ''/register'' \<and>
   mw_gate None ''/'' = MwRedirect ''/login''"
proof -
  have m: "matcher ''/''" by (simp add: matcher_def matcher_exclusions_def)
  show ?thesis using mw_unauthenticated_redirect [OF m, of None] m by simp
qed

text \<open>
  C15: the gate reads only the cookie's truthiness: any non-empty value is treated
  exactly like the \<open>"true"\<close> that the sign-in routes set.
\<close>

theorem mw_cookie_value_unchecked:
  assumes "js_truthy c"
  shows "mw_gate c path = mw_gate (Some ''true'') path"
  using assms by (simp add: mw_gate_def middleware_def)

theorem mw_cookie_value_unchecked_witness:
  "js_truthy (Some ''forged'') \<and> mw_gate (Some ''forged'') ''/'' = mw_gate (Some ''true'') ''/'' \<and>
   mw_gate (Some ''forged'') ''/'' = MwNext"
  using mw_cookie_value_unchecked [of "Some ''forged''" "''/''"]
  by (simp add: mw_gate_def middleware_def matcher_def matcher_exclusions_def)

text \<open>
  The \<open>.\<close> of the exclusions is a wildcard: paths such as \<open>/faviconXico\<close> bypass
  the gate as well.
\<close>

lemma mw_wildcard_exclusion: "mw_gate None ''/faviconXico'' = MwNext \<and> mw_gate None ''/swXjs'' = MwNext"
  by (simp add: mw_gate_def matcher_def matcher_exclusions_def)

text \<open>
  C37: following the middleware's redirects always ends: for every cookie and
  every path the browser lands, after at most one redirect, on a page the gate
  serves, which is the requested path, \<open>/\<close> or \<open>/login\<close>.
\<close>

theorem navigate_terminates:
  "\<exists>p. navigate session path = Some p \<and> mw_gate session p = MwNext \<and>
       p \<in> {path, ''/'', ''/login''}"
proof (cases "mw_gate session path")
  case MwNext
  then show ?thesis by (simp add: navigate_served)
next
  case (MwRedirect target)
  then have t: "target = (if js_truthy session then ''/'' else ''/login'')"
    by (rule mw_gate_redirect_target)
  have "navigate session target = Some target"
    using mw_gate_landing [of session] t by (simp add: navigate_served)
  then show ?thesis using MwRedirect mw_gate_landing [of session] t
    by (simp add: navigate.simps)
qed

end
