(* ===== verification/OAuthStart.thy ===== *)
theory OAuthStart
  imports Auth
begin

text \<open>
  The two routes that start an OAuth sign-in, \<open>api/auth/google\<close> and
  \<open>api/auth/line\<close>: each redirects to the provider's authorisation endpoint with
  a query built by \<open>new URLSearchParams(options).toString()\<close>. The serializer is
  the WHATWG \<open>application/x-www-form-urlencoded\<close> one: every byte outside ASCII
  alphanumerics and \<open>*-._\<close> is percent-encoded (upper-case hex), a space becomes
  \<open>+\<close>, pairs are \<open>name=value\<close> joined by \<open>&\<close>. An unset environment variable is
  \<open>undefined\<close> and is serialized as the text \<open>undefined\<close> (\<open>js_string\<close>). The
  provider's parser (the same specification's parsing algorithm) is modelled to
  state that the provider reads back exactly the parameters the route sent.
\<close>

record oauth_env =
  GOOGLE_CLIENT_ID :: "string option"
  GOOGLE_REDIRECT_URI :: "string option"
  LINE_CLIENT_ID :: "string option"
  NEXTAUTH_URL :: "string option"

section \<open>The serializer\<close>

definition hex_digit :: "nat \<Rightarrow> char" where
  "hex_digit k = ''0123456789ABCDEF'' ! k"

definition url_unreserved :: "char \<Rightarrow> bool" where
  "url_unreserved c \<longleftrightarrow>
     (let n = of_char c :: nat in
      48 \<le> n \<and> n \<le> 57 \<or> 65 \<le> n \<and> n \<le> 90 \<or> 97 \<le> n \<and> n \<le> 122 \<or>
      c = CHR ''*'' \<or> c = CHR ''-'' \<or> c = CHR ''.'' \<or> c = CHR ''_'')"

definition form_byte :: "char \<Rightarrow> string" where
  "form_byte c =
     (if c = CHR '' '' then ''+''
      else if url_unreserved c then [c]
      else [CHR ''%'', hex_digit (of_char c div 16), hex_digit (of_char c mod 16)])"

definition form_urlencode :: "string \<Rightarrow> string" where
  "form_urlencode s = concat (map form_byte s)"

fun join_with :: "char \<Rightarrow> string list \<Rightarrow> string" where
  "join_with c [] = []"
| "join_with c [x] = x"
| "join_with c (x # y # ys) = x @ [c] @ join_with c (y # ys)"

definition url_search_params :: "(string \<times> string) list \<Rightarrow> string" where
  "url_search_params ps =
     join_with (CHR ''&'') (map (\<lambda>(k, v). form_urlencode k @ ''='' @ form_urlencode v) ps)"

section \<open>The two routes\<close>

definition google_scope :: string where
  "google_scope =
     join_with (CHR '' '')
       [''https://www.googleapis.com/auth/userinfo.profile'',
        ''https://www.googleapis.com/auth/userinfo.email'',
        ''https://www.googleapis.com/auth/gmail.send'']"

definition google_auth_params :: "oauth_env \<Rightarrow> (string \<times> string) list" where
  "google_auth_params E =
     [(''redirect_uri'', js_string (GOOGLE_REDIRECT_URI E)),
      (''client_id'', js_string (GOOGLE_CLIENT_ID E)),
      (''access_type'', ''offline''), (''response_type'', ''code''), (''prompt'', ''consent''),
      (''scope'', google_scope)]"

definition google_auth_route :: "oauth_env \<Rightarrow> response" where
  "google_auth_route E =
     Redirect (''https://accounts.google.com/o/oauth2/v2/auth?'' @ url_search_params (google_auth_params E))"

definition line_auth_params :: "oauth_env \<Rightarrow> (string \<times> string) list" where
  "line_auth_params E =
     [(''response_type'', ''code''), (''client_id'', js_string (LINE_CLIENT_ID E)),
      (''redirect_uri'', js_string (NEXTAUTH_URL E) @ ''/api/auth/line/callback''),
      (''state'', ''random_state_string''), (''scope'', ''openid profile''), (''bot_prompt'', ''normal'')]"

definition line_auth_route :: "oauth_env \<Rightarrow> response" where
  "line_auth_route E =
     Redirect (''https://access.line.me/oauth2/v2.1/authorize?'' @ url_search_params (line_auth_params E))"

section \<open>The provider's parser\<close>

definition hex_val :: "char \<Rightarrow> nat option" where
  "hex_val c =
     (let n = of_char c :: nat in
      if 48 \<le> n \<and> n \<le> 57 then Some (n - 48)
      else if 65 \<le> n \<and> n \<le> 70 then Some (n - 55)
      else if 97 \<le> n \<and> n \<le> 102 then Some (n - 87)
      else None)"

text \<open>Replace \<open>+\<close> by a space and percent-decode; a malformed escape stays as it is.\<close>

fun form_decode :: "string \<Rightarrow> string" where
  "form_decode [] = []"
| "form_decode (c # cs) =
     (if c = CHR ''+'' then CHR '' '' # form_decode cs
      else if c = CHR ''%'' then
        (case cs of
           h1 # h2 # rest \<Rightarrow>
             (case (hex_val h1, hex_val h2) of
                (Some a, Some b) \<Rightarrow> char_of (a * 16 + b) # form_decode rest
              | _ \<Rightarrow> c # form_decode cs)
         | _ \<Rightarrow> c # form_decode cs)
      else c # form_decode cs)"

fun split_on :: "char \<Rightarrow> string \<Rightarrow> string list" where
  "split_on c [] = [[]]"
| "split_on c (x # xs) =
     (if x = c then [] # split_on c xs
      else (case split_on c xs of y # ys \<Rightarrow> (x # y) # ys | [] \<Rightarrow> [[x]]))"

definition parse_pair :: "string \<Rightarrow> string \<times> string" where
  "parse_pair p =
     (form_decode (takeWhile (\<lambda>x. x \<noteq> CHR ''='') p),
      form_decode (drop 1 (dropWhile (\<lambda>x. x \<noteq> CHR ''='') p)))"

definition parse_query :: "string \<Rightarrow> (string \<times> string) list" where
  "parse_query q = map parse_pair (filter (\<lambda>x. x \<noteq> []) (split_on (CHR ''&'') q))"


section \<open>Properties of the start routes\<close>

lemma hex_roundtrip: "k < 16 \<Longrightarrow> hex_val (hex_digit k) = Some k"
proof -
  have "list_all (\<lambda>k. hex_val (hex_digit k) = Some k) [0..<16]" by code_simp
  then show "k < 16 \<Longrightarrow> ?thesis" by (simp add: list_all_iff)
qed

lemma hex_digit_plain: "k < 16 \<Longrightarrow> hex_digit k \<noteq> CHR ''&'' \<and> hex_digit k \<noteq> CHR ''=''"
proof -
  have "list_all (\<lambda>k. hex_digit k \<noteq> CHR ''&'' \<and> hex_digit k \<noteq> CHR ''='') [0..<16]" by code_simp
  then show "k < 16 \<Longrightarrow> ?thesis" by (simp add: list_all_iff)
qed

lemma unreserved_plain:
  "url_unreserved c \<Longrightarrow> c \<noteq> CHR ''+'' \<and> c \<noteq> CHR ''%'' \<and> c \<noteq> CHR ''&'' \<and> c \<noteq> CHR ''=''"
  by (auto simp: url_unreserved_def)

lemma byte_split16: "(of_char c :: nat) div 16 < 16" "(of_char c :: nat) mod 16 < 16"
  using nat_of_char_less_256 [of c] by (simp_all add: div_less_iff_less_mult)

lemma form_decode_byte: "form_decode (form_byte c @ rest) = c # form_decode rest"
proof -
  consider "c = CHR '' ''" | "c \<noteq> CHR '' ''" "url_unreserved c" | "c \<noteq> CHR '' ''" "\<not> url_unreserved c"
    by blast
  then show ?thesis
  proof cases
    case 1 then show ?thesis by (simp add: form_byte_def)
  next
    case 2 then show ?thesis using unreserved_plain [of c] by (simp add: form_byte_def)
  next
    case 3
    have "char_of ((of_char c :: nat) div 16 * 16 + of_char c mod 16) = c"
      by (simp add: char_of_char)
    then show ?thesis using 3
      by (simp add: form_byte_def hex_roundtrip byte_split16)
  qed
qed

lemma form_decode_encode: "form_decode (form_urlencode s) = s"
  by (induction s) (simp_all add: form_urlencode_def form_decode_byte)

lemma form_byte_plain: "CHR ''&'' \<notin> set (form_byte c) \<and> CHR ''='' \<notin> set (form_byte c)"
proof (cases "url_unreserved c")
  case True
  then show ?thesis using unreserved_plain [OF True] by (auto simp: form_byte_def)
next
  case False
  have "hex_digit (of_char c div 16) \<noteq> CHR ''&'' \<and> hex_digit (of_char c div 16) \<noteq> CHR ''=''"
    "hex_digit (of_char c mod 16) \<noteq> CHR ''&'' \<and> hex_digit (of_char c mod 16) \<noteq> CHR ''=''"
    using hex_digit_plain byte_split16 by blast+
  then show ?thesis using False by (auto simp: form_byte_def)
qed

lemma form_urlencode_plain: "CHR ''&'' \<notin> set (form_urlencode s) \<and> CHR ''='' \<notin> set (form_urlencode s)"
  using form_byte_plain by (auto simp: form_urlencode_def)

lemma split_on_no_sep: "c \<notin> set x \<Longrightarrow> split_on c x = [x]"
  by (induction x) auto

lemma split_on_sep: "c \<notin> set x \<Longrightarrow> split_on c (x @ c # rest) = x # split_on c rest"
  by (induction x) auto

lemma split_on_join:
  "xs \<noteq> [] \<Longrightarrow> \<forall>x\<in>set xs. c \<notin> set x \<Longrightarrow> split_on c (join_with c xs) = xs"
  by (induction c xs rule: join_with.induct) (auto simp: split_on_no_sep split_on_sep)

lemma parse_pair_enc:
  "parse_pair (form_urlencode k @ CHR ''='' # form_urlencode v) = (k, v)"
  using form_urlencode_plain [of k]
  by (simp add: parse_pair_def takeWhile_append dropWhile_append form_decode_encode)

lemma parse_query_url_search_params: "parse_query (url_search_params ps) = ps"
proof (cases "ps = []")
  case True
  then show ?thesis by (simp add: parse_query_def url_search_params_def)
next
  case False
  let ?xs = "map (\<lambda>(k, v). form_urlencode k @ ''='' @ form_urlencode v) ps"
  have "split_on (CHR ''&'') (join_with (CHR ''&'') ?xs) = ?xs"
    using False form_urlencode_plain by (intro split_on_join) auto
  moreover have "filter (\<lambda>x. x \<noteq> []) ?xs = ?xs" by (auto simp: filter_id_conv)
  moreover have "map parse_pair ?xs = ps" by (induction ps) (auto simp: parse_pair_enc)
  ultimately show ?thesis by (simp add: parse_query_def url_search_params_def)
qed


text \<open>
  C33: both start routes redirect to their provider's endpoint with a query from
  which the provider's parser recovers exactly these parameters, in this order:
  for Google the redirect URI and client id from the environment (the text
  \<open>undefined\<close> when unset), offline access, the code flow, forced consent,
  and the profile, e-mail and gmail.send scopes separated by spaces; for LINE the
  code flow, the client id, the callback under \<open>NEXTAUTH_URL\<close>, the fixed
  state \<open>random_state_string\<close>, the OpenID profile scope and the normal bot
  prompt.
\<close>

theorem oauth_start_query:
  "(\<exists>q. google_auth_route E = Redirect (''https://accounts.google.com/o/oauth2/v2/auth?'' @ q) \<and>
        parse_query q =
          [(''redirect_uri'', js_string (GOOGLE_REDIRECT_URI E)),
           (''client_id'', js_string (GOOGLE_CLIENT_ID E)),
           (''access_type'', ''offline''), (''response_type'', ''code''), (''prompt'', ''consent''),
           (''scope'', ''https://www.googleapis.com/auth/userinfo.profile https://www.googleapis.com/auth/userinfo.email https://www.googleapis.com/auth/gmail.send'')]) \<and>
   (\<exists>q. line_auth_route E = Redirect (''https://access.line.me/oauth2/v2.1/authorize?'' @ q) \<and>
        parse_query q =
          [(''response_type'', ''code''), (''client_id'', js_string (LINE_CLIENT_ID E)),
           (''redirect_uri'', js_string (NEXTAUTH_URL E) @ ''/api/auth/line/callback''),
           (''state'', ''random_state_string''), (''scope'', ''openid profile''),
           (''bot_prompt'', ''normal'')])"
  by (simp add: google_auth_route_def line_auth_route_def parse_query_url_search_params
      google_auth_params_def line_auth_params_def google_scope_def)

end
