(* ===== verification/PageEvents.thy ===== *)
theory PageEvents
  imports Pages Middleware OAuthStart
begin

text \<open>
  The rendered sign-in pages: the events their elements deliver and what each
  page shows. An element that is disabled delivers no event: the inputs and the
  submit button of both forms carry \<open>disabled={loading}\<close>. A form with an empty
  \<open>required\<close> field is not submitted (HTML constraint validation, which does not
  trim). The social-login and page-switch buttons have no \<open>disabled\<close> attribute
  and only navigate. The view records hold what the JSX computes from the state:
  which banners appear, the submit button's label and whether the form is disabled.
\<close>

section \<open>Labels\<close>

definition msg_logging_in :: string where
  "msg_logging_in = utf8 [0x0E01, 0x0E33, 0x0E25, 0x0E31, 0x0E07, 0x0E40, 0x0E02, 0x0E49, 0x0E32,
     0x0E2A, 0x0E39, 0x0E48, 0x0E23, 0x0E30, 0x0E1A, 0x0E1A] @ ''...''"

definition msg_login_button :: string where
  "msg_login_button = utf8 [0x0E40, 0x0E02, 0x0E49, 0x0E32, 0x0E2A, 0x0E39, 0x0E48, 0x0E23, 0x0E30,
     0x0E1A, 0x0E1A]"

definition msg_saving :: string where
  "msg_saving = utf8 [0x0E01, 0x0E33, 0x0E25, 0x0E31, 0x0E07, 0x0E1A, 0x0E31, 0x0E19, 0x0E17, 0x0E36,
     0x0E01, 0x0E02, 0x0E49, 0x0E2D, 0x0E21, 0x0E39, 0x0E25] @ ''...''"

definition msg_signup_button :: string where
  "msg_signup_button = utf8 [0x0E2A, 0x0E21, 0x0E31, 0x0E04, 0x0E23, 0x0E2A, 0x0E21, 0x0E32, 0x0E0A,
     0x0E34, 0x0E01]"

text \<open>
  The register page's success banner: "registration complete! going to the sign-in
  page...", whose last word is the sign-in page's own title.
\<close>

definition msg_signup_done :: string where
  "msg_signup_done = utf8 [0x0E2A, 0x0E21, 0x0E31, 0x0E04, 0x0E23, 0x0E2A, 0x0E21, 0x0E32, 0x0E0A,
     0x0E34, 0x0E01, 0x0E40, 0x0E23, 0x0E35, 0x0E22, 0x0E1A, 0x0E23, 0x0E49, 0x0E2D, 0x0E22, 0x0E41,
     0x0E25, 0x0E49, 0x0E27] @ ''! '' @ utf8 [0x0E01, 0x0E33, 0x0E25, 0x0E31, 0x0E07, 0x0E44, 0x0E1B,
     0x0E2B, 0x0E19, 0x0E49, 0x0E32, 0x0E40, 0x0E02, 0x0E49, 0x0E32, 0x0E2A, 0x0E39, 0x0E48, 0x0E23,
     0x0E30, 0x0E1A, 0x0E1A] @ ''...''"

section \<open>Login page\<close>

datatype login_event = LgSubmit string string | LgGoogle | LgLine | LgRegister

fun login_step :: "auth_providers \<Rightarrow> login_event \<Rightarrow> login_page \<times> sys \<Rightarrow> login_page \<times> sys" where
  "login_step A (LgSubmit u p) (pg, s) =
     (if lg_loading pg \<or> u = [] \<or> p = [] then (pg, s) else handleLoginSubmit A u p pg s)"
| "login_step A LgGoogle (pg, s) = (pg\<lparr>lg_location := Some ''/api/auth/google''\<rparr>, s)"
| "login_step A LgLine (pg, s) = (pg\<lparr>lg_location := Some ''/api/auth/line''\<rparr>, s)"
| "login_step A LgRegister (pg, s) = (pg\<lparr>lg_location := Some ''/register''\<rparr>, s)"

fun login_run :: "auth_providers \<Rightarrow> login_event list \<Rightarrow> login_page \<times> sys \<Rightarrow> login_page \<times> sys" where
  "login_run A [] ps = ps"
| "login_run A (e # es) ps = login_run A es (login_step A e ps)"

record login_view =
  lv_error :: "string option"
  lv_button :: string
  lv_disabled :: bool

definition login_render :: "login_page \<Rightarrow> login_view" where
  "login_render pg =
     \<lparr>lv_error = (if lg_error pg \<noteq> [] then Some (lg_error pg) else None),
      lv_button = (if lg_loading pg then msg_logging_in else msg_login_button),
      lv_disabled = lg_loading pg\<rparr>"

section \<open>Register page\<close>

datatype register_event = RgChange reg_field string | RgSubmit | RgGoogle | RgLine | RgLogin

text \<open>
  \<open>handleGoogleLogin\<close> and \<open>handleLineLogin\<close> set \<open>loading\<close> and navigate to the
  OAuth start routes; the footer button runs \<open>router.push("/login")\<close>.
\<close>

fun register_step ::
  "auth_providers \<Rightarrow> providers \<Rightarrow> sw_state \<Rightarrow> register_event \<Rightarrow> register_page \<times> sys \<Rightarrow>
   register_page \<times> sys" where
  "register_step A P sw (RgChange f v) (pg, s) =
     (if rp_loading pg then (pg, s) else (handleChange f v pg, s))"
| "register_step A P sw RgSubmit (pg, s) =
     (if rp_loading pg \<or> rp_username pg = [] \<or> rp_password pg = [] \<or> rp_confirm pg = []
      then (pg, s) else register_submit A P sw pg s)"
| "register_step A P sw RgGoogle (pg, s) =
     (pg\<lparr>rp_loading := True, rp_location := Some ''/api/auth/google''\<rparr>, s)"
| "register_step A P sw RgLine (pg, s) =
     (pg\<lparr>rp_loading := True, rp_location := Some ''/api/auth/line''\<rparr>, s)"
| "register_step A P sw RgLogin (pg, s) = (pg\<lparr>rp_location := Some ''/login''\<rparr>, s)"

fun register_run ::
  "auth_providers \<Rightarrow> providers \<Rightarrow> sw_state \<Rightarrow> register_event list \<Rightarrow> register_page \<times> sys \<Rightarrow>
   register_page \<times> sys" where
  "register_run A P sw [] ps = ps"
| "register_run A P sw (e # es) ps = register_run A P sw es (register_step A P sw e ps)"

record register_view =
  rv_error :: "string option"
  rv_success :: "string option"
  rv_button :: string
  rv_disabled :: bool

definition register_render :: "register_page \<Rightarrow> register_view" where
  "register_render pg =
     \<lparr>rv_error = (if rp_error pg \<noteq> [] then Some (rp_error pg) else None),
      rv_success = (if rp_success pg then Some msg_signup_done else None),
      rv_button = (if rp_loading pg then msg_saving else msg_signup_button),
      rv_disabled = rp_loading pg\<rparr>"


section \<open>Properties of the sign-in pages\<close>

lemma handleChange_flags [simp]:
  "rp_error (handleChange f v pg) = rp_error pg" "rp_success (handleChange f v pg) = rp_success pg"
  "rp_loading (handleChange f v pg) = rp_loading pg" "rp_location (handleChange f v pg) = rp_location pg"
  by (cases f; simp)+

lemma session_landing: "navigate (Some ''true'') ''/'' = Some ''/''"
  by (rule navigate_served) (simp add: mw_gate_def middleware_def matcher_def matcher_exclusions_def)

text \<open>The register page never shows its error banner and its success banner together.\<close>

definition register_banners_ok :: "register_page \<Rightarrow> bool" where
  "register_banners_ok pg \<longleftrightarrow> \<not> (rv_error (register_render pg) \<noteq> None \<and> rv_success (register_render pg) \<noteq> None)"

lemma register_step_banners:
  "register_banners_ok pg \<Longrightarrow> register_banners_ok (fst (register_step A P sw e (pg, s)))"
  by (cases e)
    (auto simp: register_banners_ok_def register_render_def register_submit_def reg_fail_def
      Let_def prod.case_eq_if split: if_splits)

lemma register_run_banners:
  "register_banners_ok (fst ps) \<Longrightarrow> register_banners_ok (fst (register_run A P sw es ps))"
proof (induction es arbitrary: ps)
  case (Cons e es)
  then show ?case using register_step_banners [of "fst ps"] by (cases ps) simp
qed simp

text \<open>
  Every login submission ends in one of two visible outcomes: the page navigates to
  \<open>/\<close> with the session cookie set, where the gate serves the dashboard, or it
  shows an error banner with the form enabled again.
\<close>

lemma login_error_text_nonempty: "login_error_text r \<noteq> []"
  by (cases r rule: login_error_text.cases) (auto simp: msg_bad_credentials_def utf8_def)

lemma login_route_success_session:
  "fst (login_route A req s) = Json 200 JSuccess \<Longrightarrow> session (snd (login_route A req s)) = Some ''true''"
  by (auto simp: login_route_def Let_def set_session_def split: option.splits if_splits)

lemma login_submit_outcome:
  "lg_location (fst (handleLoginSubmit A u p pg s)) = Some ''/'' \<and>
     navigate (session (snd (handleLoginSubmit A u p pg s))) ''/'' = Some ''/'' \<or>
   lv_error (login_render (fst (handleLoginSubmit A u p pg s))) \<noteq> None \<and>
     \<not> lv_disabled (login_render (fst (handleLoginSubmit A u p pg s)))"
  using login_route_success_session [of A "\<lparr>cq_username = Some u, cq_password = Some p\<rparr>"]
    login_error_text_nonempty session_landing
  by (auto simp: handleLoginSubmit_def login_render_def Let_def prod.case_eq_if)

text \<open>
  The Gmail button of either page leads the browser, without any session, through
  the ungated \<open>/api/auth/google\<close> to Google's consent page.
\<close>

lemma google_button_reaches_consent:
  "lg_location (fst (login_step A LgGoogle (pg, s))) = Some ''/api/auth/google'' \<and>
   rp_location (fst (register_step A P sw RgGoogle (rpg, s))) = Some ''/api/auth/google'' \<and>
   navigate c ''/api/auth/google'' = Some ''/api/auth/google'' \<and>
   (\<exists>q. google_auth_route E = Redirect (''https://accounts.google.com/o/oauth2/v2/auth?'' @ q))"
  using navigate_served [of c "''/api/auth/google''"] mw_api_unguarded [of c "''/auth/google''"]
  by (simp add: google_auth_route_def)

text \<open>
  C38: after a successful sign-up the page announces that it is going to the sign-in
  page (its success banner ends with the sign-in page's title), but it sets the
  session cookie and navigates to \<open>/\<close>, where the gate serves the dashboard.
\<close>

theorem register_success_lands_on_dashboard:
  assumes "rp_success (fst (register_submit A P sw pg s))"
  shows "rv_success (register_render (fst (register_submit A P sw pg s))) = Some msg_signup_done \<and>
         (\<exists>a. msg_signup_done = a @ msg_login_button @ ''...'') \<and>
         rp_location (fst (register_submit A P sw pg s)) = Some ''/'' \<and>
         navigate (session (snd (register_submit A P sw pg s))) ''/'' = Some ''/''"
proof -
  have m: "\<exists>a. msg_signup_done = a @ msg_login_button @ ''...''"
  proof
    show "msg_signup_done = (utf8 [0x0E2A, 0x0E21, 0x0E31, 0x0E04, 0x0E23, 0x0E2A, 0x0E21, 0x0E32, 0x0E0A,
     0x0E34, 0x0E01, 0x0E40, 0x0E23, 0x0E35, 0x0E22, 0x0E1A, 0x0E23, 0x0E49, 0x0E2D, 0x0E22, 0x0E41,
     0x0E25, 0x0E49, 0x0E27] @ ''! '' @ utf8 [0x0E01, 0x0E33, 0x0E25, 0x0E31, 0x0E07, 0x0E44, 0x0E1B,
     0x0E2B, 0x0E19, 0x0E49, 0x0E32]) @ msg_login_button @ ''...''"
      by (simp add: msg_signup_done_def msg_login_button_def flip: utf8_append)
  qed
  show ?thesis
    using assms session_landing m
    by (auto simp: register_render_def register_submit_def reg_fail_def set_session_def Let_def
        prod.case_eq_if split: if_splits)
qed

theorem register_success_lands_on_dashboard_witness:
  "let A = \<lparr>bcrypt_hash = \<lambda>p. ''$2b$'' @ p, bcrypt_compare = \<lambda>p h. h = ''$2b$'' @ p,
            google_token = \<lambda>_. None, google_userinfo = \<lambda>_. None, line_token = \<lambda>_. Inl [],
            line_profile_of = \<lambda>_. Inl [], nextauth_url = None\<rparr>;
       P = \<lparr>line_multicast = \<lambda>_ _. NetResponse 200 [], gmail_send = \<lambda>_ _. None,
            web_push = \<lambda>_ _. Delivered, base_url = None\<rparr>;
       pg = \<lparr>rp_username = ''alice'', rp_password = ''secret1'', rp_confirm = ''secret1'',
             rp_loading = False, rp_error = [], rp_success = False, rp_location = None\<rparr>
   in rp_success (fst (register_submit A P SwAbsent pg init_sys)) \<and>
      rv_success (register_render (fst (register_submit A P SwAbsent pg init_sys))) = Some msg_signup_done \<and>
      rp_location (fst (register_submit A P SwAbsent pg init_sys)) = Some ''/'' \<and>
      navigate (session (snd (register_submit A P SwAbsent pg init_sys))) ''/'' = Some ''/''"
proof -
  define A where "A = \<lparr>bcrypt_hash = \<lambda>p. ''$2b$'' @ p, bcrypt_compare = \<lambda>p h. h = ''$2b$'' @ p,
            google_token = \<lambda>_. None, google_userinfo = \<lambda>_. None, line_token = \<lambda>_. Inl [],
            line_profile_of = \<lambda>_. Inl [], nextauth_url = None\<rparr>"
  define P where "P = \<lparr>line_multicast = \<lambda>_ _. NetResponse 200 [], gmail_send = \<lambda>_ _. None,
            web_push = \<lambda>_ _. Delivered, base_url = None\<rparr>"
  define pg where "pg = \<lparr>rp_username = ''alice'', rp_password = ''secret1'', rp_confirm = ''secret1'',
             rp_loading = False, rp_error = [], rp_success = False, rp_location = None\<rparr>"
  have t: "js_trim (rp_username pg) = ''alice''"
    by (simp add: pg_def js_trim_def ws_seqs_def trim_start.simps trim_end.simps
        cong: option.case_cong_weak)
  have l: "js_length (rp_password pg) = 7"
    by (simp add: pg_def js_length_def utf16_units_def)
  have ok: "resp_ok (fst (register_route A \<lparr>cq_username = Some (rp_username pg), cq_password = Some (rp_password pg)\<rparr>
             (record_fetch (ApiRegister \<lparr>cq_username = Some (rp_username pg), cq_password = Some (rp_password pg)\<rparr>) init_sys)))"
    by (simp add: register_route_def A_def pg_def find_user_def create_user_def unique_ok_def
        init_sys_def empty_db_def record_fetch_def resp_ok_def Let_def)
  have s: "rp_success (fst (register_submit A P SwAbsent pg init_sys))"
    using t l ok by (simp add: register_submit_def Let_def prod.case_eq_if pg_def)
  show ?thesis
    using register_success_lands_on_dashboard [OF s] s by (simp add: Let_def A_def P_def pg_def)
qed

end
