(* ===== verification/Spec2Isabelle.thy ===== *)
theory Spec2Isabelle
  imports System DashboardView PageEvents
begin

text \<open>
  \<^bold>\<open>Verification development of the multi-channel notification dashboard.\<close>

  The program (\<open>src/src\<close>) is a Next.js application. An operator picks users from a
  directory page and sends one message over up to three channels: the LINE
  Messaging API (one multicast), Gmail (one API call per user, with the user's
  stored OAuth refresh token) and browser web-push (one call per stored
  subscription). Users sign up with a username and password, or are meant to sign
  in with Google or LINE; a \<open>session\<close> cookie and a middleware guard the pages.

  \<^bold>\<open>How the parts interact.\<close> The browser component
  \<open>components/DashboardClient.tsx\<close> holds the form state and posts to the three
  routes under \<open>app/api/notifications/\<close>; the routes read the Prisma store and call
  the external services. The register page posts to \<open>api/auth/register\<close> and then
  to \<open>api/notifications/subscribe\<close>; the login page posts to \<open>api/auth/login\<close>; the
  OAuth start routes redirect to the providers, whose callbacks update the store
  and set the cookie. \<open>middleware.ts\<close> decides, per request, whether a page is
  served. In the model each client handler runs the route models it fetches, and
  \<open>System.reach\<close> composes every operation in any order.

  \<^bold>\<open>Theories and what they model.\<close>
  \<^item> \<open>Prelude\<close>: JavaScript conventions shared by all components. A JS string is
    its UTF-8 byte sequence (\<open>utf8\<close>); truthiness and \<open>||\<close> (\<open>js_truthy\<close>,
    \<open>js_or\<close>); \<open>filter(!!x)\<close> (\<open>truthy_strs\<close>); \<open>String.prototype.trim\<close> over
    the ECMAScript white-space code points (\<open>js_trim\<close>); \<open>length\<close> in UTF-16 units
    (\<open>js_length\<close>); \<open>Response.ok\<close> (\<open>http_ok\<close>); generic list lemmas.
  \<^item> \<open>Ids\<close>: \<open>user.id.toString()\<close> (\<open>dec_string\<close>), \<open>parseInt\<close> (\<open>parse_int\<close>)
    and \<open>Number\<close> (\<open>js_number\<close>: the whole \<open>StringNumericLiteral\<close> grammar), both
    rounded to IEEE binary64 (\<open>round_binary64\<close>, ties to even) and kept only when
    the result is an integer, as the Prisma \<open>Int\<close> column requires.
  \<^item> \<open>Store\<close>: the Prisma models \<open>User\<close> and \<open>PushSubscription\<close> (the schema is
    not in the repository: columns and constraints come from the call sites) and
    the client calls \<open>find_user\<close>, \<open>create_user\<close> (fails on a unique violation or
    once the 32-bit id space is used up), \<open>update_user\<close>, \<open>active_subs\<close>,
    \<open>delete_sub\<close> (fails on a missing row). \<open>db_wf\<close> is the store invariant;
    \<open>users_map\<close> is the abstract view of the user table as a map.
  \<^item> \<open>Directory\<close>, \<open>Selection\<close>: \<open>app/page.tsx\<close> and the dashboard's
    eligibility filters, counts and recipient selection.
  \<^item> \<open>Mime\<close>: the Gmail message (RFC 2047 subject, MIME text, Node's base64 and the
    route's base64url rewrite) and the register page's decoder
    \<open>urlBase64ToUint8Array\<close> with the browser's \<open>atob\<close>.
  \<^item> \<open>Server\<close>: responses, request bodies (\<open>json_route\<close>: a body that is not JSON
    makes every route answer 500), the provider oracle and the system
    state \<open>sys\<close> (store, outbox of external calls, session cookie, browser console,
    client fetches).
  \<^item> \<open>Senders\<close>: \<open>api/notifications/subscribe\<close> (\<open>push_route\<close>, with
    \<open>push_one\<close>/\<open>push_each\<close> for the \<open>Promise.allSettled\<close> fan-out and the 404/410
    clean-up), \<open>api/notifications/google\<close> (\<open>gmail_route\<close>) and
    \<open>api/notifications/line\<close> (\<open>line_route\<close>).
  \<^item> \<open>Dispatch\<close>: \<open>handleSubmit\<close> of the dashboard (validation, the LINE request,
    the sequential Gmail and push loops, success reset, error path, \<open>finally\<close>).
  \<^item> \<open>DashboardUI\<close>: the other dashboard events (message, channel checkboxes with
    their disabled state, schedule controls, recipients, the logout modal and its
    overlay) as \<open>dash_step\<close>, and \<open>dash_run\<close> over event sequences.
  \<^item> \<open>DashboardView\<close>: what the dashboard's JSX shows (\<open>dash_render\<close>): the
    notification banner, the submit and select-all labels, the selection counter and
    one card per recipient (\<open>user_card_of\<close>: avatar, title, e-mail line, badges).
  \<^item> \<open>Auth\<close>: \<open>api/auth/register\<close>, \<open>api/auth/login\<close>, the server actions
    \<open>loginAction\<close>/\<open>logoutAction\<close>, and both OAuth callbacks.
  \<^item> \<open>OAuthStart\<close>: \<open>api/auth/google\<close> and \<open>api/auth/line\<close> with the
    \<open>URLSearchParams\<close> serializer, and the provider's parser.
  \<^item> \<open>Pages\<close>: \<open>handleLoginSubmit\<close> of the login page and \<open>handleChange\<close>/
    \<open>handleSubmit\<close> (\<open>register_submit\<close>) of the register page.
  \<^item> \<open>PageEvents\<close>: the events both sign-in pages deliver (\<open>login_step\<close>,
    \<open>register_step\<close>: the forms with their \<open>required\<close> fields and
    \<open>disabled={loading}\<close>, the Gmail, LINE and page-switch buttons) and what they
    show (\<open>login_render\<close>, \<open>register_render\<close>).
  \<^item> \<open>Middleware\<close>: \<open>middleware\<close> and its \<open>config.matcher\<close> (\<open>mw_gate\<close>),
    and \<open>navigate\<close>, the browser following the gate's redirects.
  \<^item> \<open>System\<close>: \<open>reach\<close>, the states reachable from a fresh deployment by any
    sequence of operations, and the invariant \<open>sys_inv\<close> proved by rule induction.

  \<^bold>\<open>External services.\<close> LINE, Gmail, web-push, bcrypt and the OAuth token and
  profile endpoints are not part of the program. The records \<open>providers\<close> and
  \<open>auth_providers\<close> are arbitrary oracles for their answers (\<open>None\<close> or \<open>Inl\<close> for a
  call that throws), and every outgoing call is appended to \<open>outbox\<close>, so the
  theorems about which calls happen, how many and in which order hold for every
  provider behaviour. Each operation is atomic; \<open>Promise.allSettled\<close> runs its
  tasks in list order.

  \<^bold>\<open>Bounds and fuel.\<close> Ids are naturals below 2^31 (Prisma's 32-bit \<open>Int\<close>);
  printed ids read back exactly below 2^53, where binary64 stops representing
  every integer. \<open>create_user\<close> refuses the id 2^31 and \<open>db_wf\<close> keeps the counter within it.
  Every function is total (structural recursion, or \<open>function\<close> with a measure for
  the trims and the binary logarithm \<open>int_log2\<close>), so no fuel is needed, except \<open>navigate\<close>: nothing in the program
  bounds a redirect chain, so it is a \<open>partial_function (option)\<close> whose value
  \<open>None\<close> would be an endless chain, and C37 proves it always returns. A promise
  that never settles (\<open>serviceWorker.ready\<close>) is modelled as the handler stopping
  there.

  \<^bold>\<open>What the theorems show\<close> (claims C1-C38, most important first).
  The whole system (C1, C3, C20): no e-mail or push is ever sent in any reachable
  state, the OAuth callbacks never sign anyone in, and the push route always
  answers 404; \<open>System\<close> also proves the store invariant in every reachable state.
  Sign-up and sign-in (C2, C9, C12, C13, C19, C32, C34): sign-up never stores a
  subscription and hangs when the service worker never becomes ready; the register
  route's two 400 answers leave the state unchanged; a registered user can log in;
  login sets the session only on a matching password; on the user table viewed as
  a map, registration inserts exactly the new row at the next id; the register
  response carries the id the page reads. The dispatcher (C4, C5, C8, C11, C17,
  C18, C21, C26): a LINE failure aborts the other channels; the success path posts
  LINE, Gmail, push in that order and resets the form; validation errors; a channel
  left checked when no selected user can receive on any channel yields a "success"
  that sends nothing; the two fan-outs; the UI invariant over any event sequence;
  scheduling has no effect. The senders (C7, C16, C23, C35, C36): the push route on
  every branch, gone endpoints, one uncapped LINE multicast, the Gmail route's
  token guard. The guard (C6, C14, C15): \<open>/api\<close> is never guarded, pages
  redirect to \<open>/login\<close>, any truthy cookie is a session. Data (C10, C22,
  C24, C25, C27-C31, C33): targets and counts, the base64url round trip and the
  URL-safety of the raw message, the selection, the ids in the Gmail and push
  requests resolving to the row they were printed from, and the exact OAuth query
  parameters. Navigation (C37, C38): the redirect chain always ends, after at most
  one redirect, on a served page; a successful sign-up announces the sign-in page
  but lands on the dashboard. \<open>DashboardView\<close> and
  \<open>PageEvents\<close> also prove that the dashboard's counter and select-all label agree
  with the ticked cards, that the register page never shows both banners, and that
  every login submission either lands on the dashboard or shows an error. \<open>Ids\<close>
  shows that \<open>parseInt\<close> and \<open>Number\<close> read every printed id below 2^53
  back exactly (binary64 rounding is exact there) and that \<open>Number\<close> also reads
  a zero fraction such as \<open>"12.0"\<close> as the id; \<open>Store\<close> shows that
  \<open>create_user\<close> refines insertion into \<open>users_map\<close> at a fresh key.

  \<^bold>\<open>Not modelled.\<close> React's rendering machinery and styling (the view records
  keep only what the JSX computes); Unicode case mapping outside ASCII (an oracle
  of \<open>dash_render\<close>); the service worker
  (\<open>public/sw.js\<close>) and \<open>pushManager.subscribe\<close>, summarised by \<open>sw_state\<close>;
  \<open>console.log\<close> of successful responses; the text of the runtime's \<open>SyntaxError\<close> for a body that is not JSON (an
  arbitrary \<open>Malformed\<close> message); the login page's network-failure branch; the 1.5 s \<open>setTimeout\<close> before navigation (navigation is
  recorded at once); \<open>lib/supabase.ts\<close>, which no module imports.
\<close>

end
